theory Spec2Isabelle
  imports Main
begin

section \<open>Python strings over Latin-1\<close>

text \<open>
  The programs read page texts as Python \<open>str\<close> values, that is, sequences of Unicode code
  points, and every operation below (\<open>len\<close>, slicing, \<open>in\<close>, the \<open>re\<close> module) counts code
  points. A text is modelled as a \<open>string\<close> whose characters are the code points
  U+0000 to U+00FF (Latin-1): \<open>cp c\<close> is the code point of \<open>c\<close>. The accented letters of the
  patterns (U+00E1, U+00ED, U+00F3, the degree sign U+00B0) are single characters, as in
  Python. Code points above U+00FF are outside the model; the only one the source names is
  the en dash in one character set of \<open>extraer_pv_nro\<close>, noted there.

  The character classes are those of CPython for \<open>str\<close> patterns, restricted to Latin-1.
\<close>

definition cp :: "char \<Rightarrow> nat" where
  "cp c = of_char c"

definition is_digit :: "char \<Rightarrow> bool" where
  \<comment> \<open>\<open>\d\<close>: the decimal digits; in Latin-1 only 0 to 9\<close>
  "is_digit c = (48 \<le> cp c \<and> cp c \<le> 57)"

definition is_space :: "char \<Rightarrow> bool" where
  \<comment> \<open>\<open>\s\<close> and \<open>str.isspace\<close>: TAB, LF, VT, FF, CR, FS, GS, RS, US, space, NEL, NBSP\<close>
  "is_space c = ((9 \<le> cp c \<and> cp c \<le> 13) \<or> (28 \<le> cp c \<and> cp c \<le> 32) \<or> cp c = 133 \<or> cp c = 160)"

definition is_word :: "char \<Rightarrow> bool" where
  \<comment> \<open>\<open>\w\<close>: \<open>str.isalnum\<close> or underscore\<close>
  "is_word c = ((48 \<le> cp c \<and> cp c \<le> 57) \<or> (65 \<le> cp c \<and> cp c \<le> 90) \<or> cp c = 95
     \<or> (97 \<le> cp c \<and> cp c \<le> 122) \<or> cp c = 170 \<or> cp c = 178 \<or> cp c = 179 \<or> cp c = 181
     \<or> cp c = 185 \<or> cp c = 186 \<or> (188 \<le> cp c \<and> cp c \<le> 190) \<or> (192 \<le> cp c \<and> cp c \<le> 214)
     \<or> (216 \<le> cp c \<and> cp c \<le> 246) \<or> 248 \<le> cp c)"

definition isdigit_char :: "char \<Rightarrow> bool" where
  \<comment> \<open>\<open>str.isdigit\<close> on one character: 0 to 9 and the superscripts two, three, one\<close>
  "isdigit_char c = (is_digit c \<or> cp c = 178 \<or> cp c = 179 \<or> cp c = 185)"

definition lower_char :: "char \<Rightarrow> char" where
  \<comment> \<open>\<open>str.lower\<close> on one character: A to Z and U+00C0 to U+00DE without the times sign\<close>
  "lower_char c = (if (65 \<le> cp c \<and> cp c \<le> 90) \<or> (192 \<le> cp c \<and> cp c \<le> 214) \<or> (216 \<le> cp c \<and> cp c \<le> 222)
     then char_of (cp c + 32) else c)"

definition upper_char :: "char \<Rightarrow> char" where
  \<comment> \<open>\<open>str.upper\<close> on one character. The upper-case forms of U+00B5, U+00DF (\<open>SS\<close>) and
      U+00FF are not Latin-1 characters; these three are left as they are, which cannot
      change whether an ASCII word occurs in the result.\<close>
  "upper_char c = (if (97 \<le> cp c \<and> cp c \<le> 122) \<or> (224 \<le> cp c \<and> cp c \<le> 246) \<or> (248 \<le> cp c \<and> cp c \<le> 254)
     then char_of (cp c - 32) else c)"

definition py_lower :: "string \<Rightarrow> string" where
  "py_lower s = map lower_char s"

definition py_upper :: "string \<Rightarrow> string" where
  "py_upper s = map upper_char s"

fun starts_with :: "string \<Rightarrow> string \<Rightarrow> bool" where
  \<comment> \<open>\<open>starts_with n s\<close> is \<open>s.startswith(n)\<close>\<close>
  "starts_with [] s = True"
| "starts_with (a # n) [] = False"
| "starts_with (a # n) (b # s) = (a = b \<and> starts_with n s)"

fun py_in :: "string \<Rightarrow> string \<Rightarrow> bool" where
  \<comment> \<open>\<open>py_in n s\<close> is the substring test \<open>n in s\<close>\<close>
  "py_in n [] = (n = [])"
| "py_in n (c # s) = (starts_with n (c # s) \<or> py_in n s)"

definition py_remove :: "char \<Rightarrow> string \<Rightarrow> string" where
  \<comment> \<open>\<open>s.replace(c, "")\<close> for a one-character \<open>c\<close>\<close>
  "py_remove c s = filter (\<lambda>x. x \<noteq> c) s"

definition py_replace_char :: "char \<Rightarrow> char \<Rightarrow> string \<Rightarrow> string" where
  \<comment> \<open>\<open>s.replace(a, b)\<close> for one-character \<open>a\<close> and \<open>b\<close>\<close>
  "py_replace_char a b s = map (\<lambda>x. if x = a then b else x) s"

definition py_strip :: "string \<Rightarrow> string" where
  \<comment> \<open>\<open>s.strip()\<close>\<close>
  "py_strip s = rev (dropWhile is_space (rev (dropWhile is_space s)))"

definition zfill :: "nat \<Rightarrow> string \<Rightarrow> string" where
  \<comment> \<open>\<open>s.zfill(w)\<close>: zeros go after a leading sign\<close>
  "zfill w s = (if w \<le> length s then s
     else (case s of
         [] \<Rightarrow> replicate w CHR ''0''
       | c # r \<Rightarrow> if c = CHR ''+'' \<or> c = CHR ''-''
           then c # replicate (w - length s) CHR ''0'' @ r
           else replicate (w - length s) CHR ''0'' @ s))"

definition ljust :: "nat \<Rightarrow> char \<Rightarrow> string \<Rightarrow> string" where
  \<comment> \<open>\<open>s.ljust(w, c)\<close>\<close>
  "ljust w c s = s @ replicate (w - length s) c"

fun join :: "string \<Rightarrow> string list \<Rightarrow> string" where
  \<comment> \<open>\<open>sep.join(xs)\<close>\<close>
  "join sep [] = []"
| "join sep [x] = x"
| "join sep (x # y # xs) = x @ sep @ join sep (y # xs)"

fun split_char :: "char \<Rightarrow> string \<Rightarrow> string list" where
  \<comment> \<open>\<open>s.split(c)\<close> for a one-character separator\<close>
  "split_char c [] = [[]]"
| "split_char c (x # s) = (if x = c then [] # split_char c s
     else (case split_char c s of w # ws \<Rightarrow> (x # w) # ws | [] \<Rightarrow> [[x]]))"

definition truthy :: "string option \<Rightarrow> bool" where
  \<comment> \<open>the truth value of an optional string: neither \<open>None\<close> nor empty\<close>
  "truthy v = (case v of None \<Rightarrow> False | Some s \<Rightarrow> s \<noteq> [])"

subsection \<open>Integers and decimal strings\<close>

definition digit_val :: "char \<Rightarrow> nat" where
  "digit_val c = cp c - 48"

definition digit_chr :: "nat \<Rightarrow> char" where
  "digit_chr d = char_of (48 + d)"

definition digits_value :: "string \<Rightarrow> nat" where
  "digits_value s = foldl (\<lambda>n c. 10 * n + digit_val c) 0 s"

fun str_nat :: "nat \<Rightarrow> string" where
  "str_nat n = (if n < 10 then [digit_chr n] else str_nat (n div 10) @ [digit_chr (n mod 10)])"

declare str_nat.simps [simp del]

definition py_str :: "int \<Rightarrow> string" where
  \<comment> \<open>\<open>str(n)\<close> for an integer\<close>
  "py_str i = (if i < 0 then CHR ''-'' # str_nat (nat (- i)) else str_nat (nat i))"

definition int_space :: "char \<Rightarrow> bool" where
  \<comment> \<open>the blanks \<open>int()\<close> skips around a number\<close>
  "int_space c = ((9 \<le> cp c \<and> cp c \<le> 13) \<or> cp c = 32 \<or> cp c = 133 \<or> cp c = 160)"

fun int_body_ok :: "string \<Rightarrow> bool" where
  \<comment> \<open>digits, with single underscores allowed between two digits\<close>
  "int_body_ok [] = False"
| "int_body_ok [c] = is_digit c"
| "int_body_ok (c # d # r) = (is_digit c \<and> (if d = CHR ''_'' then int_body_ok r else int_body_ok (d # r)))"

definition py_int :: "string \<Rightarrow> int option" where
  \<comment> \<open>\<open>int(s)\<close>; \<open>None\<close> stands for \<open>ValueError\<close>. Python integers are unbounded.\<close>
  "py_int s = (let t = rev (dropWhile int_space (rev (dropWhile int_space s)));
                   neg = (case t of [] \<Rightarrow> False | c # r \<Rightarrow> c = CHR ''-'');
                   body = (case t of [] \<Rightarrow> [] | c # r \<Rightarrow> if c = CHR ''-'' \<or> c = CHR ''+'' then r else t)
               in if int_body_ok body
                  then Some ((if neg then - 1 else 1) * int (digits_value (py_remove CHR ''_'' body)))
                  else None)"

definition py_isdigit :: "string \<Rightarrow> bool" where
  \<comment> \<open>\<open>s.isdigit()\<close>\<close>
  "py_isdigit s = (s \<noteq> [] \<and> list_all isdigit_char s)"

definition strip0 :: "string \<Rightarrow> string" where
  \<comment> \<open>a digit string without its leading zeros; \<open>0\<close> when nothing else is left\<close>
  "strip0 s = (case dropWhile (\<lambda>c. c = CHR ''0'') s of [] \<Rightarrow> ''0'' | c # t \<Rightarrow> c # t)"

section \<open>The \<open>re\<close> module\<close>

text \<open>
  A backtracking matcher for the fragment of Python's regular expressions that the
  programs use. \<open>ms fl r s\<close> lists, in the order in which a backtracking matcher tries
  them, the states reached by matching \<open>r\<close> from state \<open>s\<close>; the head of the list is the
  match Python reports. A state holds the character before the position (for \<open>\b\<close> and
  \<open>^\<close>), the text still to read and the groups captured so far.
\<close>

datatype flag = I | S
  \<comment> \<open>\<open>re.I\<close> (IGNORECASE) and \<open>re.DOTALL\<close>\<close>

datatype cls = D | W | Sp
  \<comment> \<open>\<open>\d\<close>, \<open>\w\<close>, \<open>\s\<close>\<close>

datatype item = ICh char | ICls cls
  \<comment> \<open>a member of a character set \<open>[...]\<close>\<close>

datatype regex =
    Eps
  | Lit char
  | Dot
  | Cls cls
  | Set "item list"
  | Bol
  | Eol
  | WordB
  | Seq regex regex
  | Alt regex regex
  | Rep regex nat "nat option" bool
  | Group nat regex

text \<open>
  \<open>Rep r m n lazy\<close> is \<open>r{m,n}\<close> (\<open>n = None\<close>: no upper bound), greedy unless \<open>lazy\<close>.
  \<open>Bol\<close> and \<open>Eol\<close> are \<open>^\<close> and \<open>$\<close> without \<open>re.MULTILINE\<close>, \<open>WordB\<close> is \<open>\b\<close>.
\<close>

abbreviation Star :: "regex \<Rightarrow> regex" where
  "Star r \<equiv> Rep r 0 None False"

abbreviation StarLazy :: "regex \<Rightarrow> regex" where
  "StarLazy r \<equiv> Rep r 0 None True"

abbreviation Plus :: "regex \<Rightarrow> regex" where
  "Plus r \<equiv> Rep r 1 None False"

abbreviation Opt :: "regex \<Rightarrow> regex" where
  "Opt r \<equiv> Rep r 0 (Some 1) False"

abbreviation Times :: "nat \<Rightarrow> regex \<Rightarrow> regex" where
  "Times k r \<equiv> Rep r k (Some k) False"

abbreviation Between :: "nat \<Rightarrow> nat \<Rightarrow> regex \<Rightarrow> regex" where
  "Between m n r \<equiv> Rep r m (Some n) False"

primrec Cat :: "regex list \<Rightarrow> regex" where
  "Cat [] = Eps"
| "Cat (r # rs) = Seq r (Cat rs)"

definition Str :: "string \<Rightarrow> regex" where
  "Str s = Cat (map Lit s)"

datatype mstate = MState (prev: "char option") (rest: string) (groups: "nat \<rightharpoonup> string")

definition newline :: char where
  "newline = CHR 0x0A"

definition lit_match :: "flag list \<Rightarrow> char \<Rightarrow> char \<Rightarrow> bool" where
  "lit_match fl c x = (if I \<in> set fl then lower_char x = lower_char c else x = c)"

primrec cls_match :: "cls \<Rightarrow> char \<Rightarrow> bool" where
  "cls_match D x = is_digit x"
| "cls_match W x = is_word x"
| "cls_match Sp x = is_space x"

primrec item_match :: "flag list \<Rightarrow> item \<Rightarrow> char \<Rightarrow> bool" where
  "item_match fl (ICh c) x = lit_match fl c x"
| "item_match fl (ICls k) x = cls_match k x"

definition dot_match :: "flag list \<Rightarrow> char \<Rightarrow> bool" where
  "dot_match fl x = (S \<in> set fl \<or> x \<noteq> newline)"

fun step :: "(char \<Rightarrow> bool) \<Rightarrow> mstate \<Rightarrow> mstate list" where
  "step P (MState p [] g) = []"
| "step P (MState p (x # xs) g) = (if P x then [MState (Some x) xs g] else [])"

fun word_before :: "mstate \<Rightarrow> bool" where
  "word_before (MState None xs g) = False"
| "word_before (MState (Some c) xs g) = is_word c"

fun word_after :: "mstate \<Rightarrow> bool" where
  "word_after (MState p [] g) = False"
| "word_after (MState p (x # xs) g) = is_word x"

definition guard :: "bool \<Rightarrow> mstate \<Rightarrow> mstate list" where
  "guard b s = (if b then [s] else [])"

primrec iter_n :: "(mstate \<Rightarrow> mstate list) \<Rightarrow> nat \<Rightarrow> mstate \<Rightarrow> mstate list" where
  \<comment> \<open>exactly \<open>k\<close> iterations\<close>
  "iter_n f 0 s = [s]"
| "iter_n f (Suc k) s = concat (map (iter_n f k) (f s))"

primrec iter_more :: "bool \<Rightarrow> (mstate \<Rightarrow> mstate list) \<Rightarrow> nat \<Rightarrow> mstate \<Rightarrow> mstate list" where
  \<comment> \<open>at most \<open>k\<close> further iterations: greedy tries another iteration first, lazy tries to
      stop first. An iteration that consumes nothing is not taken (CPython ends such a
      loop); no repeated expression in the patterns below can match the empty string.\<close>
  "iter_more lazy f 0 s = [s]"
| "iter_more lazy f (Suc k) s =
     (let ext = concat (map (iter_more lazy f k) (filter (\<lambda>s'. length (rest s') < length (rest s)) (f s)))
      in if lazy then s # ext else ext @ [s])"

definition set_group :: "nat \<Rightarrow> mstate \<Rightarrow> mstate \<Rightarrow> mstate" where
  \<comment> \<open>group \<open>g\<close> is the text read between state \<open>s\<close> and state \<open>s'\<close>\<close>
  "set_group g s s' =
     MState (prev s') (rest s') ((groups s')(g \<mapsto> take (length (rest s) - length (rest s')) (rest s)))"

primrec ms :: "flag list \<Rightarrow> regex \<Rightarrow> mstate \<Rightarrow> mstate list" where
  "ms fl Eps s = [s]"
| "ms fl (Lit c) s = step (lit_match fl c) s"
| "ms fl Dot s = step (dot_match fl) s"
| "ms fl (Cls k) s = step (cls_match k) s"
| "ms fl (Set its) s = step (\<lambda>x. \<exists>i \<in> set its. item_match fl i x) s"
| "ms fl Bol s = guard (prev s = None) s"
| "ms fl Eol s = guard (rest s = [] \<or> rest s = [newline]) s"
| "ms fl WordB s = guard (word_before s \<noteq> word_after s) s"
| "ms fl (Seq a b) s = concat (map (ms fl b) (ms fl a s))"
| "ms fl (Alt a b) s = ms fl a s @ ms fl b s"
| "ms fl (Rep r m n lazy) s =
     concat (map (\<lambda>s'. iter_more lazy (ms fl r) (case n of None \<Rightarrow> length (rest s') | Some k \<Rightarrow> k - m) s')
       (iter_n (ms fl r) m s))"
| "ms fl (Group g r) s = map (set_group g s) (ms fl r s)"

primrec search_from :: "flag list \<Rightarrow> regex \<Rightarrow> char option \<Rightarrow> string \<Rightarrow> mstate option" where
  \<comment> \<open>the leftmost match at or after the position whose remaining text is given;
      group 0 is the whole match\<close>
  "search_from fl r p [] =
     (case ms fl (Group 0 r) (MState p [] Map.empty) of [] \<Rightarrow> None | s' # _ \<Rightarrow> Some s')"
| "search_from fl r p (c # cs) =
     (case ms fl (Group 0 r) (MState p (c # cs) Map.empty) of
        [] \<Rightarrow> search_from fl r (Some c) cs
      | s' # _ \<Rightarrow> Some s')"

type_synonym match = "nat \<rightharpoonup> string"

definition group :: "match \<Rightarrow> nat \<Rightarrow> string" where
  \<comment> \<open>\<open>m.group(k)\<close>. Python gives \<open>None\<close> for a group that took no part in the match;
      every group the programs read takes part in every match of its pattern
      (lemmas \<open>*_groups\<close> below), so that case does not arise.\<close>
  "group m k = (case m k of None \<Rightarrow> [] | Some u \<Rightarrow> u)"

definition re_search :: "flag list \<Rightarrow> regex \<Rightarrow> string \<Rightarrow> match option" where
  \<comment> \<open>\<open>re.search(r, texto, fl)\<close>\<close>
  "re_search fl r texto = map_option groups (search_from fl r None texto)"

function finditer_from :: "flag list \<Rightarrow> regex \<Rightarrow> char option \<Rightarrow> string \<Rightarrow> match list" where
  \<comment> \<open>successive non-overlapping matches, each search starting where the last match
      ended. A match that consumes nothing would leave the position unchanged (CPython
      then moves on by one character); no pattern iterated below can match the empty
      string, and the model ends the iteration there.\<close>
  "finditer_from fl r p cs =
     (case search_from fl r p cs of
        None \<Rightarrow> []
      | Some s' \<Rightarrow> groups s' #
          (if length (rest s') < length cs then finditer_from fl r (prev s') (rest s') else []))"
  by pat_completeness auto
termination
  by (relation "measure (\<lambda>(fl, r, p, cs). length cs)") auto

declare finditer_from.simps [simp del]

definition re_finditer :: "flag list \<Rightarrow> regex \<Rightarrow> string \<Rightarrow> match list" where
  \<comment> \<open>\<open>re.finditer(r, texto, fl)\<close>\<close>
  "re_finditer fl r texto = finditer_from fl r None texto"

definition re_findall :: "flag list \<Rightarrow> regex \<Rightarrow> string \<Rightarrow> string list" where
  \<comment> \<open>\<open>re.findall(r, texto, fl)\<close> for a pattern without groups: the whole matches\<close>
  "re_findall fl r texto = map (\<lambda>m. group m 0) (re_finditer fl r texto)"

definition re_findall1 :: "flag list \<Rightarrow> regex \<Rightarrow> string \<Rightarrow> string list" where
  \<comment> \<open>\<open>re.findall(r, texto, fl)\<close> for a pattern with exactly one group: that group\<close>
  "re_findall1 fl r texto = map (\<lambda>m. group m 1) (re_finditer fl r texto)"

subsection \<open>What a match can contain\<close>

text \<open>
  For proofs about every text: \<open>lang fl r\<close> is the set of strings that \<open>r\<close> can read
  (the anchors read nothing), \<open>glang fl r g\<close> the set of strings that group \<open>g\<close> of \<open>r\<close> can
  hold, and \<open>gdef r g\<close> says that group \<open>g\<close> takes part in every match of \<open>r\<close>.
\<close>

primrec lang :: "flag list \<Rightarrow> regex \<Rightarrow> string set" where
  "lang fl Eps = {[]}"
| "lang fl (Lit c) = {[x] | x. lit_match fl c x}"
| "lang fl Dot = {[x] | x. dot_match fl x}"
| "lang fl (Cls k) = {[x] | x. cls_match k x}"
| "lang fl (Set its) = {[x] | x. \<exists>i \<in> set its. item_match fl i x}"
| "lang fl Bol = {[]}"
| "lang fl Eol = {[]}"
| "lang fl WordB = {[]}"
| "lang fl (Seq a b) = {u @ v | u v. u \<in> lang fl a \<and> v \<in> lang fl b}"
| "lang fl (Alt a b) = lang fl a \<union> lang fl b"
| "lang fl (Rep r m n lazy) =
     {concat us | us. set us \<subseteq> lang fl r \<and> m \<le> length us
        \<and> (case n of None \<Rightarrow> True | Some k \<Rightarrow> length us \<le> max m k)}"
| "lang fl (Group g r) = lang fl r"

primrec glang :: "flag list \<Rightarrow> regex \<Rightarrow> nat \<Rightarrow> string set" where
  "glang fl Eps g = {}"
| "glang fl (Lit c) g = {}"
| "glang fl Dot g = {}"
| "glang fl (Cls k) g = {}"
| "glang fl (Set its) g = {}"
| "glang fl Bol g = {}"
| "glang fl Eol g = {}"
| "glang fl WordB g = {}"
| "glang fl (Seq a b) g = glang fl a g \<union> glang fl b g"
| "glang fl (Alt a b) g = glang fl a g \<union> glang fl b g"
| "glang fl (Rep r m n lazy) g = glang fl r g"
| "glang fl (Group h r) g = (if h = g then lang fl r else {}) \<union> glang fl r g"

primrec gdef :: "regex \<Rightarrow> nat \<Rightarrow> bool" where
  "gdef Eps g = False"
| "gdef (Lit c) g = False"
| "gdef Dot g = False"
| "gdef (Cls k) g = False"
| "gdef (Set its) g = False"
| "gdef Bol g = False"
| "gdef Eol g = False"
| "gdef WordB g = False"
| "gdef (Seq a b) g = (gdef a g \<or> gdef b g)"
| "gdef (Alt a b) g = (gdef a g \<and> gdef b g)"
| "gdef (Rep r m n lazy) g = (0 < m \<and> gdef r g)"
| "gdef (Group h r) g = (h = g \<or> gdef r g)"

primrec minlen :: "regex \<Rightarrow> nat" where
  \<comment> \<open>a lower bound of the length of what \<open>r\<close> reads\<close>
  "minlen Eps = 0"
| "minlen (Lit c) = 1"
| "minlen Dot = 1"
| "minlen (Cls k) = 1"
| "minlen (Set its) = 1"
| "minlen Bol = 0"
| "minlen Eol = 0"
| "minlen WordB = 0"
| "minlen (Seq a b) = minlen a + minlen b"
| "minlen (Alt a b) = min (minlen a) (minlen b)"
| "minlen (Rep r m n lazy) = m * minlen r"
| "minlen (Group g r) = minlen r"

text \<open>
  Properties of a function from a state to the states it reaches: every state reached has
  read a string of \<open>L\<close>; group \<open>g\<close> afterwards holds what it held before or a string of
  \<open>G\<close>; a group once set stays set; group \<open>g\<close> is set afterwards. \<open>is_match fl r m\<close> says
  that the groups \<open>m\<close> are those of a match of \<open>r\<close>.
\<close>

definition reads :: "string set \<Rightarrow> (mstate \<Rightarrow> mstate list) \<Rightarrow> bool" where
  "reads L f = (\<forall>s s'. s' \<in> set (f s) \<longrightarrow> (\<exists>u. rest s = u @ rest s' \<and> u \<in> L))"

definition holds :: "string set \<Rightarrow> nat \<Rightarrow> (mstate \<Rightarrow> mstate list) \<Rightarrow> bool" where
  "holds G g f = (\<forall>s s' u. s' \<in> set (f s) \<longrightarrow> groups s' g = Some u \<longrightarrow> groups s g = Some u \<or> u \<in> G)"

definition keeps :: "nat \<Rightarrow> (mstate \<Rightarrow> mstate list) \<Rightarrow> bool" where
  "keeps g f = (\<forall>s s'. s' \<in> set (f s) \<longrightarrow> groups s g \<noteq> None \<longrightarrow> groups s' g \<noteq> None)"

definition sets :: "nat \<Rightarrow> (mstate \<Rightarrow> mstate list) \<Rightarrow> bool" where
  "sets g f = (\<forall>s s'. s' \<in> set (f s) \<longrightarrow> groups s' g \<noteq> None)"

definition is_match :: "flag list \<Rightarrow> regex \<Rightarrow> match \<Rightarrow> bool" where
  "is_match fl r m =
     ((\<exists>u. m 0 = Some u \<and> u \<in> lang fl r)
      \<and> (\<forall>g u. 0 < g \<longrightarrow> m g = Some u \<longrightarrow> u \<in> glang fl r g)
      \<and> (\<forall>g. gdef r g \<longrightarrow> m g \<noteq> None))"

section \<open>genera\_txt.py: normalisation and the code table\<close>

definition limpiar_numero :: "string \<Rightarrow> string" where
  \<comment> \<open>\<open>str(int(num_str)) if num_str.isdigit() else num_str\<close>; the bare \<open>except\<close> returns
      \<open>num_str\<close> when \<open>int\<close> raises\<close>
  "limpiar_numero num_str =
     (if py_isdigit num_str
      then (case py_int num_str of Some n \<Rightarrow> py_str n | None \<Rightarrow> num_str)
      else num_str)"

definition CODIGO_CBTE :: "(string \<times> string) \<rightharpoonup> string" where
  "CODIGO_CBTE = map_of
     [((''FACTURA'', ''B''), ''03''),
      ((''RECIBO'', ''B''), ''04''),
      ((''FACTURA'', ''C''), ''05''),
      ((''RECIBO'', ''C''), ''06'')]"

definition codigo_cbte_de :: "string option \<Rightarrow> string option \<Rightarrow> string option" where
  \<comment> \<open>\<open>codigo_cbte = None; if tipo and letra: codigo_cbte = CODIGO_CBTE.get((tipo, letra))\<close>\<close>
  "codigo_cbte_de tipo letra =
     (if truthy tipo \<and> truthy letra then CODIGO_CBTE (the tipo, the letra) else None)"

section \<open>genera\_txt.py: the field extractors\<close>

text \<open>
  \<open>test_extraccion.py\<close> holds the same extractors, character for character (its
  \<open>extraer_info_pdf\<close> differs from the one below only in what it prints);
  \<open>analizar_directorio.py\<close> imports them from there.
\<close>

definition a_acute :: char where "a_acute = CHR 0xE1"
definition i_acute :: char where "i_acute = CHR 0xED"
definition o_acute :: char where "o_acute = CHR 0xF3"
definition degree :: char where "degree = CHR 0xB0"

subsection \<open>extraer\_cuits\<close>

definition cuit_guiones :: regex where
  \<comment> \<open>\<open>\d{2}-\d{8}-\d\<close>\<close>
  "cuit_guiones = Cat [Times 2 (Cls D), Lit CHR ''-'', Times 8 (Cls D), Lit CHR ''-'', Cls D]"

definition cuit_label :: regex where
  \<comment> \<open>\<open>\bCUIT:?\s*\<close>\<close>
  "cuit_label = Cat [WordB, Str ''CUIT'', Opt (Lit CHR '':''), Star (Cls Sp)]"

definition patrones_cuit :: "regex list" where
  "patrones_cuit =
     [Cat [cuit_label, Group 1 cuit_guiones, WordB],
      Cat [cuit_label, Group 1 (Times 11 (Cls D)), WordB],
      Cat [WordB, Group 1 cuit_guiones, WordB],
      Cat [WordB, Group 1 (Times 11 (Cls D)), WordB]]"

definition agregar_cuit :: "string list \<Rightarrow> match \<Rightarrow> string list" where
  \<comment> \<open>the body of the inner loop\<close>
  "agregar_cuit cuits m =
     (let cuit = py_remove CHR ''-'' (group m 1)
      in if cuit \<notin> set cuits \<and> length cuit = 11 then cuits @ [cuit] else cuits)"

definition extraer_cuits :: "string \<Rightarrow> string list" where
  "extraer_cuits texto =
     foldl (\<lambda>cuits patron. foldl agregar_cuit cuits (re_finditer [I] patron texto)) [] patrones_cuit"

definition candidatos_cuit :: "string \<Rightarrow> string list" where
  \<comment> \<open>what the two loops of \<open>extraer_cuits\<close> go through: for each pattern in turn, group 1
      of each of its matches from left to right, without the hyphens\<close>
  "candidatos_cuit texto =
     concat (map (\<lambda>patron. map (\<lambda>m. py_remove CHR ''-'' (group m 1)) (re_finditer [I] patron texto))
       patrones_cuit)"

definition agregar_id :: "string list \<Rightarrow> string \<Rightarrow> string list" where
  \<comment> \<open>the test and the \<open>append\<close> of the inner loop, on a candidate\<close>
  "agregar_id cuits cuit = (if cuit \<notin> set cuits \<and> length cuit = 11 then cuits @ [cuit] else cuits)"

subsection \<open>extraer\_tipo\_letra\<close>

definition patron_factura :: regex where
  "patron_factura = Cat [WordB, Str ''FACTURA'', WordB]"

definition patron_recibo :: regex where
  "patron_recibo = Cat [WordB, Str ''RECIBO'', WordB]"

definition BC :: regex where
  \<comment> \<open>\<open>[BC]\<close>\<close>
  "BC = Set [ICh CHR ''B'', ICh CHR ''C'']"

definition letra_factura :: regex where
  \<comment> \<open>\<open>([BC])\s+FACTURA\<close>\<close>
  "letra_factura = Cat [Group 1 BC, Plus (Cls Sp), Str ''FACTURA'']"

definition factura_letra :: regex where
  \<comment> \<open>\<open>FACTURA\s+([BC])\<close>\<close>
  "factura_letra = Cat [Str ''FACTURA'', Plus (Cls Sp), Group 1 BC]"

definition letra_cod :: regex where
  \<comment> \<open>\<open>([BC])\s+COD\<close>\<close>
  "letra_cod = Cat [Group 1 BC, Plus (Cls Sp), Str ''COD'']"

definition patron_cod :: regex where
  \<comment> \<open>\<open>COD\.?\s*(\d+)\<close>\<close>
  "patron_cod = Cat [Str ''COD'', Opt (Lit CHR ''.''), Star (Cls Sp), Group 1 (Plus (Cls D))]"

definition letra_suelta :: regex where
  \<comment> \<open>\<open>(^|\n)\s*([BC])\s*(\n|$)\<close>\<close>
  "letra_suelta = Cat [Group 1 (Alt Bol (Lit newline)), Star (Cls Sp), Group 2 BC, Star (Cls Sp),
     Group 3 (Alt (Lit newline) Eol)]"

definition letra_compacta :: regex where
  \<comment> \<open>\<open>\b([BC])\d{2,4}\b\<close>\<close>
  "letra_compacta = Cat [WordB, Group 1 BC, Between 2 4 (Cls D), WordB]"

definition patrones_letra :: "regex list" where
  "patrones_letra = [letra_factura, factura_letra, letra_cod, patron_cod, letra_suelta, letra_compacta]"

definition letra_de_codigo :: "string \<Rightarrow> string option" where
  \<comment> \<open>the \<open>if codigo == ...\<close> chain; \<open>letra\<close> stays \<open>None\<close> for any other code\<close>
  "letra_de_codigo codigo =
     (if codigo = ''011'' then Some ''C''
      else if codigo = ''006'' then Some ''C''
      else if codigo = ''008'' then Some ''B''
      else if codigo = ''009'' then Some ''B''
      else None)"

fun buscar_letra :: "regex list \<Rightarrow> string \<Rightarrow> string option" where
  \<comment> \<open>the loop \<open>for patron in patrones_letra\<close>: a result is a \<open>break\<close>, the recursive call
      is the next iteration\<close>
  "buscar_letra [] texto = None"
| "buscar_letra (patron # ps) texto =
     (case re_search [I] patron texto of
        None \<Rightarrow> buscar_letra ps texto
      | Some m \<Rightarrow>
          (let grupo = group m 1
           in if grupo \<in> set [''B'', ''C'', ''b'', ''c''] then Some (py_upper grupo)
              else if patron = patron_cod \<and> grupo \<noteq> [] then letra_de_codigo grupo
              else buscar_letra ps texto))"

definition letra_por_contexto :: "string \<Rightarrow> string \<Rightarrow> string option" where
  \<comment> \<open>the block under \<open>if tipo and not letra\<close>\<close>
  "letra_por_contexto tipo texto =
     (if tipo = ''FACTURA'' \<and> (py_in ''C FACTURA'' texto \<or> py_in ''FACTURA C'' texto) then Some ''C''
      else if tipo = ''FACTURA'' \<and> (py_in ''B FACTURA'' texto \<or> py_in ''FACTURA B'' texto) then Some ''B''
      else if tipo = ''RECIBO'' \<and> (py_in ''C RECIBO'' texto \<or> py_in ''RECIBO C'' texto) then Some ''C''
      else if tipo = ''RECIBO'' \<and> (py_in ''B RECIBO'' texto \<or> py_in ''RECIBO B'' texto) then Some ''B''
      else None)"

definition buscar_tipo :: "string \<Rightarrow> string option" where
  "buscar_tipo texto =
     (if re_search [I] patron_factura texto \<noteq> None then Some ''FACTURA''
      else if re_search [I] patron_recibo texto \<noteq> None then Some ''RECIBO''
      else None)"

definition extraer_tipo_letra :: "string \<Rightarrow> string option \<times> string option" where
  "extraer_tipo_letra texto =
     (let tipo = buscar_tipo texto;
          letra = buscar_letra patrones_letra texto;
          letra = (if truthy tipo \<and> \<not> truthy letra then letra_por_contexto (the tipo) texto else letra)
      in (tipo, letra))"

subsection \<open>extraer\_pv\_nro\<close>

definition ceros_num :: "nat \<Rightarrow> regex" where
  \<comment> \<open>\<open>0*(\d+)\<close> with the given group number\<close>
  "ceros_num g = Cat [Star (Lit CHR ''0''), Group g (Plus (Cls D))]"

definition punto_de_venta :: regex where
  \<comment> \<open>\<open>Punto\s*de\s*Venta:?\s*0*(\d+)\<close>\<close>
  "punto_de_venta = Cat [Str ''Punto'', Star (Cls Sp), Str ''de'', Star (Cls Sp), Str ''Venta'',
     Opt (Lit CHR '':''), Star (Cls Sp), ceros_num 1]"

definition comp_nro :: regex where
  \<comment> \<open>\<open>Comp\.?\s*Nro:?\s*0*(\d+)\<close>\<close>
  "comp_nro = Cat [Str ''Comp'', Opt (Lit CHR ''.''), Star (Cls Sp), Str ''Nro'', Opt (Lit CHR '':''),
     Star (Cls Sp), ceros_num 2]"

definition pv_etiquetado :: regex where
  "pv_etiquetado = Cat [punto_de_venta, Plus (Cls Sp), comp_nro]"

definition pv_etiquetado_laxo :: regex where
  "pv_etiquetado_laxo = Cat [punto_de_venta, StarLazy Dot, comp_nro]"

definition pv_par :: regex where
  \<comment> \<open>\<open>\b0*(\d+)\s*[-U]\s*0*(\d{1,9})\b\<close>, where \<open>U\<close> stands for the en dash U+2013.
      No Latin-1 text contains it, so only the hyphen is in the set.\<close>
  "pv_par = Cat [WordB, ceros_num 1, Star (Cls Sp), Set [ICh CHR ''-''], Star (Cls Sp),
     Star (Lit CHR ''0''), Group 2 (Between 1 9 (Cls D)), WordB]"

definition pv_nro :: regex where
  \<comment> \<open>\<open>Nro\s+0*(\d+)\s*-\s*0*(\d+)\<close>\<close>
  "pv_nro = Cat [Str ''Nro'', Plus (Cls Sp), ceros_num 1, Star (Cls Sp), Lit CHR ''-'', Star (Cls Sp),
     ceros_num 2]"

definition pv_fac_espacios :: regex where
  \<comment> \<open>\<open>(FAC\-)?([BC])\s*-\s*0*(\d+)\s*-\s*0*(\d+)\<close>\<close>
  "pv_fac_espacios = Cat [Opt (Group 1 (Str ''FAC-'')), Group 2 BC, Star (Cls Sp), Lit CHR ''-'',
     Star (Cls Sp), ceros_num 3, Star (Cls Sp), Lit CHR ''-'', Star (Cls Sp), ceros_num 4]"

definition pv_fac :: regex where
  \<comment> \<open>\<open>(FAC\-)?([BC])\-0*(\d+)\-0*(\d+)\<close>\<close>
  "pv_fac = Cat [Opt (Group 1 (Str ''FAC-'')), Group 2 BC, Lit CHR ''-'', ceros_num 3, Lit CHR ''-'',
     ceros_num 4]"

definition patrones_pv :: "regex list" where
  "patrones_pv = [pv_etiquetado, pv_etiquetado_laxo, pv_par, pv_nro, pv_fac_espacios, pv_fac]"

definition tiene_FAC :: "regex \<Rightarrow> bool" where
  \<comment> \<open>\<open>"FAC" in patron\<close>: the text of exactly the last two patterns contains \<open>FAC\<close>\<close>
  "tiene_FAC patron = (patron = pv_fac_espacios \<or> patron = pv_fac)"

fun extraer_pv_nro_en :: "regex list \<Rightarrow> string \<Rightarrow> string option \<times> string option" where
  "extraer_pv_nro_en [] texto = (None, None)"
| "extraer_pv_nro_en (patron # ps) texto =
     (case re_search [I] patron texto of
        None \<Rightarrow> extraer_pv_nro_en ps texto
      | Some m \<Rightarrow>
          if tiene_FAC patron
          then (Some (limpiar_numero (group m 3)), Some (limpiar_numero (group m 4)))
          else (Some (limpiar_numero (group m 1)), Some (limpiar_numero (group m 2))))"

definition extraer_pv_nro :: "string \<Rightarrow> string option \<times> string option" where
  "extraer_pv_nro texto = extraer_pv_nro_en patrones_pv texto"

subsection \<open>extraer\_fecha\<close>

record datetime =
  year :: nat
  month :: nat
  day :: nat

text \<open>
  The value of \<open>datetime.now()\<close> is a parameter \<open>ahora\<close> of every function that reads the
  clock. \<open>strftime("%d/%m/%Y")\<close> writes day and month with two digits and the year with four.
\<close>

definition strftime_dmY :: "datetime \<Rightarrow> string" where
  "strftime_dmY ahora =
     zfill 2 (str_nat (day ahora)) @ ''/'' @ zfill 2 (str_nat (month ahora)) @ ''/'' @ zfill 4 (str_nat (year ahora))"

definition fecha_barras :: regex where
  \<comment> \<open>\<open>\d{2}/\d{2}/\d{4}\<close>\<close>
  "fecha_barras = Cat [Times 2 (Cls D), Lit CHR ''/'', Times 2 (Cls D), Lit CHR ''/'', Times 4 (Cls D)]"

definition fecha_guiones :: regex where
  \<comment> \<open>\<open>\d{2}-\d{2}-\d{4}\<close>\<close>
  "fecha_guiones = Cat [Times 2 (Cls D), Lit CHR ''-'', Times 2 (Cls D), Lit CHR ''-'', Times 4 (Cls D)]"

definition fecha_emision :: regex where
  \<comment> \<open>\<open>Fecha\s+de\s+Emisi(o acute)n:?\s*(\d{2}/\d{2}/\d{4})\<close>\<close>
  "fecha_emision = Cat [Str ''Fecha'', Plus (Cls Sp), Str ''de'', Plus (Cls Sp),
     Str (''Emisi'' @ [o_acute] @ ''n''), Opt (Lit CHR '':''), Star (Cls Sp), Group 1 fecha_barras]"

definition extraer_fecha :: "datetime \<Rightarrow> string \<Rightarrow> string" where
  "extraer_fecha ahora texto =
     (case re_search [I] fecha_emision texto of
        Some fecha_match \<Rightarrow> group fecha_match 1
      | None \<Rightarrow>
          (let fechas = re_findall [] fecha_barras texto
           in if length fechas \<ge> 4 then fechas ! 3
              else if fechas \<noteq> [] then fechas ! 0
              else (let alt_fechas = re_findall [] fecha_guiones texto
                    in if alt_fechas \<noteq> [] then py_replace_char CHR ''-'' CHR ''/'' (alt_fechas ! 0)
                       else strftime_dmY ahora)))"

subsection \<open>extraer\_cae\<close>

definition catorce :: regex where
  \<comment> \<open>\<open>(\d{14})\<close>\<close>
  "catorce = Group 1 (Times 14 (Cls D))"

definition cae_etiquetado :: regex where
  \<comment> \<open>\<open>CAE\s*N(degree):?\s*(\d{14})\<close>\<close>
  "cae_etiquetado = Cat [Str ''CAE'', Star (Cls Sp), Str (''N'' @ [degree]), Opt (Lit CHR '':''),
     Star (Cls Sp), catorce]"

definition cae_pagina :: regex where
  \<comment> \<open>\<open>P(a acute)g\.\s*1/1\s+(\d{14})\<close>\<close>
  "cae_pagina = Cat [Str (''P'' @ [a_acute] @ ''g.''), Star (Cls Sp), Str ''1/1'', Plus (Cls Sp), catorce]"

definition cae_en_texto :: regex where
  \<comment> \<open>\<open>CAE.*?(\d{14})\<close>\<close>
  "cae_en_texto = Cat [Str ''CAE'', StarLazy Dot, catorce]"

definition cai_etiquetado :: regex where
  \<comment> \<open>\<open>CAI\s*N(degree):?\s*(\d{14})\<close>\<close>
  "cai_etiquetado = Cat [Str ''CAI'', Star (Cls Sp), Str (''N'' @ [degree]), Opt (Lit CHR '':''),
     Star (Cls Sp), catorce]"

definition catorce_suelto :: regex where
  \<comment> \<open>\<open>\b(\d{14})\b\<close>\<close>
  "catorce_suelto = Cat [WordB, catorce, WordB]"

definition extraer_cae :: "string \<Rightarrow> string option \<times> string option" where
  "extraer_cae texto =
     (case re_search [I] cae_etiquetado texto of
        Some cae_match \<Rightarrow> (Some (group cae_match 1), Some ''E'')
      | None \<Rightarrow>
     (case re_search [] cae_pagina texto of
        Some cae_final \<Rightarrow> (Some (group cae_final 1), Some ''E'')
      | None \<Rightarrow>
     (case re_search [S, I] cae_en_texto texto of
        Some cae_cercano \<Rightarrow> (Some (group cae_cercano 1), Some ''E'')
      | None \<Rightarrow>
     (case re_search [I] cai_etiquetado texto of
        Some cai_match \<Rightarrow> (Some (group cai_match 1), Some ''I'')
      | None \<Rightarrow>
     (case re_search [] catorce_suelto texto of
        Some cualquier_14 \<Rightarrow> (Some (group cualquier_14 1), Some ''E'')
      | None \<Rightarrow> (None, None))))))"

subsection \<open>extraer\_importe\<close>

definition monto :: regex where
  \<comment> \<open>\<open>:?\s*\$?\s*([\d.,]+)\<close>\<close>
  "monto = Cat [Opt (Lit CHR '':''), Star (Cls Sp), Opt (Lit CHR ''$''), Star (Cls Sp),
     Group 1 (Plus (Set [ICls D, ICh CHR ''.'', ICh CHR '','']))]"

definition patrones_importe :: "regex list" where
  "patrones_importe =
     [Cat [Str ''Importe Total'', monto],
      Cat [Str ''TOTAL'', monto],
      Cat [Str ''Total'', monto],
      Cat [Str ''IMPORTE TOTAL'', monto]]"

definition importe_suelto :: regex where
  \<comment> \<open>\<open>(\d{3,6}(?:\.\d{3})*(?:,\d{2}))\<close>\<close>
  "importe_suelto = Group 1 (Cat [Between 3 6 (Cls D), Star (Cat [Lit CHR ''.'', Times 3 (Cls D)]),
     Cat [Lit CHR '','', Times 2 (Cls D)]])"

definition sin_separadores :: "string \<Rightarrow> string" where
  \<comment> \<open>\<open>.replace(".", "").replace(",", "")\<close>\<close>
  "sin_separadores s = py_remove CHR '','' (py_remove CHR ''.'' s)"

fun importe_etiquetado :: "regex list \<Rightarrow> string \<Rightarrow> string option" where
  "importe_etiquetado [] texto = None"
| "importe_etiquetado (patron # ps) texto =
     (case re_search [I] patron texto of
        None \<Rightarrow> importe_etiquetado ps texto
      | Some m \<Rightarrow> Some (sin_separadores (group m 1)))"

definition extraer_importe :: "string \<Rightarrow> string option" where
  "extraer_importe texto =
     (case importe_etiquetado patrones_importe texto of
        Some importe \<Rightarrow> Some importe
      | None \<Rightarrow>
          (let importes = re_findall1 [] importe_suelto texto
           in if importes \<noteq> [] then Some (sin_separadores (last importes)) else None))"

subsection \<open>extraer\_periodo\<close>

definition periodo_facturado :: regex where
  \<comment> \<open>\<open>Per(i acute)odo\s*Facturado\s*Desde:?\s*\d{2}/(\d{2})/(\d{4})\<close>\<close>
  "periodo_facturado = Cat [Str (''Per'' @ [i_acute] @ ''odo''), Star (Cls Sp), Str ''Facturado'',
     Star (Cls Sp), Str ''Desde'', Opt (Lit CHR '':''), Star (Cls Sp), Times 2 (Cls D), Lit CHR ''/'',
     Group 1 (Times 2 (Cls D)), Lit CHR ''/'', Group 2 (Times 4 (Cls D))]"

definition mes_de :: regex where
  \<comment> \<open>\<open>mes\s+de\s+(\w+)\s+de\s+(\d{4})\<close>\<close>
  "mes_de = Cat [Str ''mes'', Plus (Cls Sp), Str ''de'', Plus (Cls Sp), Group 1 (Plus (Cls W)),
     Plus (Cls Sp), Str ''de'', Plus (Cls Sp), Group 2 (Times 4 (Cls D))]"

definition meses :: "string \<rightharpoonup> string" where
  "meses = map_of
     [(''enero'', ''01''), (''febrero'', ''02''), (''marzo'', ''03''), (''abril'', ''04''),
      (''mayo'', ''05''), (''junio'', ''06''), (''julio'', ''07''), (''agosto'', ''08''),
      (''septiembre'', ''09''), (''octubre'', ''10''), (''noviembre'', ''11''), (''diciembre'', ''12'')]"

definition periodo_actual :: "datetime \<Rightarrow> string" where
  \<comment> \<open>\<open>f"{ahora.month:02d}{ahora.year}"\<close>\<close>
  "periodo_actual ahora = zfill 2 (str_nat (month ahora)) @ str_nat (year ahora)"

definition periodo_por_mes :: "datetime \<Rightarrow> string \<Rightarrow> string" where
  \<comment> \<open>the second rule and the default\<close>
  "periodo_por_mes ahora texto =
     (case re_search [I] mes_de texto of
        Some mes_match \<Rightarrow>
          (let mes_texto = py_lower (group mes_match 1); anio = group mes_match 2
           in case meses mes_texto of Some mm \<Rightarrow> mm @ anio | None \<Rightarrow> periodo_actual ahora)
      | None \<Rightarrow> periodo_actual ahora)"

definition extraer_periodo :: "datetime \<Rightarrow> string \<Rightarrow> string" where
  "extraer_periodo ahora texto =
     (case re_search [I] periodo_facturado texto of
        Some periodo_match \<Rightarrow> group periodo_match 1 @ group periodo_match 2
      | None \<Rightarrow> periodo_por_mes ahora texto)"

subsection \<open>map\_actividad and cantidad\_por\_actividad\<close>

definition patron_km :: regex where
  \<comment> \<open>\<open>\bkm\b\<close>\<close>
  "patron_km = Cat [WordB, Str ''km'', WordB]"

definition terminos_dependencia :: "string list" where
  "terminos_dependencia = [''dependencia'', ''discapacidad'', ''discapac'']"

definition terminos_profesionales :: "string list" where
  "terminos_profesionales =
     [''psicolog'' @ [i_acute] @ ''a'', ''psicologia'', ''psic'' @ [o_acute] @ ''logo'', ''psicologo'',
      ''musicoterapia'', ''musicoterapeuta'',
      ''kinesiolog'' @ [i_acute] @ ''a'', ''kinesiologia'', ''kinesi'' @ [o_acute] @ ''logo'', ''kinesiologo'',
      ''fonoaudiolog'' @ [i_acute] @ ''a'', ''fonoaudiologia'', ''fonoaudi'' @ [o_acute] @ ''logo'', ''fonoaudiologo'',
      ''psicopedagog'' @ [i_acute] @ ''a'', ''psicopedagogia'', ''psicopedagogo'']"

definition terminos_integracion :: "string list" where
  "terminos_integracion =
     [''m'' @ [o_acute] @ ''dulo de apoyo'', ''modulo de apoyo'',
      ''apoyo a la integraci'' @ [o_acute] @ ''n'', ''apoyo a la integracion'',
      ''maestra integradora'', ''maestro integrador'']"

definition alguno_en :: "string list \<Rightarrow> string \<Rightarrow> bool" where
  \<comment> \<open>\<open>any(term in texto_lower for term in terms)\<close>\<close>
  "alguno_en terms texto_lower = (\<exists>term \<in> set terms. py_in term texto_lower)"

definition dep_por_terminos :: "string \<Rightarrow> string" where
  \<comment> \<open>\<open>"S" if any(term in texto_lower for term in [...]) else "N"\<close>\<close>
  "dep_por_terminos texto_lower = (if alguno_en terminos_dependencia texto_lower then ''S'' else ''N'')"

definition map_actividad :: "string \<Rightarrow> string \<times> string" where
  "map_actividad texto =
     (let texto_lower = py_lower texto
      in if py_in ''transporte'' texto_lower \<or> py_in ''traslado'' texto_lower
            \<or> re_search [] patron_km texto_lower \<noteq> None
         then (''096'', dep_por_terminos texto_lower)
         else if alguno_en terminos_profesionales texto_lower then (''091'', ''N'')
         else if py_in (''estimulaci'' @ [o_acute] @ ''n temprana'') texto_lower
                 \<or> py_in ''estimulacion temprana'' texto_lower
         then (''085'', ''N'')
         else if alguno_en terminos_integracion texto_lower then (''089'', ''N'')
         else if py_in ''honorarios profesionales'' texto_lower \<or> py_in ''sesiones'' texto_lower
                 \<or> py_in ''terapia'' texto_lower
         then (''090'', ''N'')
         else (''090'', dep_por_terminos texto_lower))"

definition cantidad_por_actividad :: "string \<Rightarrow> string" where
  "cantidad_por_actividad cod =
     (if cod = ''096'' then ''001500''
      else if cod \<in> {''090'', ''091''} then ''000004''
      else ''000001'')"

text \<open>The conditions of the rules of \<open>map_actividad\<close>, on the lower-cased text.\<close>

definition es_transporte :: "string \<Rightarrow> bool" where
  "es_transporte texto_lower =
     (py_in ''transporte'' texto_lower \<or> py_in ''traslado'' texto_lower
      \<or> re_search [] patron_km texto_lower \<noteq> None)"

definition es_estimulacion :: "string \<Rightarrow> bool" where
  "es_estimulacion texto_lower =
     (py_in (''estimulaci'' @ [o_acute] @ ''n temprana'') texto_lower
      \<or> py_in ''estimulacion temprana'' texto_lower)"

definition es_terapia :: "string \<Rightarrow> bool" where
  "es_terapia texto_lower =
     (py_in ''honorarios profesionales'' texto_lower \<or> py_in ''sesiones'' texto_lower
      \<or> py_in ''terapia'' texto_lower)"

subsection \<open>extraer\_info\_pdf\<close>

text \<open>
  Reading a page (\<open>leer_pagina_text\<close>, \<open>leer_pagina_ocr\<close>) is outside the program; both return
  a string, the empty one on any failure. The texts of the two pages and what OCR gives
  for them are parameters. The result is a dictionary with string keys and string values;
  \<open>Map.empty\<close> is \<open>{}\<close>.
\<close>

type_synonym info = "string \<rightharpoonup> string"

definition texto_de_paginas :: "string \<Rightarrow> string \<Rightarrow> string \<Rightarrow> string \<Rightarrow> string" where
  \<comment> \<open>OCR is tried when a page has fewer than 200 characters and used for a page when it
      gives more text; \<open>texto_completo = texto1 + "\n" + texto2\<close>\<close>
  "texto_de_paginas texto1 texto2 texto1_ocr texto2_ocr =
     (let ocr = (length texto1 < 200 \<or> length texto2 < 200);
          t1 = (if ocr \<and> length texto1_ocr > length texto1 then texto1_ocr else texto1);
          t2 = (if ocr \<and> length texto2_ocr > length texto2 then texto2_ocr else texto2)
      in t1 @ [newline] @ t2)"

definition inferir_tipo_letra :: "string \<Rightarrow> string option \<times> string option \<Rightarrow> string option \<times> string option" where
  \<comment> \<open>the block under \<open>if not tipo or not letra\<close>\<close>
  "inferir_tipo_letra texto_completo par =
     (case par of (tipo, letra) \<Rightarrow>
        if \<not> truthy tipo \<or> \<not> truthy letra
        then (if py_in ''FACTURA'' (py_upper texto_completo)
              then (Some ''FACTURA'',
                    if py_in ''C'' texto_completo then Some ''C''
                    else if py_in ''B'' texto_completo then Some ''B''
                    else letra)
              else (tipo, letra))
        else (tipo, letra))"

definition py_or :: "string option \<Rightarrow> string \<Rightarrow> string" where
  \<comment> \<open>\<open>v or d\<close>\<close>
  "py_or v d = (if truthy v then the v else d)"

definition extraer_info_texto :: "datetime \<Rightarrow> string \<Rightarrow> info" where
  \<comment> \<open>\<open>extraer_info_pdf\<close> from the line \<open># 1. Extraer CUITs\<close> on\<close>
  "extraer_info_texto ahora texto_completo =
     (case extraer_cuits texto_completo of
        [] \<Rightarrow> Map.empty
      | cuit_emisor # _ \<Rightarrow>
     (case inferir_tipo_letra texto_completo (extraer_tipo_letra texto_completo) of (tipo, letra) \<Rightarrow>
     (let codigo_cbte = codigo_cbte_de tipo letra
      in if \<not> truthy codigo_cbte then Map.empty
         else
     (case extraer_pv_nro texto_completo of (pv, nro) \<Rightarrow>
         if \<not> truthy pv \<or> \<not> truthy nro then Map.empty
         else
     (let fecha_cbte = extraer_fecha ahora texto_completo;
          (nro_cae, tipo_emision) = extraer_cae texto_completo;
          importe = extraer_importe texto_completo;
          periodo = extraer_periodo ahora texto_completo;
          (actividad, dep_flag) = map_actividad texto_completo;
          cantidad = cantidad_por_actividad actividad
      in [''cuit_pre'' \<mapsto> cuit_emisor,
          ''codigo_cbte'' \<mapsto> the codigo_cbte,
          ''pv'' \<mapsto> the pv,
          ''nro'' \<mapsto> the nro,
          ''fecha_cbte'' \<mapsto> fecha_cbte,
          ''tipo_emision'' \<mapsto> py_or tipo_emision ''E'',
          ''nro_cae'' \<mapsto> py_or nro_cae [],
          ''importe'' \<mapsto> py_or importe ''0'',
          ''periodo'' \<mapsto> periodo,
          ''actividad'' \<mapsto> actividad,
          ''cantidad'' \<mapsto> cantidad,
          ''dep'' \<mapsto> dep_flag])))))"

definition extraer_info_pdf :: "datetime \<Rightarrow> string \<Rightarrow> string \<Rightarrow> string \<Rightarrow> string \<Rightarrow> info" where
  "extraer_info_pdf ahora texto1 texto2 texto1_ocr texto2_ocr =
     extraer_info_texto ahora (texto_de_paginas texto1 texto2 texto1_ocr texto2_ocr)"

definition codigo_de_texto :: "string \<Rightarrow> string option" where
  \<comment> \<open>the value of \<open>codigo_cbte\<close> that \<open>extraer_info_pdf\<close> tests after its step 3\<close>
  "codigo_de_texto texto_completo =
     (case inferir_tipo_letra texto_completo (extraer_tipo_letra texto_completo) of
        (tipo, letra) \<Rightarrow> codigo_cbte_de tipo letra)"

subsection \<open>construir\_linea\<close>

record fila_excel =
  cuil :: string
  codigo_certificado :: string
  vencimiento_certificado :: string
  provincia :: string

text \<open>
  \<open>fila_excel\<close> is a row of the spreadsheet; \<open>main\<close> checks that the four columns exist and
  turns every cell into a stripped string before any line is built.
\<close>

definition claves_linea :: "string list" where
  "claves_linea = [''cuit_pre'', ''codigo_cbte'', ''pv'', ''nro'', ''fecha_cbte'', ''tipo_emision'',
     ''nro_cae'', ''importe'', ''periodo'', ''actividad'', ''cantidad'', ''dep'']"

definition campos_linea :: "string \<Rightarrow> fila_excel \<Rightarrow> info \<Rightarrow> string list" where
  \<comment> \<open>the list \<open>linea\<close>, for an \<open>info_pdf\<close> that has every key\<close>
  "campos_linea rnos fila info_pdf =
     (let pv_limpio = zfill 5 (the (info_pdf ''pv''));
          nro_limpio = zfill 8 (the (info_pdf ''nro''));
          importe_limpio = zfill 14 (the (info_pdf ''importe''));
          codigo_cert = codigo_certificado fila;
          codigo_cert = (if length codigo_cert > 38 then take 38 codigo_cert
                         else ljust 38 CHR ''0'' codigo_cert)
      in [''DS'',
          rnos,
          cuil fila,
          codigo_cert,
          vencimiento_certificado fila,
          the (info_pdf ''periodo''),
          the (info_pdf ''cuit_pre''),
          the (info_pdf ''codigo_cbte''),
          the (info_pdf ''tipo_emision''),
          the (info_pdf ''fecha_cbte''),
          the (info_pdf ''nro_cae''),
          pv_limpio,
          nro_limpio,
          importe_limpio,
          importe_limpio,
          the (info_pdf ''actividad''),
          the (info_pdf ''cantidad''),
          provincia fila,
          the (info_pdf ''dep'')])"

definition construir_linea :: "string \<Rightarrow> fila_excel \<Rightarrow> info \<Rightarrow> string option" where
  "construir_linea rnos fila info_pdf =
     (if \<not> (\<forall>k \<in> set claves_linea. k \<in> dom info_pdf) then None
      else Some (join ''|'' (campos_linea rnos fila info_pdf)))"

section \<open>analizar\_directorio.py: the completeness check\<close>

definition campos_criticos :: "string list" where
  "campos_criticos = [''cuit_pre'', ''codigo_cbte'', ''pv'', ''nro'', ''fecha_cbte'']"

definition faltantes :: "info \<Rightarrow> string list" where
  \<comment> \<open>\<open>[c for c in campos_criticos if c not in info or not info[c]]\<close>\<close>
  "faltantes info_d = filter (\<lambda>c. c \<notin> dom info_d \<or> \<not> truthy (info_d c)) campos_criticos"

definition estado :: "info \<Rightarrow> string" where
  "estado info_d =
     (if faltantes info_d \<noteq> [] then ''Incompleto (faltan: '' @ join '', '' (faltantes info_d) @ '')''
      else ''OK'')"

section \<open>renombrar\_facturas.py: the code table\<close>

definition rf_mapa :: "(string \<times> string) \<rightharpoonup> int" where
  "rf_mapa = map_of
     [((''B'', ''FACTURA''), 3),
      ((''B'', ''RECIBO''), 4),
      ((''C'', ''FACTURA''), 5),
      ((''C'', ''RECIBO''), 6)]"

definition tipo_y_letra_a_codigo :: "string option \<Rightarrow> string option \<Rightarrow> int option" where
  \<comment> \<open>\<open>if not tipo or not letra: return None\<close>, then \<open>mapa.get((letra, tipo))\<close>\<close>
  "tipo_y_letra_a_codigo tipo letra =
     (if \<not> truthy tipo \<or> \<not> truthy letra then None else rf_mapa (the letra, the tipo))"

section \<open>renombrar\_facturas.py: extraction and the two-page check\<close>

definition rf_limpiar_numero :: "string \<Rightarrow> string" where
  \<comment> \<open>\<open>limpiar_numero\<close> of this file: \<open>str(int(num_str))\<close>, and \<open>num_str\<close> when \<open>int\<close> raises\<close>
  "rf_limpiar_numero num_str = (case py_int num_str of Some n \<Rightarrow> py_str n | None \<Rightarrow> num_str)"

definition rf_patron_cuit :: regex where
  \<comment> \<open>\<open>\b(\d{2}-?\d{8}-?\d{1})\b\<close>\<close>
  "rf_patron_cuit = Cat [WordB, Group 1 (Cat [Times 2 (Cls D), Opt (Lit CHR ''-''), Times 8 (Cls D),
     Opt (Lit CHR ''-''), Times 1 (Cls D)]), WordB]"

definition extraer_cuit :: "string \<Rightarrow> string option" where
  "extraer_cuit texto =
     (case re_search [] rf_patron_cuit texto of
        Some m \<Rightarrow> Some (py_remove CHR ''-'' (group m 1))
      | None \<Rightarrow> None)"

definition rf_patron_tipo :: regex where
  \<comment> \<open>\<open>(FACTURA|RECIBO)\<close>\<close>
  "rf_patron_tipo = Group 1 (Alt (Str ''FACTURA'') (Str ''RECIBO''))"

definition rf_letra_cod :: regex where
  \<comment> \<open>\<open>([BC])\s*COD\.?\s*\d*\<close>\<close>
  "rf_letra_cod = Cat [Group 1 BC, Star (Cls Sp), Str ''COD'', Opt (Lit CHR ''.''), Star (Cls Sp),
     Star (Cls D)]"

definition extraer_tipo_y_letra :: "string \<Rightarrow> string option \<times> string option" where
  "extraer_tipo_y_letra texto =
     (case re_search [I] rf_patron_tipo texto of
        None \<Rightarrow> (None, None)
      | Some tipo_match \<Rightarrow>
     (let tipo = py_upper (group tipo_match 1)
      in case re_search [I] rf_letra_cod texto of
           Some letra_cod_m \<Rightarrow> (Some tipo, Some (py_upper (group letra_cod_m 1)))
         | None \<Rightarrow>
        (case re_search [I] letra_suelta texto of
           Some letra_suelta_m \<Rightarrow> (Some tipo, Some (py_upper (group letra_suelta_m 2)))
         | None \<Rightarrow>
        (case re_search [I] letra_compacta texto of
           Some letra_numerica \<Rightarrow> (Some tipo, Some (py_upper (group letra_numerica 1)))
         | None \<Rightarrow> (None, None)))))"

definition rf_patron_a :: regex where
  \<comment> \<open>\<open>Punto\s*de\s*Venta:\s*.*Comp\.?\s*Nro:\s*0*(\d+)\s+0*(\d+)\<close>\<close>
  "rf_patron_a = Cat [Str ''Punto'', Star (Cls Sp), Str ''de'', Star (Cls Sp), Str ''Venta:'',
     Star (Cls Sp), Star Dot, Str ''Comp'', Opt (Lit CHR ''.''), Star (Cls Sp), Str ''Nro:'',
     Star (Cls Sp), ceros_num 1, Plus (Cls Sp), ceros_num 2]"

definition rf_patron_b :: regex where
  \<comment> \<open>\<open>Nro\s+0*(\d+)-0*(\d+)\<close>\<close>
  "rf_patron_b = Cat [Str ''Nro'', Plus (Cls Sp), ceros_num 1, Lit CHR ''-'', ceros_num 2]"

definition rf_patron_c :: regex where
  \<comment> \<open>\<open>\b0*(\d+)-0*(\d+)\b\<close>\<close>
  "rf_patron_c = Cat [WordB, ceros_num 1, Lit CHR ''-'', ceros_num 2, WordB]"

definition rf_extraer_pv_nro :: "string \<Rightarrow> string option \<times> string option" where
  \<comment> \<open>\<open>extraer_pv_nro\<close> of this file\<close>
  "rf_extraer_pv_nro texto =
     (case re_search [S] rf_patron_a texto of
        Some patron_a \<Rightarrow> (Some (rf_limpiar_numero (group patron_a 1)), Some (rf_limpiar_numero (group patron_a 2)))
      | None \<Rightarrow>
     (case re_search [] rf_patron_b texto of
        Some patron_b \<Rightarrow> (Some (rf_limpiar_numero (group patron_b 1)), Some (rf_limpiar_numero (group patron_b 2)))
      | None \<Rightarrow>
     (case re_search [] rf_patron_c texto of
        Some patron_c \<Rightarrow> (Some (rf_limpiar_numero (group patron_c 1)), Some (rf_limpiar_numero (group patron_c 2)))
      | None \<Rightarrow>
     (case re_search [I] pv_fac_espacios texto of
        Some patron_d \<Rightarrow> (Some (rf_limpiar_numero (group patron_d 3)), Some (rf_limpiar_numero (group patron_d 4)))
      | None \<Rightarrow>
     (case re_search [I] pv_fac texto of
        Some patron_e \<Rightarrow> (Some (rf_limpiar_numero (group patron_e 3)), Some (rf_limpiar_numero (group patron_e 4)))
      | None \<Rightarrow> (None, None))))))"

definition truthy_int :: "int option \<Rightarrow> bool" where
  \<comment> \<open>the truth value of an optional integer: neither \<open>None\<close> nor zero\<close>
  "truthy_int v = (case v of None \<Rightarrow> False | Some n \<Rightarrow> n \<noteq> 0)"

definition codigo_por_plan :: "string \<Rightarrow> string option \<Rightarrow> string option \<Rightarrow> int option \<Rightarrow> int option" where
  \<comment> \<open>the block \<open># 4) Fallback si la letra no salio\<close>\<close>
  "codigo_por_plan texto tipo letra codigo =
     (if \<not> truthy_int codigo \<and> letra = None
      then (case re_search [I] pv_fac texto of
              Some plan_de_letra \<Rightarrow>
                (let let_m = py_upper (group plan_de_letra 2)
                 in if truthy tipo then tipo_y_letra_a_codigo tipo (Some let_m) else codigo)
            | None \<Rightarrow> codigo)
      else codigo)"

definition extraer_datos_flexible :: "string \<Rightarrow> string option" where
  "extraer_datos_flexible texto =
     (let cuit = extraer_cuit texto
      in if \<not> truthy cuit then None
         else
     (case extraer_tipo_y_letra texto of (tipo, letra) \<Rightarrow>
     (let codigo = tipo_y_letra_a_codigo tipo letra
      in case rf_extraer_pv_nro texto of (pv, nro) \<Rightarrow>
     (let codigo = codigo_por_plan texto tipo letra codigo
      in if \<not> (truthy cuit \<and> truthy_int codigo \<and> truthy pv \<and> truthy nro) then None
         else Some (the cuit @ ''_'' @ py_str (the codigo) @ ''_'' @ the pv @ ''_'' @ the nro @ ''.pdf'')))))"

definition error_inconsistencia :: string where
  \<comment> \<open>the message of the source string, after its cross mark U+274C\<close>
  "error_inconsistencia = ''Inconsistencia entre p'' @ [a_acute] @ ''gina 1 y 2''"

definition error_sin_datos :: string where
  \<comment> \<open>the message of the source string, after its cross mark\<close>
  "error_sin_datos = ''No se pudo extraer informaci'' @ [o_acute] @ ''n de ninguna p'' @ [a_acute] @ ''gina''"

definition extraer_desde_dos_paginas ::
  "string \<Rightarrow> string \<Rightarrow> string \<Rightarrow> string \<Rightarrow> string option \<times> string option" where
  \<comment> \<open>the texts of the two pages and what OCR gives for them are parameters; the result is
      the pair (new name, error)\<close>
  "extraer_desde_dos_paginas texto_1 texto_2 texto_1_ocr texto_2_ocr =
     (let ocr = (length (py_strip (texto_1 @ texto_2)) < 20);
          t1 = (if ocr then texto_1_ocr else texto_1);
          t2 = (if ocr then texto_2_ocr else texto_2);
          datos1 = extraer_datos_flexible t1;
          datos2 = extraer_datos_flexible t2
      in if truthy datos1 \<and> truthy datos2
         then (if datos1 = datos2 then (datos1, None) else (None, Some error_inconsistencia))
         else if truthy datos1 then (datos1, None)
         else if truthy datos2 then (datos2, None)
         else (None, Some error_sin_datos))"

section \<open>The dates of a text\<close>

text \<open>
  For comparison with what \<open>extraer_fecha\<close> gets from \<open>re.findall\<close>: \<open>fecha_al_inicio sep s\<close>
  says that \<open>s\<close> begins with two digits, \<open>sep\<close>, two digits, \<open>sep\<close> and four digits, and
  \<open>fechas_en sep s\<close> lists the dates met when \<open>s\<close> is read from left to right, the reading
  going on after the last character of each date.
\<close>

definition fecha_al_inicio :: "char \<Rightarrow> string \<Rightarrow> bool" where
  "fecha_al_inicio sep s =
     (10 \<le> length s \<and> list_all (\<lambda>i. is_digit (s ! i)) [0, 1, 3, 4, 6, 7, 8, 9]
      \<and> s ! 2 = sep \<and> s ! 5 = sep)"

function fechas_en :: "char \<Rightarrow> string \<Rightarrow> string list" where
  "fechas_en sep s =
     (if s = [] then []
      else if fecha_al_inicio sep s then take 10 s # fechas_en sep (drop 10 s)
      else fechas_en sep (tl s))"
  by pat_completeness auto
termination
  by (relation "measure (\<lambda>(sep, s). length s)") auto

declare fechas_en.simps [simp del]

section \<open>Example inputs\<close>

definition ahora_ejemplo :: datetime where
  "ahora_ejemplo = \<lparr>year = 2025, month = 3, day = 7\<rparr>"

definition texto_ejemplo :: string where
  \<comment> \<open>a one-page document with a type, a letter, an unlabelled tax id and a number pair\<close>
  "texto_ejemplo = ''FACTURA C 30123456789 0001-00000012''"

definition fila_ejemplo :: fila_excel where
  "fila_ejemplo = \<lparr>cuil = ''20111111112'', codigo_certificado = ''ARG0100012345678'',
     vencimiento_certificado = ''30/03/2026'', provincia = ''02''\<rparr>"

definition texto_importe :: string where
  \<comment> \<open>\<open>texto_ejemplo\<close> with a labelled total\<close>
  "texto_importe = ''FACTURA C 30123456789 0001-00000012 TOTAL: $ 1.500,75''"

definition texto_importe_largo :: string where
  \<comment> \<open>the same document with a total of fifteen digits\<close>
  "texto_importe_largo = ''FACTURA C 30123456789 0001-00000012 TOTAL: 1.234.567.890.123,45''"

definition texto_cuatro_fechas :: string where
  \<comment> \<open>four dates and no label\<close>
  "texto_cuatro_fechas = ''Desde 01/02/2025 hasta 28/02/2025 Vto. 10/03/2025 Emitida 05/03/2025''"

definition texto_fecha_etiquetada :: string where
  \<comment> \<open>a labelled date followed by three more dates\<close>
  "texto_fecha_etiquetada =
     ''Fecha de Emisi'' @ [o_acute] @ ''n: 01/01/2025 02/01/2025 03/01/2025 04/01/2025''"

definition pagina_1234 :: string where
  "pagina_1234 = ''FACTURA C COD. 011 CUIT 30-12345678-9 Nro 0004-00001234''"

definition pagina_1235 :: string where
  "pagina_1235 = ''FACTURA C COD. 011 CUIT 30-12345678-9 Nro 0004-00001235''"

section \<open>Evaluating the character classes\<close>

text \<open>
  The character functions, computed on the eight bits of a character
  (\<open>b0\<close> is the least significant), for evaluation on concrete texts.
\<close>

lemma is_digit_Char [code]:
  "is_digit (Char b0 b1 b2 b3 b4 b5 b6 b7) =
     (\<not> b7 \<and> (\<not> b6 \<and> (b5 \<and> (b4 \<and> (\<not> b3 \<or> (\<not> b2 \<and> \<not> b1))))))"
  by (cases b7; cases b6; cases b5; cases b4; cases b3; cases b2; cases b1; cases b0; simp add: is_digit_def cp_def)

lemma is_space_Char [code]:
  "is_space (Char b0 b1 b2 b3 b4 b5 b6 b7) =
     (if b7 then (\<not> b6 \<and> (if b5 then (\<not> b4 \<and> (\<not> b3 \<and> (\<not> b2 \<and> (\<not> b1 \<and> \<not> b0)))) else (\<not> b4 \<and> (\<not> b3 \<and> (b2 \<and> (\<not> b1 \<and> b0)))))) else (\<not> b6 \<and> (if b5 then (\<not> b4 \<and> (\<not> b3 \<and> (\<not> b2 \<and> (\<not> b1 \<and> \<not> b0)))) else (if b4 then (b3 \<and> b2) else (b3 \<and> (if b2 then \<not> b1 else (b1 \<or> b0)))))))"
  by (cases b7; cases b6; cases b5; cases b4; cases b3; cases b2; cases b1; cases b0; simp add: is_space_def cp_def)

lemma is_word_Char [code]:
  "is_word (Char b0 b1 b2 b3 b4 b5 b6 b7) =
     (if b7 then (if b6 then (\<not> b4 \<or> (b3 \<or> (\<not> b2 \<or> (\<not> b1 \<or> \<not> b0)))) else (b5 \<and> (if b4 then (if b3 then (if b2 then (\<not> b1 \<or> \<not> b0) else (if b1 then \<not> b0 else b0)) else (if b2 then (\<not> b1 \<and> b0) else b1)) else (b3 \<and> (\<not> b2 \<and> (b1 \<and> \<not> b0)))))) else (if b6 then (if b5 then (if b4 then (\<not> b3 \<or> (\<not> b2 \<and> (\<not> b1 \<or> \<not> b0))) else (b3 \<or> (b2 \<or> (b1 \<or> b0)))) else (if b4 then (\<not> b3 \<or> (if b2 then (b1 \<and> b0) else (\<not> b1 \<or> \<not> b0))) else (b3 \<or> (b2 \<or> (b1 \<or> b0))))) else (b5 \<and> (b4 \<and> (\<not> b3 \<or> (\<not> b2 \<and> \<not> b1))))))"
  by (cases b7; cases b6; cases b5; cases b4; cases b3; cases b2; cases b1; cases b0; simp add: is_word_def cp_def)

lemma lower_char_Char [code]:
  "lower_char (Char b0 b1 b2 b3 b4 b5 b6 b7) =
     Char b0 b1 b2 b3 b4 (b5 \<or> (if b7 then (b6 \<and> (\<not> b5 \<and> (\<not> b4 \<or> (\<not> b2 \<or> (\<not> b1 \<or> \<not> b0))))) else (b6 \<and> (\<not> b5 \<and> (if b4 then (\<not> b3 \<or> (\<not> b2 \<and> (\<not> b1 \<or> \<not> b0))) else (b3 \<or> (b2 \<or> (b1 \<or> b0)))))))) b6 b7"
  by (cases b7; cases b6; cases b5; cases b4; cases b3; cases b2; cases b1; cases b0; simp add: lower_char_def cp_def char_of_eq_iff)

lemma upper_char_Char [code]:
  "upper_char (Char b0 b1 b2 b3 b4 b5 b6 b7) =
     Char b0 b1 b2 b3 b4 (b5 \<and> \<not> (if b7 then (b6 \<and> (b5 \<and> (\<not> b4 \<or> (\<not> b2 \<or> (\<not> b1 \<or> \<not> b0))))) else (b6 \<and> (b5 \<and> (if b4 then (\<not> b3 \<or> (\<not> b2 \<and> (\<not> b1 \<or> \<not> b0))) else (b3 \<or> (b2 \<or> (b1 \<or> b0)))))))) b6 b7"
  by (cases b7; cases b6; cases b5; cases b4; cases b3; cases b2; cases b1; cases b0; simp add: upper_char_def cp_def char_of_eq_iff)

section \<open>Soundness of the matcher\<close>

lemma step_sound:
  "s' \<in> set (step P s) \<Longrightarrow> \<exists>x. P x \<and> rest s = x # rest s' \<and> groups s' = groups s \<and> prev s' = Some x"
  by (cases "(P, s)" rule: step.cases) (auto split: if_splits)

lemma guard_sound: "s' \<in> set (guard b s) \<Longrightarrow> s' = s"
  by (simp add: guard_def split: if_splits)

lemma readsD: "reads L f \<Longrightarrow> s' \<in> set (f s) \<Longrightarrow> \<exists>u. rest s = u @ rest s' \<and> u \<in> L"
  by (auto simp: reads_def)

lemma iter_n_reads:
  assumes "reads L f" "s' \<in> set (iter_n f k s)"
  shows "\<exists>us. length us = k \<and> set us \<subseteq> L \<and> rest s = concat us @ rest s'"
  using assms(2)
proof (induction k arbitrary: s)
  case 0
  then show ?case by simp
next
  case (Suc k)
  then obtain s1 where s1: "s1 \<in> set (f s)" "s' \<in> set (iter_n f k s1)" by auto
  from readsD[OF assms(1) s1(1)] obtain u where u: "rest s = u @ rest s1" "u \<in> L" by blast
  from Suc.IH[OF s1(2)] obtain us where us: "length us = k" "set us \<subseteq> L" "rest s1 = concat us @ rest s'"
    by blast
  have "length (u # us) = Suc k \<and> set (u # us) \<subseteq> L \<and> rest s = concat (u # us) @ rest s'"
    using u us by simp
  then show ?case by blast
qed

lemma iter_more_reads:
  assumes "reads L f" "s' \<in> set (iter_more lz f k s)"
  shows "\<exists>us. length us \<le> k \<and> set us \<subseteq> L \<and> rest s = concat us @ rest s'"
  using assms(2)
proof (induction k arbitrary: s)
  case 0
  then have "length ([]::string list) \<le> 0 \<and> set [] \<subseteq> L \<and> rest s = concat [] @ rest s'" by simp
  then show ?case by blast
next
  case (Suc k)
  show ?case
  proof (cases "s' = s")
    case True
    then have "length ([]::string list) \<le> Suc k \<and> set [] \<subseteq> L \<and> rest s = concat [] @ rest s'" by simp
    then show ?thesis by blast
  next
    case False
    with Suc.prems obtain s1 where s1: "s1 \<in> set (f s)" "s' \<in> set (iter_more lz f k s1)"
      by (auto simp: Let_def split: if_splits)
    from readsD[OF assms(1) s1(1)] obtain u where u: "rest s = u @ rest s1" "u \<in> L" by blast
    from Suc.IH[OF s1(2)] obtain us where us: "length us \<le> k" "set us \<subseteq> L" "rest s1 = concat us @ rest s'"
      by blast
    have "length (u # us) \<le> Suc k \<and> set (u # us) \<subseteq> L \<and> rest s = concat (u # us) @ rest s'"
      using u us by simp
    then show ?thesis by blast
  qed
qed

lemma ms_reads: "reads (lang fl r) (ms fl r)"
proof (induction r)
  case (Seq a b)
  show ?case
    unfolding reads_def
  proof (intro allI impI)
    fix s s' assume "s' \<in> set (ms fl (Seq a b) s)"
    then obtain s1 where s1: "s1 \<in> set (ms fl a s)" "s' \<in> set (ms fl b s1)" by auto
    from readsD[OF Seq.IH(1) s1(1)] obtain u where u: "rest s = u @ rest s1" "u \<in> lang fl a" by blast
    from readsD[OF Seq.IH(2) s1(2)] obtain v where v: "rest s1 = v @ rest s'" "v \<in> lang fl b" by blast
    have "rest s = (u @ v) @ rest s' \<and> u @ v \<in> lang fl (Seq a b)" using u v by auto
    then show "\<exists>w. rest s = w @ rest s' \<and> w \<in> lang fl (Seq a b)" by blast
  qed
next
  case (Alt a b)
  then show ?case by (fastforce simp: reads_def)
next
  case (Rep r m n lz)
  show ?case
    unfolding reads_def
  proof (intro allI impI)
    fix s s' assume "s' \<in> set (ms fl (Rep r m n lz) s)"
    then obtain s1 where s1: "s1 \<in> set (iter_n (ms fl r) m s)"
      "s' \<in> set (iter_more lz (ms fl r) (case n of None \<Rightarrow> length (rest s1) | Some k \<Rightarrow> k - m) s1)"
      by auto
    from iter_n_reads[OF Rep.IH s1(1)] obtain us where
      us: "length us = m" "set us \<subseteq> lang fl r" "rest s = concat us @ rest s1" by blast
    from iter_more_reads[OF Rep.IH s1(2)] obtain vs where
      vs: "length vs \<le> (case n of None \<Rightarrow> length (rest s1) | Some k \<Rightarrow> k - m)"
      "set vs \<subseteq> lang fl r" "rest s1 = concat vs @ rest s'" by blast
    have b: "case n of None \<Rightarrow> True | Some k \<Rightarrow> length (us @ vs) \<le> max m k"
      using us(1) vs(1) by (auto split: option.splits)
    have "rest s = concat (us @ vs) @ rest s'" using us vs by simp
    moreover have "concat (us @ vs) \<in> lang fl (Rep r m n lz)"
      using us vs b by (simp, intro exI[of _ "us @ vs"]) auto
    ultimately show "\<exists>w. rest s = w @ rest s' \<and> w \<in> lang fl (Rep r m n lz)" by blast
  qed
next
  case (Group g r)
  then show ?case by (fastforce simp: reads_def set_group_def)
qed (auto simp: reads_def dest!: step_sound guard_sound)

lemma ms_sound: "s' \<in> set (ms fl r s) \<Longrightarrow> \<exists>u. rest s = u @ rest s' \<and> u \<in> lang fl r"
  using ms_reads by (rule readsD)

text \<open>Groups: what they hold, and that they are never lost.\<close>

lemma holdsD:
  "holds G g f \<Longrightarrow> s' \<in> set (f s) \<Longrightarrow> groups s' g = Some u \<Longrightarrow> groups s g = Some u \<or> u \<in> G"
  unfolding holds_def by blast

lemma iter_n_holds:
  assumes "holds G g f"
  shows "holds G g (iter_n f k)"
proof (induction k)
  case 0
  then show ?case by (simp add: holds_def)
next
  case (Suc k)
  show ?case
    unfolding holds_def
  proof (intro allI impI)
    fix s s' u assume a: "s' \<in> set (iter_n f (Suc k) s)" "groups s' g = Some u"
    then obtain s1 where s1: "s1 \<in> set (f s)" "s' \<in> set (iter_n f k s1)" by auto
    from holdsD[OF Suc s1(2) a(2)] have "groups s1 g = Some u \<or> u \<in> G" .
    then show "groups s g = Some u \<or> u \<in> G"
      using holdsD[OF assms s1(1)] by blast
  qed
qed

lemma iter_more_holds:
  assumes "holds G g f"
  shows "holds G g (iter_more lz f k)"
proof (induction k)
  case 0
  then show ?case by (simp add: holds_def)
next
  case (Suc k)
  show ?case
    unfolding holds_def
  proof (intro allI impI)
    fix s s' u assume a: "s' \<in> set (iter_more lz f (Suc k) s)" "groups s' g = Some u"
    show "groups s g = Some u \<or> u \<in> G"
    proof (cases "s' = s")
      case True
      then show ?thesis using a by simp
    next
      case False
      with a(1) obtain s1 where s1: "s1 \<in> set (f s)" "s' \<in> set (iter_more lz f k s1)"
        by (auto simp: Let_def split: if_splits)
      from holdsD[OF Suc s1(2) a(2)] have "groups s1 g = Some u \<or> u \<in> G" .
      then show ?thesis using holdsD[OF assms s1(1)] by blast
    qed
  qed
qed

lemma ms_holds: "holds (glang fl r g) g (ms fl r)"
proof (induction r)
  case (Seq a b)
  show ?case
    unfolding holds_def
  proof (intro allI impI)
    fix s s' u assume a: "s' \<in> set (ms fl (Seq a b) s)" "groups s' g = Some u"
    then obtain s1 where s1: "s1 \<in> set (ms fl a s)" "s' \<in> set (ms fl b s1)" by auto
    from holdsD[OF Seq.IH(2) s1(2) a(2)] have "groups s1 g = Some u \<or> u \<in> glang fl b g" .
    then show "groups s g = Some u \<or> u \<in> glang fl (Seq a b) g"
      using holdsD[OF Seq.IH(1) s1(1)] by auto
  qed
next
  case (Alt a b)
  show ?case
    unfolding holds_def
  proof (intro allI impI)
    fix s s' u assume a: "s' \<in> set (ms fl (Alt a b) s)" "groups s' g = Some u"
    then have "s' \<in> set (ms fl a s) \<or> s' \<in> set (ms fl b s)" by simp
    then show "groups s g = Some u \<or> u \<in> glang fl (Alt a b) g"
      using holdsD[OF Alt.IH(1) _ a(2)] holdsD[OF Alt.IH(2) _ a(2)] by auto
  qed
next
  case (Rep r m n lz)
  show ?case
    unfolding holds_def
  proof (intro allI impI)
    fix s s' u assume a: "s' \<in> set (ms fl (Rep r m n lz) s)" "groups s' g = Some u"
    then obtain s1 k where s1: "s1 \<in> set (iter_n (ms fl r) m s)" "s' \<in> set (iter_more lz (ms fl r) k s1)"
      by auto
    from holdsD[OF iter_more_holds[OF Rep.IH] s1(2) a(2)] have "groups s1 g = Some u \<or> u \<in> glang fl r g" .
    then show "groups s g = Some u \<or> u \<in> glang fl (Rep r m n lz) g"
      using holdsD[OF iter_n_holds[OF Rep.IH] s1(1)] by auto
  qed
next
  case (Group h r)
  show ?case
    unfolding holds_def
  proof (intro allI impI)
    fix s s' u assume a: "s' \<in> set (ms fl (Group h r) s)" "groups s' g = Some u"
    then obtain s1 where s1: "s1 \<in> set (ms fl r s)" "s' = set_group h s s1" by auto
    from ms_sound[OF s1(1)] obtain w where w: "rest s = w @ rest s1" "w \<in> lang fl r" by blast
    have tk: "take (length (rest s) - length (rest s1)) (rest s) = w" using w(1) by simp
    show "groups s g = Some u \<or> u \<in> glang fl (Group h r) g"
    proof (cases "h = g")
      case True
      then have "u = w" using a(2) s1(2) tk by (simp add: set_group_def)
      then show ?thesis using w(2) True by simp
    next
      case False
      then have "groups s1 g = Some u" using a(2) s1(2) by (simp add: set_group_def)
      from holdsD[OF Group.IH s1(1) this] show ?thesis by auto
    qed
  qed
qed (auto simp: holds_def dest!: step_sound guard_sound)

lemma keepsD: "keeps g f \<Longrightarrow> s' \<in> set (f s) \<Longrightarrow> groups s g \<noteq> None \<Longrightarrow> groups s' g \<noteq> None"
  unfolding keeps_def by blast

lemma setsD: "sets g f \<Longrightarrow> s' \<in> set (f s) \<Longrightarrow> groups s' g \<noteq> None"
  unfolding sets_def by blast

lemma iter_n_keeps: "keeps g f \<Longrightarrow> keeps g (iter_n f k)"
proof (induction k)
  case 0
  then show ?case by (simp add: keeps_def)
next
  case (Suc k)
  then have ih: "keeps g (iter_n f k)" by simp
  show ?case
    unfolding keeps_def
  proof (intro allI impI)
    fix s s' assume a: "s' \<in> set (iter_n f (Suc k) s)" "groups s g \<noteq> None"
    then obtain s1 where s1: "s1 \<in> set (f s)" "s' \<in> set (iter_n f k s1)" by auto
    show "groups s' g \<noteq> None"
      using keepsD[OF ih s1(2)] keepsD[OF Suc.prems s1(1) a(2)] by blast
  qed
qed

lemma iter_more_keeps: "keeps g f \<Longrightarrow> keeps g (iter_more lz f k)"
proof (induction k)
  case 0
  then show ?case by (simp add: keeps_def)
next
  case (Suc k)
  then have ih: "keeps g (iter_more lz f k)" by simp
  show ?case
    unfolding keeps_def
  proof (intro allI impI)
    fix s s' assume a: "s' \<in> set (iter_more lz f (Suc k) s)" "groups s g \<noteq> None"
    show "groups s' g \<noteq> None"
    proof (cases "s' = s")
      case True
      then show ?thesis using a by simp
    next
      case False
      with a(1) obtain s1 where s1: "s1 \<in> set (f s)" "s' \<in> set (iter_more lz f k s1)"
        by (auto simp: Let_def split: if_splits)
      show ?thesis using keepsD[OF ih s1(2)] keepsD[OF Suc.prems s1(1) a(2)] by blast
    qed
  qed
qed

lemma ms_keeps: "keeps g (ms fl r)"
proof (induction r)
  case (Seq a b)
  show ?case
    unfolding keeps_def
  proof (intro allI impI)
    fix s s' assume a: "s' \<in> set (ms fl (Seq a b) s)" "groups s g \<noteq> None"
    then obtain s1 where s1: "s1 \<in> set (ms fl a s)" "s' \<in> set (ms fl b s1)" by auto
    show "groups s' g \<noteq> None"
      using keepsD[OF Seq.IH(2) s1(2)] keepsD[OF Seq.IH(1) s1(1) a(2)] by blast
  qed
next
  case (Alt a b)
  then show ?case by (auto simp: keeps_def)
next
  case (Rep r m n lz)
  show ?case
    unfolding keeps_def
  proof (intro allI impI)
    fix s s' assume a: "s' \<in> set (ms fl (Rep r m n lz) s)" "groups s g \<noteq> None"
    then obtain s1 k where s1: "s1 \<in> set (iter_n (ms fl r) m s)" "s' \<in> set (iter_more lz (ms fl r) k s1)"
      by auto
    show "groups s' g \<noteq> None"
      using keepsD[OF iter_more_keeps[OF Rep.IH] s1(2)] keepsD[OF iter_n_keeps[OF Rep.IH] s1(1) a(2)] by blast
  qed
next
  case (Group h r)
  then show ?case by (auto simp: keeps_def set_group_def)
qed (auto simp: keeps_def dest!: step_sound guard_sound)

lemma iter_n_sets:
  assumes "sets g f" "keeps g f" "0 < k"
  shows "sets g (iter_n f k)"
  unfolding sets_def
proof (intro allI impI)
  fix s s' assume a: "s' \<in> set (iter_n f k s)"
  from assms(3) obtain j where k: "k = Suc j" by (cases k) auto
  with a obtain s1 where s1: "s1 \<in> set (f s)" "s' \<in> set (iter_n f j s1)" by auto
  show "groups s' g \<noteq> None"
    using keepsD[OF iter_n_keeps[OF assms(2)] s1(2)] setsD[OF assms(1) s1(1)] by blast
qed

lemma ms_sets: "gdef r g \<Longrightarrow> sets g (ms fl r)"
proof (induction r)
  case (Seq a b)
  show ?case
    unfolding sets_def
  proof (intro allI impI)
    fix s s' assume "s' \<in> set (ms fl (Seq a b) s)"
    then obtain s1 where s1: "s1 \<in> set (ms fl a s)" "s' \<in> set (ms fl b s1)" by auto
    from Seq.prems have "gdef a g \<or> gdef b g" by simp
    then show "groups s' g \<noteq> None"
    proof
      assume "gdef a g"
      then have "groups s1 g \<noteq> None" using setsD[OF Seq.IH(1) s1(1)] by blast
      then show ?thesis using keepsD[OF ms_keeps s1(2)] by blast
    next
      assume "gdef b g"
      then show ?thesis using setsD[OF Seq.IH(2) s1(2)] by blast
    qed
  qed
next
  case (Alt a b)
  then show ?case by (auto simp: sets_def)
next
  case (Rep r m n lz)
  then have m: "0 < m" and gr: "sets g (ms fl r)" by auto
  show ?case
    unfolding sets_def
  proof (intro allI impI)
    fix s s' assume "s' \<in> set (ms fl (Rep r m n lz) s)"
    then obtain s1 k where s1: "s1 \<in> set (iter_n (ms fl r) m s)" "s' \<in> set (iter_more lz (ms fl r) k s1)"
      by auto
    have "groups s1 g \<noteq> None" using setsD[OF iter_n_sets[OF gr ms_keeps m] s1(1)] .
    then show "groups s' g \<noteq> None" using keepsD[OF iter_more_keeps[OF ms_keeps] s1(2)] by blast
  qed
next
  case (Group h r)
  then show ?case by (auto simp: sets_def set_group_def)
qed (auto simp: sets_def)

text \<open>Searching: a match found in a text has the groups of a match of the pattern.\<close>

lemma ms_is_match:
  assumes "s' \<in> set (ms fl (Group 0 r) (MState p cs Map.empty))"
  shows "is_match fl r (groups s') \<and> (\<exists>u. cs = u @ rest s' \<and> groups s' 0 = Some u)"
proof -
  from assms obtain s1 where s1: "s1 \<in> set (ms fl r (MState p cs Map.empty))"
    "s' = set_group 0 (MState p cs Map.empty) s1" by auto
  from ms_sound[OF s1(1)] obtain w where w: "cs = w @ rest s1" "w \<in> lang fl r" by auto
  have g0: "groups s' 0 = Some w" using s1(2) w(1) by (simp add: set_group_def)
  have r': "rest s' = rest s1" using s1(2) by (simp add: set_group_def)
  have gl: "\<forall>g u. 0 < g \<longrightarrow> groups s' g = Some u \<longrightarrow> u \<in> glang fl r g"
  proof (intro allI impI)
    fix g u assume a: "(0::nat) < g" "groups s' g = Some u"
    then have "groups s1 g = Some u" using s1(2) by (simp add: set_group_def)
    from holdsD[OF ms_holds s1(1) this] show "u \<in> glang fl r g" by simp
  qed
  have gd: "\<forall>g. gdef r g \<longrightarrow> groups s' g \<noteq> None"
  proof (intro allI impI)
    fix g assume "gdef r g"
    then have "groups s1 g \<noteq> None" using setsD[OF ms_sets s1(1)] by blast
    then show "groups s' g \<noteq> None" using s1(2) by (simp add: set_group_def)
  qed
  show ?thesis using g0 w r' gl gd unfolding is_match_def by auto
qed

lemma search_from_sound:
  "search_from fl r p cs = Some s' \<Longrightarrow>
     is_match fl r (groups s') \<and> (\<exists>a u. cs = a @ u @ rest s' \<and> groups s' 0 = Some u)"
proof (induction cs arbitrary: p)
  case Nil
  then obtain ss where "ms fl (Group 0 r) (MState p [] Map.empty) = s' # ss"
    by (auto split: list.splits)
  then have "s' \<in> set (ms fl (Group 0 r) (MState p [] Map.empty))" by simp
  from ms_is_match[OF this] show ?case by auto
next
  case (Cons c cs)
  show ?case
  proof (cases "ms fl (Group 0 r) (MState p (c # cs) Map.empty)")
    case Nil
    then have "search_from fl r (Some c) cs = Some s'" using Cons.prems by simp
    from Cons.IH[OF this] obtain a u where "cs = a @ u @ rest s'" "groups s' 0 = Some u"
      and im: "is_match fl r (groups s')" by blast
    then have "c # cs = (c # a) @ u @ rest s' \<and> groups s' 0 = Some u" by simp
    then show ?thesis using im by blast
  next
    case (Cons s1 ss)
    then have e: "s1 = s'" using Cons.prems by simp
    then have "s' \<in> set (ms fl (Group 0 r) (MState p (c # cs) Map.empty))" using Cons by simp
    from ms_is_match[OF this] obtain u where "is_match fl r (groups s')"
      "c # cs = [] @ u @ rest s'" "groups s' 0 = Some u" by auto
    then show ?thesis by blast
  qed
qed

lemma re_search_is_match: "re_search fl r texto = Some m \<Longrightarrow> is_match fl r m"
  unfolding re_search_def using search_from_sound by blast

lemma finditer_from_is_match: "m \<in> set (finditer_from fl r p cs) \<Longrightarrow> is_match fl r m"
proof (induction fl r p cs rule: finditer_from.induct)
  case (1 fl r p cs)
  show ?case
  proof (cases "search_from fl r p cs")
    case None
    then show ?thesis using "1.prems" by (simp add: finditer_from.simps)
  next
    case (Some s')
    show ?thesis
    proof (cases "m = groups s'")
      case True
      then show ?thesis using search_from_sound[OF Some] by simp
    next
      case False
      then have "length (rest s') < length cs \<and> m \<in> set (finditer_from fl r (prev s') (rest s'))"
        using "1.prems" Some by (subst (asm) finditer_from.simps) (auto split: if_splits)
      then show ?thesis using "1.IH"[OF Some] by blast
    qed
  qed
qed

lemma re_finditer_is_match: "m \<in> set (re_finditer fl r texto) \<Longrightarrow> is_match fl r m"
  unfolding re_finditer_def by (rule finditer_from_is_match)

lemma is_match_group:
  assumes "is_match fl r m" "gdef r g" "0 < g"
  shows "group m g \<in> glang fl r g"
proof -
  from assms obtain u where "m g = Some u" unfolding is_match_def by blast
  then show ?thesis using assms unfolding is_match_def group_def by auto
qed

lemma is_match_group0: "is_match fl r m \<Longrightarrow> group m 0 \<in> lang fl r"
  unfolding is_match_def group_def by auto

text \<open>Lengths and shapes of what the patterns read.\<close>

lemma concat_minlen:
  assumes "\<And>u. u \<in> set us \<Longrightarrow> k \<le> length u"
  shows "length us * k \<le> length (concat us)"
  using assms by (induction us) (auto simp: add_mono)

lemma lang_minlen: "u \<in> lang fl r \<Longrightarrow> minlen r \<le> length u"
proof (induction r arbitrary: u)
  case (Seq a b)
  then show ?case by (fastforce simp: add_mono)
next
  case (Alt a b)
  then show ?case by (auto simp: min_le_iff_disj)
next
  case (Rep r m n lz)
  then obtain us where us: "u = concat us" "set us \<subseteq> lang fl r" "m \<le> length us" by auto
  have "length us * minlen r \<le> length (concat us)"
    using us(2) Rep.IH by (intro concat_minlen) auto
  moreover have "m * minlen r \<le> length us * minlen r" using us(3) by (rule mult_le_mono1)
  ultimately have "m * minlen r \<le> length (concat us)" by (rule le_trans[rotated])
  then show ?case using us(1) by simp
qed auto

lemma concat_singletons:
  assumes "set us \<subseteq> {[x] | x. P x}"
  shows "length (concat us) = length us \<and> list_all P (concat us)"
  using assms by (induction us) auto

lemma lang_Rep_chars:
  assumes "lang fl r = {[x] | x. P x}"
  shows "lang fl (Rep r m n lz) =
    {u. list_all P u \<and> m \<le> length u \<and> (case n of None \<Rightarrow> True | Some k \<Rightarrow> length u \<le> max m k)}"
proof (intro set_eqI iffI)
  fix u assume "u \<in> lang fl (Rep r m n lz)"
  then obtain us where us: "u = concat us" "set us \<subseteq> {[x] | x. P x}" "m \<le> length us"
    "case n of None \<Rightarrow> True | Some k \<Rightarrow> length us \<le> max m k"
    using assms by auto
  from concat_singletons[OF us(2)] have "length u = length us" "list_all P u" using us(1) by auto
  then show "u \<in> {u. list_all P u \<and> m \<le> length u \<and> (case n of None \<Rightarrow> True | Some k \<Rightarrow> length u \<le> max m k)}"
    using us(3,4) by (simp split: option.splits)
next
  fix u assume "u \<in> {u. list_all P u \<and> m \<le> length u \<and> (case n of None \<Rightarrow> True | Some k \<Rightarrow> length u \<le> max m k)}"
  then have u: "list_all P u" "m \<le> length u" "case n of None \<Rightarrow> True | Some k \<Rightarrow> length u \<le> max m k"
    by auto
  let ?us = "map (\<lambda>x. [x]) u"
  have "concat ?us = u" by (induction u) auto
  moreover have "set ?us \<subseteq> lang fl r" using u(1) assms by (auto simp: list_all_iff)
  moreover have "length ?us = length u" by simp
  ultimately have "\<exists>us. u = concat us \<and> set us \<subseteq> lang fl r \<and> m \<le> length us
      \<and> (case n of None \<Rightarrow> True | Some k \<Rightarrow> length us \<le> max m k)"
    using u(2,3) by (intro exI[of _ ?us]) (auto split: option.splits)
  then show "u \<in> lang fl (Rep r m n lz)" by simp
qed

lemma lang_Rep_Cls:
  "lang fl (Rep (Cls k) m n lz) =
    {u. list_all (cls_match k) u \<and> m \<le> length u \<and> (case n of None \<Rightarrow> True | Some j \<Rightarrow> length u \<le> max m j)}"
  by (rule lang_Rep_chars) simp

lemma cls_match_D: "cls_match D = is_digit"
  by (rule ext) simp

lemma lang_digits: "u \<in> lang fl (Times k (Cls D)) \<longleftrightarrow> list_all is_digit u \<and> length u = k"
  unfolding lang_Rep_Cls cls_match_D by auto

declare lang.simps [simp del]

lemma in_lang_Eps: "w \<in> lang fl Eps \<longleftrightarrow> w = []"
  by (simp add: lang.simps)

lemma in_lang_Seq:
  "w \<in> lang fl (Seq a b) \<longleftrightarrow> (\<exists>u v. w = u @ v \<and> u \<in> lang fl a \<and> v \<in> lang fl b)"
  by (auto simp: lang.simps)

lemma in_lang_Alt: "w \<in> lang fl (Alt a b) \<longleftrightarrow> w \<in> lang fl a \<or> w \<in> lang fl b"
  by (simp add: lang.simps)

lemma in_lang_Group: "w \<in> lang fl (Group g r) \<longleftrightarrow> w \<in> lang fl r"
  by (simp add: lang.simps)

lemma in_lang_Lit: "w \<in> lang fl (Lit c) \<longleftrightarrow> (\<exists>x. w = [x] \<and> lit_match fl c x)"
  by (auto simp: lang.simps)

lemma in_lang_Cls: "w \<in> lang fl (Cls k) \<longleftrightarrow> (\<exists>x. w = [x] \<and> cls_match k x)"
  by (auto simp: lang.simps)

lemma in_lang_Set: "w \<in> lang fl (Set its) \<longleftrightarrow> (\<exists>x. w = [x] \<and> (\<exists>i \<in> set its. item_match fl i x))"
  by (auto simp: lang.simps)

lemma in_lang_anchor: "w \<in> lang fl Bol \<longleftrightarrow> w = []" "w \<in> lang fl Eol \<longleftrightarrow> w = []" "w \<in> lang fl WordB \<longleftrightarrow> w = []"
  by (simp_all add: lang.simps)


lemma cp_lower_char:
  "cp (lower_char x) =
     (if (65 \<le> cp x \<and> cp x \<le> 90) \<or> (192 \<le> cp x \<and> cp x \<le> 214) \<or> (216 \<le> cp x \<and> cp x \<le> 222)
      then cp x + 32 else cp x)"
  by (auto simp: lower_char_def cp_def)

lemma cp_inject: "cp x = cp y \<longleftrightarrow> x = y"
  by (simp add: cp_def)

lemma lit_match_symbol:
  assumes "cp c < 65 \<or> (90 < cp c \<and> cp c < 97) \<or> (122 < cp c \<and> cp c < 192)"
  shows "lit_match fl c x \<longleftrightarrow> x = c"
proof -
  have "lower_char x = lower_char c \<longleftrightarrow> x = c"
  proof
    assume "lower_char x = lower_char c"
    then have "cp (lower_char x) = cp (lower_char c)" by simp
    then have "cp x = cp c" using assms by (auto simp: cp_lower_char split: if_splits)
    then show "x = c" by (simp add: cp_inject)
  qed simp
  then show ?thesis by (simp add: lit_match_def)
qed

lemma cp_values:
  "cp CHR ''-'' = 45" "cp CHR ''/'' = 47" "cp CHR ''.'' = 46" "cp CHR '','' = 44" "cp CHR '':'' = 58"
  "cp newline = 10" "cp CHR ''B'' = 66" "cp CHR ''C'' = 67" "cp CHR ''b'' = 98" "cp CHR ''c'' = 99"
  by (simp_all add: cp_def newline_def)

lemma lit_match_hyphen: "lit_match fl CHR ''-'' x \<longleftrightarrow> x = CHR ''-''"
  by (rule lit_match_symbol) (simp add: cp_values)

lemma lit_match_slash: "lit_match fl CHR ''/'' x \<longleftrightarrow> x = CHR ''/''"
  by (rule lit_match_symbol) (simp add: cp_values)

lemma lit_match_newline: "lit_match fl newline x \<longleftrightarrow> x = newline"
  by (rule lit_match_symbol) (simp add: cp_values)

lemma is_digit_not_hyphen: "is_digit x \<Longrightarrow> x \<noteq> CHR ''-''"
  by (auto simp: is_digit_def cp_values)

lemma lang_cuit_guiones:
  assumes "u \<in> lang fl cuit_guiones"
  shows "\<exists>a b c. u = a @ ''-'' @ b @ ''-'' @ [c] \<and> list_all is_digit a \<and> length a = 2
        \<and> list_all is_digit b \<and> length b = 8 \<and> is_digit c"
proof -
  from assms have "u \<in> lang fl (Seq (Times 2 (Cls D)) (Seq (Lit CHR ''-'') (Seq (Times 8 (Cls D))
      (Seq (Lit CHR ''-'') (Seq (Cls D) Eps)))))"
    by (simp add: cuit_guiones_def)
  then obtain a x b y c where "u = a @ [x] @ b @ [y] @ [c]" "list_all is_digit a" "length a = 2"
    "x = CHR ''-''" "list_all is_digit b" "length b = 8" "y = CHR ''-''" "is_digit c"
    unfolding in_lang_Seq lang_digits in_lang_Lit in_lang_Cls in_lang_Eps lit_match_hyphen cls_match_D
    by auto
  then show ?thesis by auto
qed

lemma cuit_sin_guiones:
  assumes "u \<in> lang fl cuit_guiones"
  shows "length (py_remove CHR ''-'' u) = 11 \<and> list_all is_digit (py_remove CHR ''-'' u)"
proof -
  from lang_cuit_guiones[OF assms] obtain a b c where u: "u = a @ ''-'' @ b @ ''-'' @ [c]"
    "list_all is_digit a" "length a = 2" "list_all is_digit b" "length b = 8" "is_digit c"
    by blast
  have fa: "filter (\<lambda>x. x \<noteq> CHR ''-'') a = a" "filter (\<lambda>x. x \<noteq> CHR ''-'') b = b"
    using u(2,4) by (auto simp: filter_id_conv list_all_iff dest: is_digit_not_hyphen)
  have "py_remove CHR ''-'' u = a @ b @ [c]"
    using u(6) fa by (simp add: py_remove_def u(1) is_digit_not_hyphen)
  then show ?thesis using u by simp
qed

lemma cuit_once_digitos:
  assumes "u \<in> lang fl (Times 11 (Cls D))"
  shows "length (py_remove CHR ''-'' u) = 11 \<and> list_all is_digit (py_remove CHR ''-'' u)"
proof -
  from assms have u: "list_all is_digit u" "length u = 11" unfolding lang_digits by simp_all
  then have "py_remove CHR ''-'' u = u"
    by (auto simp: py_remove_def filter_id_conv list_all_iff dest: is_digit_not_hyphen)
  then show ?thesis using u by simp
qed

section \<open>The date and the period are never missing\<close>

lemma glang_Str: "glang fl (Str s) g = {}"
  unfolding Str_def by (induction s) auto

lemma gdef_Str: "\<not> gdef (Str s) g"
  unfolding Str_def by (induction s) auto

lemma minlen_Str: "minlen (Str s) = length s"
  unfolding Str_def by (induction s) auto

lemma re_findall_lang: "f \<in> set (re_findall fl r texto) \<Longrightarrow> f \<in> lang fl r"
  unfolding re_findall_def using re_finditer_is_match is_match_group0 by auto

lemma re_search_group:
  assumes "re_search fl r texto = Some m" "gdef r g" "0 < g"
  shows "m g \<noteq> None \<and> group m g \<in> glang fl r g"
  using re_search_is_match[OF assms(1)] is_match_group[OF _ assms(2,3)] assms(2)
  unfolding is_match_def by blast

lemma zfill_length: "w \<le> length (zfill w s)"
  by (cases s) (auto simp: zfill_def)

lemma zfill_nonempty: "0 < w \<Longrightarrow> zfill w s \<noteq> []"
  using zfill_length[of w s] by auto

lemma strftime_dmY_nonempty: "strftime_dmY ahora \<noteq> []"
  by (simp add: strftime_dmY_def)

lemma periodo_actual_nonempty: "periodo_actual ahora \<noteq> []"
  by (simp add: periodo_actual_def zfill_nonempty)

lemma fecha_barras_length: "u \<in> lang fl fecha_barras \<Longrightarrow> 10 \<le> length u"
  using lang_minlen[of u fl fecha_barras] by (simp add: fecha_barras_def)

lemma fecha_guiones_length: "u \<in> lang fl fecha_guiones \<Longrightarrow> 10 \<le> length u"
  using lang_minlen[of u fl fecha_guiones] by (simp add: fecha_guiones_def)

lemma fecha_emision_groups: "gdef fecha_emision 1" "glang fl fecha_emision 1 = lang fl fecha_barras"
  by (simp_all add: fecha_emision_def glang_Str gdef_Str fecha_barras_def)

lemma nth_nonempty:
  assumes "\<And>f. f \<in> set fs \<Longrightarrow> f \<noteq> []" "i < length fs"
  shows "fs ! i \<noteq> []"
  using assms by simp

lemma extraer_fecha_nonempty: "extraer_fecha ahora texto \<noteq> []"
proof (cases "re_search [I] fecha_emision texto")
  case (Some m)
  have "group m 1 \<in> lang [I] fecha_barras"
    using re_search_group[OF Some fecha_emision_groups(1) zero_less_one]
    unfolding fecha_emision_groups(2) by blast
  from fecha_barras_length[OF this] show ?thesis using Some by (auto simp: extraer_fecha_def)
next
  case None
  have a: "\<And>f. f \<in> set (re_findall [] fecha_barras texto) \<Longrightarrow> f \<noteq> []"
    using re_findall_lang fecha_barras_length by fastforce
  have b: "\<And>f. f \<in> set (re_findall [] fecha_guiones texto) \<Longrightarrow> f \<noteq> []"
    using re_findall_lang fecha_guiones_length by fastforce
  show ?thesis
    using None nth_nonempty[OF a] nth_nonempty[OF b] strftime_dmY_nonempty
    by (auto simp: extraer_fecha_def Let_def py_replace_char_def)
qed

lemma periodo_facturado_groups:
  "gdef periodo_facturado 1" "gdef periodo_facturado 2"
  "glang fl periodo_facturado 1 = lang fl (Times 2 (Cls D))"
  "glang fl periodo_facturado 2 = lang fl (Times 4 (Cls D))"
  by (simp_all add: periodo_facturado_def glang_Str gdef_Str)

lemma mes_de_groups:
  "gdef mes_de 1" "gdef mes_de 2"
  "glang fl mes_de 1 = lang fl (Plus (Cls W))"
  "glang fl mes_de 2 = lang fl (Times 4 (Cls D))"
  by (simp_all add: mes_de_def glang_Str gdef_Str)

lemma periodo_por_mes_nonempty: "periodo_por_mes ahora texto \<noteq> []"
proof (cases "re_search [I] mes_de texto")
  case None
  then show ?thesis by (simp add: periodo_por_mes_def periodo_actual_nonempty)
next
  case (Some m)
  have "group m 2 \<in> lang [I] (Times 4 (Cls D))"
    using re_search_group[OF Some mes_de_groups(2) zero_less_numeral]
    unfolding mes_de_groups(4) by blast
  then have "group m 2 \<noteq> []" unfolding lang_digits by auto
  then show ?thesis
    using Some by (auto simp: periodo_por_mes_def Let_def periodo_actual_nonempty split: option.splits)
qed

lemma extraer_periodo_nonempty: "extraer_periodo ahora texto \<noteq> []"
proof (cases "re_search [I] periodo_facturado texto")
  case None
  then show ?thesis by (simp add: extraer_periodo_def periodo_por_mes_nonempty)
next
  case (Some m)
  have "group m 1 \<in> lang [I] (Times 2 (Cls D))"
    using re_search_group[OF Some periodo_facturado_groups(1) zero_less_one]
    unfolding periodo_facturado_groups(3) by blast
  then have "group m 1 \<noteq> []" unfolding lang_digits by auto
  then show ?thesis using Some by (simp add: extraer_periodo_def)
qed

section \<open>The issuer's tax id\<close>

lemma patrones_cuit_grupo:
  assumes "p \<in> set patrones_cuit"
  shows "gdef p 1"
    and "glang fl p 1 = lang fl cuit_guiones \<or> glang fl p 1 = lang fl (Times 11 (Cls D))"
  using assms
  by (auto simp: patrones_cuit_def cuit_label_def cuit_guiones_def glang_Str gdef_Str)

lemma candidato_cuit:
  assumes "m \<in> set (re_finditer [I] p texto)" "p \<in> set patrones_cuit"
  shows "length (py_remove CHR ''-'' (group m 1)) = 11 \<and> list_all is_digit (py_remove CHR ''-'' (group m 1))"
proof -
  have "group m 1 \<in> glang [I] p 1"
    using is_match_group[OF re_finditer_is_match[OF assms(1)] patrones_cuit_grupo(1)[OF assms(2)] zero_less_one] .
  then have "group m 1 \<in> lang [I] cuit_guiones \<or> group m 1 \<in> lang [I] (Times 11 (Cls D))"
    using patrones_cuit_grupo(2)[OF assms(2), of "[I]"] by auto
  then show ?thesis using cuit_sin_guiones cuit_once_digitos by blast
qed

lemma candidatos_cuit_once:
  "c \<in> set (candidatos_cuit texto) \<Longrightarrow> length c = 11 \<and> list_all is_digit c"
  unfolding candidatos_cuit_def using candidato_cuit by auto

lemma foldl_agregar_cuit:
  "foldl agregar_cuit cuits mts = foldl agregar_id cuits (map (\<lambda>m. py_remove CHR ''-'' (group m 1)) mts)"
  by (induction mts arbitrary: cuits) (simp_all add: agregar_cuit_def agregar_id_def Let_def)

lemma foldl_patrones:
  "foldl (\<lambda>cuits patron. foldl agregar_cuit cuits (f patron)) cuits ps =
     foldl agregar_id cuits (concat (map (\<lambda>patron. map (\<lambda>m. py_remove CHR ''-'' (group m 1)) (f patron)) ps))"
  by (induction ps arbitrary: cuits) (simp_all add: foldl_agregar_cuit)

lemma extraer_cuits_candidatos: "extraer_cuits texto = foldl agregar_id [] (candidatos_cuit texto)"
  unfolding extraer_cuits_def candidatos_cuit_def by (rule foldl_patrones)

lemma foldl_agregar_id_first:
  assumes "\<And>c. c \<in> set cs \<Longrightarrow> length c = 11"
  shows "foldl agregar_id [] cs = rev (remdups (rev cs))"
  using assms
proof (induction cs rule: rev_induct)
  case Nil
  then show ?case by simp
next
  case (snoc c cs)
  then have ih: "foldl agregar_id [] cs = rev (remdups (rev cs))" and c: "length c = 11" by auto
  have "foldl agregar_id [] (cs @ [c]) = agregar_id (foldl agregar_id [] cs) c" by simp
  also have "\<dots> = agregar_id (rev (remdups (rev cs))) c" by (simp only: ih)
  also have "\<dots> = rev (remdups (rev (cs @ [c])))" using c by (simp add: agregar_id_def)
  finally show ?case .
qed

lemma extraer_cuits_first: "extraer_cuits texto = rev (remdups (rev (candidatos_cuit texto)))"
  unfolding extraer_cuits_candidatos using candidatos_cuit_once by (intro foldl_agregar_id_first) blast

lemma extraer_cuits_set: "set (extraer_cuits texto) = set (candidatos_cuit texto)"
  by (simp add: extraer_cuits_first)




lemma extraer_cuits_once:
  "c \<in> set (extraer_cuits texto) \<Longrightarrow> length c = 11 \<and> list_all is_digit c"
  using candidatos_cuit_once by (simp add: extraer_cuits_set)

section \<open>The result of extraer\_info\_pdf\<close>

lemma extraer_info_texto_Nil:
  "extraer_cuits t = [] \<Longrightarrow> extraer_info_texto ahora t = Map.empty"
  by (simp add: extraer_info_texto_def)

lemma extraer_info_texto_sin_codigo:
  "\<not> truthy (codigo_de_texto t) \<Longrightarrow> extraer_info_texto ahora t = Map.empty"
  by (auto simp: extraer_info_texto_def codigo_de_texto_def Let_def split: list.splits prod.splits)

lemma extraer_info_texto_sin_pv:
  "\<not> truthy (fst (extraer_pv_nro t)) \<or> \<not> truthy (snd (extraer_pv_nro t)) \<Longrightarrow>
     extraer_info_texto ahora t = Map.empty"
  by (auto simp: extraer_info_texto_def Let_def split: list.splits prod.splits)

lemma extraer_info_texto_completo:
  assumes "extraer_cuits t = cuit # cs" "truthy (codigo_de_texto t)"
    "truthy (fst (extraer_pv_nro t))" "truthy (snd (extraer_pv_nro t))"
  shows "extraer_info_texto ahora t =
     [''cuit_pre'' \<mapsto> cuit,
      ''codigo_cbte'' \<mapsto> the (codigo_de_texto t),
      ''pv'' \<mapsto> the (fst (extraer_pv_nro t)),
      ''nro'' \<mapsto> the (snd (extraer_pv_nro t)),
      ''fecha_cbte'' \<mapsto> extraer_fecha ahora t,
      ''tipo_emision'' \<mapsto> py_or (snd (extraer_cae t)) ''E'',
      ''nro_cae'' \<mapsto> py_or (fst (extraer_cae t)) [],
      ''importe'' \<mapsto> py_or (extraer_importe t) ''0'',
      ''periodo'' \<mapsto> extraer_periodo ahora t,
      ''actividad'' \<mapsto> fst (map_actividad t),
      ''cantidad'' \<mapsto> cantidad_por_actividad (fst (map_actividad t)),
      ''dep'' \<mapsto> snd (map_actividad t)]"
proof -
  obtain tipo letra where tl: "inferir_tipo_letra t (extraer_tipo_letra t) = (tipo, letra)"
    by (cases "inferir_tipo_letra t (extraer_tipo_letra t)") auto
  obtain pv nro where pn: "extraer_pv_nro t = (pv, nro)" by (cases "extraer_pv_nro t") auto
  obtain cae em where ce: "extraer_cae t = (cae, em)" by (cases "extraer_cae t") auto
  obtain act dep where ad: "map_actividad t = (act, dep)" by (cases "map_actividad t") auto
  have cod: "codigo_cbte_de tipo letra = codigo_de_texto t" by (simp add: codigo_de_texto_def tl)
  show ?thesis
    using assms unfolding extraer_info_texto_def assms(1) tl pn ce ad Let_def cod[symmetric]
    by (simp add: cod)
qed

lemma extraer_info_texto_vacio_iff:
  "extraer_info_texto ahora t = Map.empty \<longleftrightarrow>
     extraer_cuits t = [] \<or> \<not> truthy (codigo_de_texto t)
     \<or> \<not> truthy (fst (extraer_pv_nro t)) \<or> \<not> truthy (snd (extraer_pv_nro t))"
proof
  assume e: "extraer_info_texto ahora t = Map.empty"
  show "extraer_cuits t = [] \<or> \<not> truthy (codigo_de_texto t)
     \<or> \<not> truthy (fst (extraer_pv_nro t)) \<or> \<not> truthy (snd (extraer_pv_nro t))"
  proof (rule ccontr)
    assume n: "\<not> ?thesis"
    then obtain cuit cs where c: "extraer_cuits t = cuit # cs" by (cases "extraer_cuits t") auto
    from n have "extraer_info_texto ahora t ''cuit_pre'' = Some cuit"
      by (subst extraer_info_texto_completo[OF c]) auto
    then show False using e by simp
  qed
next
  assume "extraer_cuits t = [] \<or> \<not> truthy (codigo_de_texto t)
     \<or> \<not> truthy (fst (extraer_pv_nro t)) \<or> \<not> truthy (snd (extraer_pv_nro t))"
  then show "extraer_info_texto ahora t = Map.empty"
    using extraer_info_texto_Nil extraer_info_texto_sin_codigo extraer_info_texto_sin_pv by blast
qed

lemma truthy_the: "truthy v \<Longrightarrow> v = Some (the v) \<and> the v \<noteq> []"
  by (cases v) (auto simp: truthy_def)

lemma extraer_info_texto_campos:
  assumes "extraer_info_texto ahora t \<noteq> Map.empty"
  shows "dom (extraer_info_texto ahora t) = set claves_linea"
    and "extraer_info_texto ahora t ''cuit_pre'' = Some (hd (extraer_cuits t))"
    and "extraer_info_texto ahora t ''codigo_cbte'' = codigo_de_texto t"
    and "extraer_info_texto ahora t ''pv'' = fst (extraer_pv_nro t)"
    and "extraer_info_texto ahora t ''nro'' = snd (extraer_pv_nro t)"
    and "extraer_info_texto ahora t ''fecha_cbte'' = Some (extraer_fecha ahora t)"
    and "extraer_info_texto ahora t ''periodo'' = Some (extraer_periodo ahora t)"
    and "\<forall>c \<in> set campos_criticos. truthy (extraer_info_texto ahora t c)"
    and "truthy (extraer_info_texto ahora t ''periodo'')"
proof -
  from assms have n: "extraer_cuits t \<noteq> []" "truthy (codigo_de_texto t)"
    "truthy (fst (extraer_pv_nro t))" "truthy (snd (extraer_pv_nro t))"
    using extraer_info_texto_vacio_iff by blast+
  then obtain cuit cs where c: "extraer_cuits t = cuit # cs" by (cases "extraer_cuits t") auto
  note r = extraer_info_texto_completo[OF c n(2,3,4), of ahora]
  have cl: "length cuit = 11" using extraer_cuits_once[of cuit t] c by simp
  show "dom (extraer_info_texto ahora t) = set claves_linea"
    unfolding r by (auto simp: claves_linea_def)
  show "extraer_info_texto ahora t ''cuit_pre'' = Some (hd (extraer_cuits t))"
    unfolding r by (simp add: c)
  show k: "extraer_info_texto ahora t ''codigo_cbte'' = codigo_de_texto t"
    unfolding r using truthy_the[OF n(2)] by simp
  show p: "extraer_info_texto ahora t ''pv'' = fst (extraer_pv_nro t)"
    unfolding r using truthy_the[OF n(3)] by simp
  show q: "extraer_info_texto ahora t ''nro'' = snd (extraer_pv_nro t)"
    unfolding r using truthy_the[OF n(4)] by simp
  show f: "extraer_info_texto ahora t ''fecha_cbte'' = Some (extraer_fecha ahora t)"
    unfolding r by simp
  show e: "extraer_info_texto ahora t ''periodo'' = Some (extraer_periodo ahora t)"
    unfolding r by simp
  have u: "truthy (extraer_info_texto ahora t ''cuit_pre'')"
    unfolding r using cl by (auto simp: truthy_def)
  show "\<forall>c \<in> set campos_criticos. truthy (extraer_info_texto ahora t c)"
    using u n k p q f extraer_fecha_nonempty[of ahora t]
    by (simp add: campos_criticos_def) (simp add: truthy_def)
  show "truthy (extraer_info_texto ahora t ''periodo'')"
    using e extraer_periodo_nonempty[of ahora t] by (simp add: truthy_def)
qed

lemma faltantes_vacio: "faltantes Map.empty = campos_criticos"
  by (simp add: faltantes_def campos_criticos_def)

lemma faltantes_completo:
  "\<forall>c \<in> set campos_criticos. truthy (info_d c) \<Longrightarrow> faltantes info_d = []"
  by (auto simp: faltantes_def filter_empty_conv truthy_def split: option.splits)

lemma faltantes_extraer_info:
  "faltantes (extraer_info_texto ahora t) =
     (if extraer_info_texto ahora t = Map.empty then campos_criticos else [])"
  using faltantes_vacio faltantes_completo extraer_info_texto_campos(8) by auto

section \<open>Stripping and padding numbers\<close>

lemma cp_simps:
  "cp CHR ''0'' = 48" "cp CHR ''+'' = 43" "cp CHR ''-'' = 45" "cp CHR ''_'' = 95"
  by (simp_all add: cp_def)

lemma is_digit_not_sign:
  "is_digit c \<Longrightarrow> c \<noteq> CHR ''+'' \<and> c \<noteq> CHR ''-'' \<and> c \<noteq> CHR ''_'' \<and> \<not> int_space c \<and> \<not> is_space c"
  by (auto simp: is_digit_def int_space_def is_space_def cp_simps)

lemma digit_chr_val: "is_digit c \<Longrightarrow> digit_chr (digit_val c) = c"
  by (simp add: is_digit_def digit_chr_def digit_val_def cp_def)

lemma digit_val_less: "is_digit c \<Longrightarrow> digit_val c < 10"
  by (auto simp: is_digit_def digit_val_def)

lemma digit_val_zero: "is_digit c \<Longrightarrow> digit_val c = 0 \<longleftrightarrow> c = CHR ''0''"
  by (auto simp: is_digit_def digit_val_def cp_def) (metis of_char_eq_iff cp_simps(1) cp_def le_antisym)

lemma int_body_ok_chars: "int_body_ok s \<Longrightarrow> c \<in> set s \<Longrightarrow> is_digit c \<or> c = CHR ''_''"
  by (induction s rule: int_body_ok.induct) (auto split: if_splits)

lemma int_body_ok_digits: "list_all is_digit s \<Longrightarrow> s \<noteq> [] \<Longrightarrow> int_body_ok s"
  by (induction s rule: int_body_ok.induct) (auto dest: is_digit_not_sign)

lemma isdigit_char_underscore: "\<not> isdigit_char CHR ''_''"
  by (simp add: isdigit_char_def is_digit_def cp_simps)

lemma digits_value_snoc: "digits_value (s @ [c]) = 10 * digits_value s + digit_val c"
  by (simp add: digits_value_def)

lemma str_nat_step: "d < 10 \<Longrightarrow> str_nat (10 * v + d) = (if v = 0 then [digit_chr d] else str_nat v @ [digit_chr d])"
  by (subst str_nat.simps) auto

lemma digits_value_zero:
  "list_all is_digit s \<Longrightarrow> digits_value s = 0 \<longleftrightarrow> (\<forall>c\<in>set s. c = CHR ''0'')"
  by (induction s rule: rev_induct) (auto simp: digits_value_snoc digit_val_zero digits_value_def)


lemma str_nat_small: "d < 10 \<Longrightarrow> str_nat d = [digit_chr d]"
  by (subst str_nat.simps) simp

lemma str_nat_digits_value:
  "list_all is_digit s \<Longrightarrow> s \<noteq> [] \<Longrightarrow> str_nat (digits_value s) = strip0 s"
proof (induction s rule: rev_induct)
  case Nil
  then show ?case by simp
next
  case (snoc c s)
  then have dc: "is_digit c" and ds: "list_all is_digit s" by auto
  show ?case
  proof (cases "digits_value s = 0")
    case True
    with ds have z: "\<forall>x\<in>set s. x = CHR ''0''" by (simp add: digits_value_zero)
    then have dw: "dropWhile (\<lambda>c. c = CHR ''0'') (s @ [c]) = dropWhile (\<lambda>c. c = CHR ''0'') [c]"
      by (simp add: dropWhile_append2)
    have v: "digits_value (s @ [c]) = digit_val c"
      using True by (simp add: digits_value_snoc)
    have "str_nat (digit_val c) = [c]"
      using dc by (simp add: str_nat_small digit_val_less digit_chr_val)
    then show ?thesis
      unfolding v strip0_def dw by simp
  next
    case False
    with ds have nz: "\<not> (\<forall>x\<in>set s. x = CHR ''0'')" by (simp add: digits_value_zero)
    then have sne: "s \<noteq> []" by auto
    from nz obtain x t where dne: "dropWhile (\<lambda>c. c = CHR ''0'') s = x # t"
      by (cases "dropWhile (\<lambda>c. c = CHR ''0'') s") (auto simp: dropWhile_eq_Nil_conv)
    from nz have dw: "dropWhile (\<lambda>c. c = CHR ''0'') (s @ [c]) = dropWhile (\<lambda>c. c = CHR ''0'') s @ [c]"
      by (auto simp: dropWhile_append1)
    have ih: "str_nat (digits_value s) = x # t"
      using snoc.IH ds sne dne by (simp add: strip0_def)
    have "str_nat (digits_value (s @ [c])) = str_nat (digits_value s) @ [c]"
      using False dc by (simp add: digits_value_snoc str_nat_step digit_val_less digit_chr_val)
    then show ?thesis
      unfolding strip0_def dw dne using ih by simp
  qed
qed

lemma dropWhile_hd: "s \<noteq> [] \<Longrightarrow> \<not> P (hd s) \<Longrightarrow> dropWhile P s = s"
  by (cases s) auto

lemma int_trim_id:
  assumes "s \<noteq> []" "\<not> int_space (hd s)" "\<not> int_space (last s)"
  shows "rev (dropWhile int_space (rev (dropWhile int_space s))) = s"
proof -
  have "dropWhile int_space s = s" using assms by (simp add: dropWhile_hd)
  moreover have "dropWhile int_space (rev s) = rev s"
    using assms by (simp add: dropWhile_hd hd_rev)
  ultimately show ?thesis by simp
qed

lemma py_int_plain:
  assumes "s = c # r" "\<not> int_space c" "\<not> int_space (last s)" "c \<noteq> CHR ''-''" "c \<noteq> CHR ''+''"
  shows "py_int s = (if int_body_ok s then Some (int (digits_value (py_remove CHR ''_'' s))) else None)"
proof -
  have t: "rev (dropWhile int_space (rev (dropWhile int_space s))) = s"
    using assms by (intro int_trim_id) auto
  show ?thesis
    unfolding py_int_def Let_def t using assms by simp
qed

lemma py_int_digits:
  assumes "list_all is_digit s" "s \<noteq> []"
  shows "py_int s = Some (int (digits_value s))"
proof -
  obtain c r where s: "s = c # r" using assms(2) by (cases s) auto
  have c: "is_digit c" using assms(1) s by simp
  have l: "is_digit (last s)" using assms by (simp add: list_all_iff)
  have f: "py_remove CHR ''_'' s = s"
    unfolding py_remove_def using assms(1)
    by (auto simp: filter_id_conv list_all_iff dest: is_digit_not_sign)
  show ?thesis
    using py_int_plain[OF s] is_digit_not_sign[OF c] is_digit_not_sign[OF l]
      int_body_ok_digits[OF assms] f by simp
qed

lemma limpiar_numero_digits:
  "list_all is_digit s \<Longrightarrow> s \<noteq> [] \<Longrightarrow> limpiar_numero s = strip0 s"
  by (simp add: limpiar_numero_def py_isdigit_def py_int_digits py_str_def str_nat_digits_value
      list_all_iff isdigit_char_def)

lemma isdigit_char_plain:
  "isdigit_char c \<Longrightarrow> \<not> int_space c \<and> c \<noteq> CHR ''-'' \<and> c \<noteq> CHR ''+''"
  by (auto simp: isdigit_char_def is_digit_def int_space_def cp_simps)

lemma py_int_isdigit:
  assumes "py_isdigit s" "py_int s = Some n"
  shows "list_all is_digit s"
proof -
  from assms(1) have ne: "s \<noteq> []" and all: "\<forall>c\<in>set s. isdigit_char c"
    by (auto simp: py_isdigit_def list_all_iff)
  obtain c r where s: "s = c # r" using ne by (cases s) auto
  have c: "isdigit_char c" using all s by simp
  have l: "isdigit_char (last s)" using all ne by simp
  have "int_body_ok s"
    using py_int_plain[OF s] isdigit_char_plain[OF c] isdigit_char_plain[OF l] assms(2)
    by (simp split: if_splits)
  then show ?thesis
    using all int_body_ok_chars isdigit_char_underscore by (auto simp: list_all_iff)
qed

lemma zfill_digits:
  assumes "list_all is_digit s" "s \<noteq> []" "length s \<le> w"
  shows "zfill w s = replicate (w - length s) CHR ''0'' @ s"
proof -
  obtain c r where s: "s = c # r" using assms(2) by (cases s) auto
  have c: "is_digit c" using assms(1) s by simp
  show ?thesis
    using is_digit_not_sign[OF c] assms(3) unfolding zfill_def s by simp
qed

lemma is_digit_zero: "is_digit CHR ''0''"
  by (simp add: is_digit_def cp_simps)

lemma zfill_zeros:
  assumes "0 < k" "k \<le> w"
  shows "zfill w (replicate k CHR ''0'') = replicate w CHR ''0''"
proof -
  have "zfill w (replicate k CHR ''0'') = replicate (w - k) CHR ''0'' @ replicate k CHR ''0''"
    using assms by (subst zfill_digits) (auto simp: list_all_iff is_digit_zero)
  also have "\<dots> = replicate ((w - k) + k) CHR ''0''"
    by (simp only: replicate_add)
  finally show ?thesis using assms by simp
qed

lemma zfill_zeros_prefix:
  assumes "list_all is_digit t" "t \<noteq> []" "k + length t \<le> w"
  shows "zfill w (replicate k CHR ''0'' @ t) = zfill w t"
proof -
  have d: "list_all is_digit (replicate k CHR ''0'' @ t)"
    using assms(1) by (auto simp: list_all_iff is_digit_zero)
  have "zfill w (replicate k CHR ''0'' @ t) = replicate (w - (k + length t)) CHR ''0'' @ replicate k CHR ''0'' @ t"
    using assms d by (subst zfill_digits) auto
  also have "\<dots> = replicate ((w - (k + length t)) + k) CHR ''0'' @ t"
    by (simp only: replicate_add append_assoc)
  also have "(w - (k + length t)) + k = w - length t"
    using assms(3) by simp
  also have "replicate (w - length t) CHR ''0'' @ t = zfill w t"
    using assms by (subst zfill_digits) auto
  finally show ?thesis .
qed

lemma zfill_strip0:
  assumes "list_all is_digit s" "s \<noteq> []" "length s \<le> w"
  shows "zfill w (strip0 s) = zfill w s"
proof -
  let ?z = "\<lambda>c. c = CHR ''0''"
  define k where "k = length (takeWhile ?z s)"
  define t where "t = dropWhile ?z s"
  have "takeWhile ?z s = replicate k CHR ''0''"
    unfolding k_def by (rule replicate_eqI) (auto dest: set_takeWhileD)
  then have s: "s = replicate k CHR ''0'' @ t"
    unfolding t_def by (metis takeWhile_dropWhile_id)
  have len: "length s = k + length t" by (subst s) simp
  show ?thesis
  proof (cases t)
    case Nil
    then have "strip0 s = replicate 1 CHR ''0''" by (simp add: strip0_def t_def[symmetric])
    moreover have "0 < k" "k \<le> w" using Nil len assms by auto
    moreover have "s = replicate k CHR ''0''" using s Nil by simp
    ultimately show ?thesis using assms(3) by (metis zfill_zeros zero_less_one One_nat_def le_trans Suc_leI)
  next
    case (Cons c u)
    then have st: "strip0 s = t" by (simp add: strip0_def t_def[symmetric])
    have dt: "list_all is_digit t" using assms(1) s by (metis list_all_append)
    have "zfill w s = zfill w t"
      using dt Cons len assms(3) by (subst s) (simp add: zfill_zeros_prefix)
    then show ?thesis using st by simp
  qed
qed

text \<open>
  Claim C9. For every string \<open>s\<close> of at most \<open>w\<close> characters, and so for every digit string
  of at most \<open>w\<close> digits, padding \<open>limpiar_numero s\<close> with zeros to width \<open>w\<close> gives the same
  as padding \<open>s\<close> itself. On a non-empty string of digits \<open>limpiar_numero\<close> is the removal of
  the leading zeros (\<open>limpiar_numero_digits\<close>); every other string it leaves as it is.
\<close>

theorem C9_pad_after_strip:
  "length s \<le> w \<Longrightarrow> zfill w (limpiar_numero s) = zfill w s"
proof (cases "py_isdigit s \<and> py_int s \<noteq> None")
  case True
  assume w: "length s \<le> w"
  from True have d: "list_all is_digit s" and ne: "s \<noteq> []"
    using py_int_isdigit by (auto simp: py_isdigit_def)
  show ?thesis using d ne w by (simp add: limpiar_numero_digits zfill_strip0)
next
  case False
  then show ?thesis by (auto simp: limpiar_numero_def)
qed

theorem C9_pad_after_strip_witness:
  "length ''00924'' \<le> (8::nat) \<and> limpiar_numero ''00924'' = ''924''
   \<and> zfill 8 (limpiar_numero ''00924'') = zfill 8 ''00924''"
proof -
  have h: "length ''00924'' \<le> (8::nat)" by simp
  have e: "limpiar_numero ''00924'' = ''924''" by code_simp
  show ?thesis using h e C9_pad_after_strip [OF h] by simp
qed

section \<open>The document code table\<close>

text \<open>
  Claim C7. The lookup of the document code gives a code for exactly four pairs:
  FACTURA with B gives 03, RECIBO with B gives 04, FACTURA with C gives 05 and RECIBO
  with C gives 06. For every other pair, and whenever the type or the letter is missing,
  it gives nothing. The table of \<open>renombrar_facturas.py\<close> is defined on the same four pairs
  and gives the same codes as the integers 3, 4, 5, 6.
\<close>

theorem C7_doc_code_lookup:
  "(codigo_cbte_de tipo letra = Some c) =
     ((tipo, letra, c) \<in> {(Some ''FACTURA'', Some ''B'', ''03''), (Some ''RECIBO'', Some ''B'', ''04''),
                           (Some ''FACTURA'', Some ''C'', ''05''), (Some ''RECIBO'', Some ''C'', ''06'')})
   \<and> codigo_cbte_de None letra = None \<and> codigo_cbte_de tipo None = None
   \<and> dom CODIGO_CBTE = {(''FACTURA'', ''B''), (''RECIBO'', ''B''), (''FACTURA'', ''C''), (''RECIBO'', ''C'')}
   \<and> (tipo_y_letra_a_codigo tipo letra = Some n) =
     ((tipo, letra, n) \<in> {(Some ''FACTURA'', Some ''B'', 3), (Some ''RECIBO'', Some ''B'', 4),
                           (Some ''FACTURA'', Some ''C'', 5), (Some ''RECIBO'', Some ''C'', 6)})
   \<and> tipo_y_letra_a_codigo None letra = None \<and> tipo_y_letra_a_codigo tipo None = None"
proof -
  have a: "(codigo_cbte_de tipo letra = Some c) =
     ((tipo, letra, c) \<in> {(Some ''FACTURA'', Some ''B'', ''03''), (Some ''RECIBO'', Some ''B'', ''04''),
                           (Some ''FACTURA'', Some ''C'', ''05''), (Some ''RECIBO'', Some ''C'', ''06'')})"
    by (cases tipo; cases letra) (auto simp: codigo_cbte_de_def CODIGO_CBTE_def truthy_def split: if_splits)
  have b: "codigo_cbte_de None letra = None" "codigo_cbte_de tipo None = None"
    by (simp_all add: codigo_cbte_de_def truthy_def)
  have c: "dom CODIGO_CBTE = {(''FACTURA'', ''B''), (''RECIBO'', ''B''), (''FACTURA'', ''C''), (''RECIBO'', ''C'')}"
    by (auto simp: CODIGO_CBTE_def split: if_splits)
  have d: "(tipo_y_letra_a_codigo tipo letra = Some n) =
     ((tipo, letra, n) \<in> {(Some ''FACTURA'', Some ''B'', 3), (Some ''RECIBO'', Some ''B'', 4),
                           (Some ''FACTURA'', Some ''C'', 5), (Some ''RECIBO'', Some ''C'', 6)})"
    by (cases tipo; cases letra) (auto simp: tipo_y_letra_a_codigo_def rf_mapa_def truthy_def split: if_splits)
  have e: "tipo_y_letra_a_codigo None letra = None" "tipo_y_letra_a_codigo tipo None = None"
    by (simp_all add: tipo_y_letra_a_codigo_def truthy_def)
  show ?thesis using a b c d e by blast
qed

theorem C7_doc_code_lookup_witness:
  "codigo_cbte_de (Some ''FACTURA'') (Some ''C'') = Some ''05''
   \<and> codigo_cbte_de (Some ''FACTURA'') (Some ''A'') = None
   \<and> tipo_y_letra_a_codigo (Some ''RECIBO'') (Some ''B'') = Some 4"
proof -
  have a: "codigo_cbte_de (Some ''FACTURA'') (Some ''C'') = Some ''05''"
    using C7_doc_code_lookup [where tipo = "Some ''FACTURA''" and letra = "Some ''C''" and c = "''05''"]
    by simp
  have b: "codigo_cbte_de (Some ''FACTURA'') (Some ''A'') = None"
  proof (cases "codigo_cbte_de (Some ''FACTURA'') (Some ''A'')")
    case None
    then show ?thesis .
  next
    case (Some c)
    then show ?thesis
      using C7_doc_code_lookup [where tipo = "Some ''FACTURA''" and letra = "Some ''A''" and c = c]
      by simp
  qed
  have c: "tipo_y_letra_a_codigo (Some ''RECIBO'') (Some ''B'') = Some 4"
    using C7_doc_code_lookup [where tipo = "Some ''RECIBO''" and letra = "Some ''B''" and n = 4]
    by simp
  show ?thesis using a b c by simp
qed

section \<open>Claims about the extraction result\<close>

lemma ejemplo_cuit_pre:
  "extraer_info_pdf ahora_ejemplo texto_ejemplo [] [] [] ''cuit_pre'' = Some ''30123456789''"
  by code_simp

lemma ejemplo_no_vacio: "extraer_info_pdf ahora_ejemplo texto_ejemplo [] [] [] \<noteq> Map.empty"
  using ejemplo_cuit_pre by auto

lemma ejemplo_sin_cuit: "extraer_cuits (texto_de_paginas ''sin datos'' [] [] []) = []"
  by code_simp

lemma ejemplo_vacio: "extraer_info_pdf ahora_ejemplo ''sin datos'' [] [] [] = Map.empty"
  unfolding extraer_info_pdf_def using ejemplo_sin_cuit by (rule extraer_info_texto_Nil)




text \<open>
  Claim C2. The result of \<open>extraer_info_pdf\<close> is the empty dictionary exactly when no tax id
  is found, or no document code is determined, or the sales point or the document number
  is missing (the date is always determined). A result that is not empty has exactly the
  twelve keys of a record, with a non-empty value for each of \<open>cuit_pre\<close>, \<open>codigo_cbte\<close>,
  \<open>pv\<close>, \<open>nro\<close> and \<open>fecha_cbte\<close>, so the directory report finds nothing missing in it and
  calls it OK; for the empty result the report lists all five fields as missing.
\<close>

theorem C2_all_or_nothing:
  assumes "texto = texto_de_paginas texto1 texto2 texto1_ocr texto2_ocr"
    and "info_d = extraer_info_pdf ahora texto1 texto2 texto1_ocr texto2_ocr"
  shows "(info_d = Map.empty) =
           (extraer_cuits texto = [] \<or> \<not> truthy (codigo_de_texto texto)
            \<or> \<not> truthy (fst (extraer_pv_nro texto)) \<or> \<not> truthy (snd (extraer_pv_nro texto)))
    \<and> (info_d \<noteq> Map.empty \<longrightarrow>
          dom info_d = set claves_linea \<and> (\<forall>c \<in> set campos_criticos. truthy (info_d c))
          \<and> faltantes info_d = [] \<and> estado info_d = ''OK'')
    \<and> (info_d = Map.empty \<longrightarrow> faltantes info_d = campos_criticos \<and> estado info_d \<noteq> ''OK'')"
proof -
  have i: "info_d = extraer_info_texto ahora texto" using assms by (simp add: extraer_info_pdf_def)
  have a: "(info_d = Map.empty) =
           (extraer_cuits texto = [] \<or> \<not> truthy (codigo_de_texto texto)
            \<or> \<not> truthy (fst (extraer_pv_nro texto)) \<or> \<not> truthy (snd (extraer_pv_nro texto)))"
    unfolding i by (rule extraer_info_texto_vacio_iff)
  have b: "info_d \<noteq> Map.empty \<longrightarrow>
          dom info_d = set claves_linea \<and> (\<forall>c \<in> set campos_criticos. truthy (info_d c))
          \<and> faltantes info_d = [] \<and> estado info_d = ''OK''"
    unfolding i using extraer_info_texto_campos(1,8) faltantes_extraer_info
    by (simp add: estado_def)
  have c: "info_d = Map.empty \<longrightarrow> faltantes info_d = campos_criticos \<and> estado info_d \<noteq> ''OK''"
    by (simp add: faltantes_vacio estado_def campos_criticos_def)
  show ?thesis using a b c by blast
qed

theorem C2_all_or_nothing_witness:
  "extraer_info_pdf ahora_ejemplo texto_ejemplo [] [] [] \<noteq> Map.empty
   \<and> estado (extraer_info_pdf ahora_ejemplo texto_ejemplo [] [] []) = ''OK''
   \<and> truthy (extraer_info_pdf ahora_ejemplo texto_ejemplo [] [] [] ''fecha_cbte'')
   \<and> extraer_info_pdf ahora_ejemplo ''sin datos'' [] [] [] = Map.empty
   \<and> faltantes (extraer_info_pdf ahora_ejemplo ''sin datos'' [] [] []) = campos_criticos"
proof -
  note a = C2_all_or_nothing [OF refl refl, where ahora = ahora_ejemplo and ?texto1.0 = texto_ejemplo
      and ?texto2.0 = "[]" and texto1_ocr = "[]" and texto2_ocr = "[]"]
  note b = C2_all_or_nothing [OF refl refl, where ahora = ahora_ejemplo and ?texto1.0 = "''sin datos''"
      and ?texto2.0 = "[]" and texto1_ocr = "[]" and texto2_ocr = "[]"]
  have f: "truthy (extraer_info_pdf ahora_ejemplo texto_ejemplo [] [] [] ''fecha_cbte'')"
    using a ejemplo_no_vacio by (simp add: campos_criticos_def)
  show ?thesis using a b f ejemplo_no_vacio ejemplo_vacio by simp
qed

text \<open>
  Claim C10. For every text and every clock, \<open>extraer_fecha\<close> and \<open>extraer_periodo\<close> return a
  non-empty string (the group they read takes part in every match of their patterns, and
  without a match they fall back to the current date and to the current month and year).
  So a non-empty extraction result has non-empty \<open>fecha_cbte\<close> and \<open>periodo\<close>, the report
  lists \<open>fecha_cbte\<close> as missing only for the empty result, and never as the only missing
  field.
\<close>

theorem C10_date_and_period_present:
  assumes "info_d = extraer_info_pdf ahora texto1 texto2 texto1_ocr texto2_ocr"
  shows "extraer_fecha ahora texto \<noteq> [] \<and> extraer_periodo ahora texto \<noteq> []
    \<and> (\<forall>m. re_search [I] fecha_emision texto = Some m \<longrightarrow> m 1 \<noteq> None)
    \<and> (\<forall>m. re_search [I] periodo_facturado texto = Some m \<longrightarrow> m 1 \<noteq> None \<and> m 2 \<noteq> None)
    \<and> (\<forall>m. re_search [I] mes_de texto = Some m \<longrightarrow> m 1 \<noteq> None \<and> m 2 \<noteq> None)
    \<and> (re_search [I] fecha_emision texto = None \<and> re_findall [] fecha_barras texto = []
         \<and> re_findall [] fecha_guiones texto = [] \<longrightarrow> extraer_fecha ahora texto = strftime_dmY ahora)
    \<and> (re_search [I] periodo_facturado texto = None \<and> re_search [I] mes_de texto = None \<longrightarrow>
         extraer_periodo ahora texto = periodo_actual ahora)
    \<and> (info_d \<noteq> Map.empty \<longrightarrow> truthy (info_d ''fecha_cbte'') \<and> truthy (info_d ''periodo''))
    \<and> (''fecha_cbte'' \<in> set (faltantes info_d) \<longrightarrow> info_d = Map.empty)
    \<and> faltantes info_d \<noteq> [''fecha_cbte'']"
proof -
  have i: "info_d = extraer_info_texto ahora (texto_de_paginas texto1 texto2 texto1_ocr texto2_ocr)"
    using assms by (simp add: extraer_info_pdf_def)
  have g1: "\<forall>m. re_search [I] fecha_emision texto = Some m \<longrightarrow> m 1 \<noteq> None"
    using re_search_group[OF _ fecha_emision_groups(1) zero_less_one] by blast
  have g2: "\<forall>m. re_search [I] periodo_facturado texto = Some m \<longrightarrow> m 1 \<noteq> None \<and> m 2 \<noteq> None"
    using re_search_group[OF _ periodo_facturado_groups(1) zero_less_one]
      re_search_group[OF _ periodo_facturado_groups(2) zero_less_numeral] by blast
  have g3: "\<forall>m. re_search [I] mes_de texto = Some m \<longrightarrow> m 1 \<noteq> None \<and> m 2 \<noteq> None"
    using re_search_group[OF _ mes_de_groups(1) zero_less_one]
      re_search_group[OF _ mes_de_groups(2) zero_less_numeral] by blast
  have d1: "re_search [I] fecha_emision texto = None \<and> re_findall [] fecha_barras texto = []
         \<and> re_findall [] fecha_guiones texto = [] \<longrightarrow> extraer_fecha ahora texto = strftime_dmY ahora"
    by (simp add: extraer_fecha_def)
  have d2: "re_search [I] periodo_facturado texto = None \<and> re_search [I] mes_de texto = None \<longrightarrow>
         extraer_periodo ahora texto = periodo_actual ahora"
    by (simp add: extraer_periodo_def periodo_por_mes_def)
  have t: "info_d \<noteq> Map.empty \<longrightarrow> truthy (info_d ''fecha_cbte'') \<and> truthy (info_d ''periodo'')"
    unfolding i using extraer_info_texto_campos(8,9) by (simp add: campos_criticos_def)
  have f: "''fecha_cbte'' \<in> set (faltantes info_d) \<longrightarrow> info_d = Map.empty"
    unfolding i faltantes_extraer_info by simp
  have n: "faltantes info_d \<noteq> [''fecha_cbte'']"
    unfolding i faltantes_extraer_info by (simp add: campos_criticos_def)
  show ?thesis
    using extraer_fecha_nonempty extraer_periodo_nonempty g1 g2 g3 d1 d2 t f n by blast
qed

theorem C10_date_and_period_present_witness:
  "extraer_fecha ahora_ejemplo ''sin datos'' = ''07/03/2025''
   \<and> extraer_periodo ahora_ejemplo ''sin datos'' = ''032025''
   \<and> extraer_fecha ahora_ejemplo ''sin datos'' \<noteq> []
   \<and> extraer_info_pdf ahora_ejemplo texto_ejemplo [] [] [] \<noteq> Map.empty
   \<and> truthy (extraer_info_pdf ahora_ejemplo texto_ejemplo [] [] [] ''periodo'')
   \<and> ''fecha_cbte'' \<in> set (faltantes (extraer_info_pdf ahora_ejemplo ''sin datos'' [] [] []))
   \<and> extraer_info_pdf ahora_ejemplo ''sin datos'' [] [] [] = Map.empty"
proof -
  note a = C10_date_and_period_present [OF refl, where ahora = ahora_ejemplo and ?texto1.0 = texto_ejemplo
      and ?texto2.0 = "[]" and texto1_ocr = "[]" and texto2_ocr = "[]" and texto = "''sin datos''"]
  note b = C10_date_and_period_present [OF refl, where ahora = ahora_ejemplo and ?texto1.0 = "''sin datos''"
      and ?texto2.0 = "[]" and texto1_ocr = "[]" and texto2_ocr = "[]" and texto = "''sin datos''"]
  have e1: "extraer_fecha ahora_ejemplo ''sin datos'' = ''07/03/2025''" by code_simp
  have e2: "extraer_periodo ahora_ejemplo ''sin datos'' = ''032025''" by code_simp
  have m: "''fecha_cbte'' \<in> set (faltantes (extraer_info_pdf ahora_ejemplo ''sin datos'' [] [] []))"
    unfolding ejemplo_vacio by (simp add: faltantes_vacio campos_criticos_def)
  from a ejemplo_no_vacio
  have p: "truthy (extraer_info_pdf ahora_ejemplo texto_ejemplo [] [] [] ''periodo'')" by blast
  from b m have v: "extraer_info_pdf ahora_ejemplo ''sin datos'' [] [] [] = Map.empty" by blast
  from b have n: "extraer_fecha ahora_ejemplo ''sin datos'' \<noteq> []" by blast
  show ?thesis using e1 e2 n ejemplo_no_vacio p m v by blast
qed


section \<open>The activity classifier\<close>

lemma starts_with_iff: "starts_with n s \<longleftrightarrow> (\<exists>b. s = n @ b)"
  by (induction n s rule: starts_with.induct) auto

lemma py_in_iff: "py_in n s \<longleftrightarrow> (\<exists>a b. s = a @ n @ b)"
proof (induction s)
  case Nil
  then show ?case by auto
next
  case (Cons c s)
  show ?case
  proof
    assume "py_in n (c # s)"
    then consider "starts_with n (c # s)" | "py_in n s" by auto
    then show "\<exists>a b. c # s = a @ n @ b"
    proof cases
      case 1
      then obtain b where "c # s = [] @ n @ b" by (auto simp: starts_with_iff)
      then show ?thesis by blast
    next
      case 2
      then obtain a b where "s = a @ n @ b" using Cons by blast
      then have "c # s = (c # a) @ n @ b" by simp
      then show ?thesis by blast
    qed
  next
    assume "\<exists>a b. c # s = a @ n @ b"
    then obtain a b where ab: "c # s = a @ n @ b" by blast
    show "py_in n (c # s)"
    proof (cases a)
      case Nil
      then have "starts_with n (c # s)" using ab by (auto simp: starts_with_iff)
      then show ?thesis by simp
    next
      case (Cons x a')
      then have "s = a' @ n @ b" using ab by simp
      then have "py_in n s" using Cons.IH by blast
      then show ?thesis by simp
    qed
  qed
qed

lemma py_in_map: "py_in n s \<Longrightarrow> py_in (map f n) (map f s)"
  unfolding py_in_iff by (metis map_append)

lemma py_in_lower: "py_in n s \<Longrightarrow> py_in (py_lower n) (py_lower s)"
  unfolding py_lower_def by (rule py_in_map)

lemma lower_palabras:
  "py_lower ''transporte'' = ''transporte''" "py_lower ''discapacidad'' = ''discapacidad''"
  "py_lower ''sesiones'' = ''sesiones''"
  by code_simp+

lemma map_actividad_reglas:
  "map_actividad texto =
     (if es_transporte (py_lower texto) then (''096'', dep_por_terminos (py_lower texto))
      else if alguno_en terminos_profesionales (py_lower texto) then (''091'', ''N'')
      else if es_estimulacion (py_lower texto) then (''085'', ''N'')
      else if alguno_en terminos_integracion (py_lower texto) then (''089'', ''N'')
      else if es_terapia (py_lower texto) then (''090'', ''N'')
      else (''090'', dep_por_terminos (py_lower texto)))"
  by (simp add: map_actividad_def Let_def es_transporte_def es_estimulacion_def es_terapia_def)

lemma dep_por_terminos_S:
  "dep_por_terminos t = ''S'' \<longleftrightarrow> alguno_en terminos_dependencia t"
  by (simp add: dep_por_terminos_def)

lemma transporte_discapacidad:
  assumes "py_in ''transporte'' texto" "py_in ''discapacidad'' texto"
  shows "map_actividad texto = (''096'', ''S'')"
proof -
  have a: "py_in ''transporte'' (py_lower texto)"
    using py_in_lower[OF assms(1)] by (simp add: lower_palabras)
  have b: "py_in ''discapacidad'' (py_lower texto)"
    using py_in_lower[OF assms(2)] by (simp add: lower_palabras)
  have "alguno_en terminos_dependencia (py_lower texto)"
    using b by (simp add: alguno_en_def terminos_dependencia_def)
  then show ?thesis
    using a by (simp add: map_actividad_reglas es_transporte_def dep_por_terminos_def)
qed

lemma alguno_en_I: "term \<in> set terms \<Longrightarrow> py_in term t \<Longrightarrow> alguno_en terms t"
  unfolding alguno_en_def by blast

lemma actividad_ejemplos:
  "map_actividad ''psicologia'' = (''091'', ''N'')"
  "map_actividad (''Psicolog'' @ [i_acute] @ ''a por discapacidad'') = (''091'', ''N'')"
  "map_actividad ''Musicoterapia'' = (''091'', ''N'')"
  "map_actividad ''estimulacion temprana'' = (''085'', ''N'')"
  "map_actividad (''Estimulaci'' @ [o_acute] @ ''n temprana'') = (''085'', ''N'')"
  "map_actividad ''maestra integradora'' = (''089'', ''N'')"
  "map_actividad ''Modulo de apoyo'' = (''089'', ''N'')"
  "map_actividad ''terapia'' = (''090'', ''N'')"
  "map_actividad ''traslado'' = (''096'', ''N'')"
  "map_actividad ''120 km'' = (''096'', ''N'')"
  "map_actividad ''psicologia y traslado'' = (''096'', ''N'')"
  "map_actividad ''maestra integradora, psicologia'' = (''091'', ''N'')"
  "map_actividad ''maestra integradora, estimulacion temprana'' = (''085'', ''N'')"
  "map_actividad ''sesiones con maestra integradora'' = (''089'', ''N'')"
  "map_actividad ''dependencia'' = (''090'', ''S'')"
  "map_actividad ''consulta'' = (''090'', ''N'')"
  by code_simp+

text \<open>
  Claim C6. \<open>map_actividad\<close> reads only the lower-cased text, and the first rule whose
  condition holds decides: transport (the words transporte, traslado, or the word km)
  gives 096, then the seventeen professional terms give 091, early stimulation 085, the
  six terms of school integration 089, therapy and fees 090, and otherwise 090.
  The flag is S only under the transport rule or the default, and then exactly when a
  dependency term occurs; every other rule gives N. A text that contains \<open>transporte\<close> and
  \<open>discapacidad\<close> gives 096 with S; the text \<open>sesiones\<close>, and every text that contains
  \<open>sesiones\<close> and meets no earlier rule, gives 090 with N.
\<close>

theorem C6_activity_rules:
  "(py_lower a = py_lower b \<longrightarrow> map_actividad a = map_actividad b)
   \<and> (es_transporte (py_lower texto) \<longrightarrow>
        map_actividad texto = (''096'', if alguno_en terminos_dependencia (py_lower texto) then ''S'' else ''N''))
   \<and> (\<not> es_transporte (py_lower texto) \<and> alguno_en terminos_profesionales (py_lower texto) \<longrightarrow>
        map_actividad texto = (''091'', ''N''))
   \<and> (\<not> es_transporte (py_lower texto) \<and> \<not> alguno_en terminos_profesionales (py_lower texto)
        \<and> es_estimulacion (py_lower texto) \<longrightarrow> map_actividad texto = (''085'', ''N''))
   \<and> (\<not> es_transporte (py_lower texto) \<and> \<not> alguno_en terminos_profesionales (py_lower texto)
        \<and> \<not> es_estimulacion (py_lower texto) \<and> alguno_en terminos_integracion (py_lower texto) \<longrightarrow>
        map_actividad texto = (''089'', ''N''))
   \<and> (\<not> es_transporte (py_lower texto) \<and> \<not> alguno_en terminos_profesionales (py_lower texto)
        \<and> \<not> es_estimulacion (py_lower texto) \<and> \<not> alguno_en terminos_integracion (py_lower texto)
        \<and> es_terapia (py_lower texto) \<longrightarrow> map_actividad texto = (''090'', ''N''))
   \<and> (\<not> es_transporte (py_lower texto) \<and> \<not> alguno_en terminos_profesionales (py_lower texto)
        \<and> \<not> es_estimulacion (py_lower texto) \<and> \<not> alguno_en terminos_integracion (py_lower texto)
        \<and> \<not> es_terapia (py_lower texto) \<longrightarrow>
        map_actividad texto = (''090'', if alguno_en terminos_dependencia (py_lower texto) then ''S'' else ''N''))
   \<and> (py_in ''transporte'' texto \<and> py_in ''discapacidad'' texto \<longrightarrow> map_actividad texto = (''096'', ''S''))
   \<and> (py_in ''sesiones'' texto \<and> \<not> es_transporte (py_lower texto)
        \<and> \<not> alguno_en terminos_profesionales (py_lower texto) \<and> \<not> es_estimulacion (py_lower texto)
        \<and> \<not> alguno_en terminos_integracion (py_lower texto) \<longrightarrow> map_actividad texto = (''090'', ''N''))
   \<and> map_actividad ''sesiones'' = (''090'', ''N'')
   \<and> (\<forall>w \<in> set [''transporte'', ''traslado'']. py_in w (py_lower texto) \<longrightarrow>
        fst (map_actividad texto) = ''096'')
   \<and> (re_search [] (Cat [WordB, Str ''km'', WordB]) (py_lower texto) \<noteq> None \<longrightarrow>
        fst (map_actividad texto) = ''096'')
   \<and> (\<forall>w \<in> set [''dependencia'', ''discapacidad'', ''discapac'']. py_in w (py_lower texto) \<longrightarrow>
        (es_transporte (py_lower texto) \<longrightarrow> map_actividad texto = (''096'', ''S''))
        \<and> alguno_en terminos_dependencia (py_lower texto))
   \<and> (\<forall>w \<in> set [''psicolog'' @ [i_acute] @ ''a'', ''psicologia'', ''psic'' @ [o_acute] @ ''logo'',
          ''psicologo'', ''musicoterapia'', ''musicoterapeuta'', ''kinesiolog'' @ [i_acute] @ ''a'',
          ''kinesiologia'', ''kinesi'' @ [o_acute] @ ''logo'', ''kinesiologo'',
          ''fonoaudiolog'' @ [i_acute] @ ''a'', ''fonoaudiologia'', ''fonoaudi'' @ [o_acute] @ ''logo'',
          ''fonoaudiologo'', ''psicopedagog'' @ [i_acute] @ ''a'', ''psicopedagogia'', ''psicopedagogo''].
        py_in w (py_lower texto) \<and> \<not> es_transporte (py_lower texto) \<longrightarrow>
        map_actividad texto = (''091'', ''N''))
   \<and> (\<forall>w \<in> set [''estimulaci'' @ [o_acute] @ ''n temprana'', ''estimulacion temprana''].
        py_in w (py_lower texto) \<and> \<not> es_transporte (py_lower texto)
        \<and> \<not> alguno_en terminos_profesionales (py_lower texto) \<longrightarrow>
        map_actividad texto = (''085'', ''N''))
   \<and> (\<forall>w \<in> set [''m'' @ [o_acute] @ ''dulo de apoyo'', ''modulo de apoyo'',
          ''apoyo a la integraci'' @ [o_acute] @ ''n'', ''apoyo a la integracion'',
          ''maestra integradora'', ''maestro integrador''].
        py_in w (py_lower texto) \<and> \<not> es_transporte (py_lower texto)
        \<and> \<not> alguno_en terminos_profesionales (py_lower texto) \<and> \<not> es_estimulacion (py_lower texto) \<longrightarrow>
        map_actividad texto = (''089'', ''N''))
   \<and> (\<forall>w \<in> set [''honorarios profesionales'', ''sesiones'', ''terapia''].
        py_in w (py_lower texto) \<and> \<not> es_transporte (py_lower texto)
        \<and> \<not> alguno_en terminos_profesionales (py_lower texto) \<and> \<not> es_estimulacion (py_lower texto)
        \<and> \<not> alguno_en terminos_integracion (py_lower texto) \<longrightarrow>
        map_actividad texto = (''090'', ''N''))
   \<and> map_actividad ''psicologia'' = (''091'', ''N'')
   \<and> map_actividad (''Psicolog'' @ [i_acute] @ ''a por discapacidad'') = (''091'', ''N'')
   \<and> map_actividad ''Musicoterapia'' = (''091'', ''N'')
   \<and> map_actividad ''estimulacion temprana'' = (''085'', ''N'')
   \<and> map_actividad (''Estimulaci'' @ [o_acute] @ ''n temprana'') = (''085'', ''N'')
   \<and> map_actividad ''maestra integradora'' = (''089'', ''N'')
   \<and> map_actividad ''Modulo de apoyo'' = (''089'', ''N'')
   \<and> map_actividad ''terapia'' = (''090'', ''N'')
   \<and> map_actividad ''traslado'' = (''096'', ''N'')
   \<and> map_actividad ''120 km'' = (''096'', ''N'')
   \<and> map_actividad ''psicologia y traslado'' = (''096'', ''N'')
   \<and> map_actividad ''maestra integradora, psicologia'' = (''091'', ''N'')
   \<and> map_actividad ''maestra integradora, estimulacion temprana'' = (''085'', ''N'')
   \<and> map_actividad ''sesiones con maestra integradora'' = (''089'', ''N'')
   \<and> map_actividad ''dependencia'' = (''090'', ''S'')
   \<and> map_actividad ''consulta'' = (''090'', ''N'')"
proof -
  let ?t = "py_lower texto"
  have ci: "py_lower a = py_lower b \<longrightarrow> map_actividad a = map_actividad b"
    by (simp add: map_actividad_reglas)
  have s: "py_in ''sesiones'' texto \<longrightarrow> es_terapia ?t"
    using py_in_lower[of "''sesiones''" texto] by (simp add: lower_palabras es_terapia_def)
  have e: "map_actividad ''sesiones'' = (''090'', ''N'')" by code_simp
  have base: "(py_lower a = py_lower b \<longrightarrow> map_actividad a = map_actividad b)
   \<and> (es_transporte ?t \<longrightarrow>
        map_actividad texto = (''096'', if alguno_en terminos_dependencia ?t then ''S'' else ''N''))
   \<and> (\<not> es_transporte ?t \<and> alguno_en terminos_profesionales ?t \<longrightarrow>
        map_actividad texto = (''091'', ''N''))
   \<and> (\<not> es_transporte ?t \<and> \<not> alguno_en terminos_profesionales ?t
        \<and> es_estimulacion ?t \<longrightarrow> map_actividad texto = (''085'', ''N''))
   \<and> (\<not> es_transporte ?t \<and> \<not> alguno_en terminos_profesionales ?t
        \<and> \<not> es_estimulacion ?t \<and> alguno_en terminos_integracion ?t \<longrightarrow>
        map_actividad texto = (''089'', ''N''))
   \<and> (\<not> es_transporte ?t \<and> \<not> alguno_en terminos_profesionales ?t
        \<and> \<not> es_estimulacion ?t \<and> \<not> alguno_en terminos_integracion ?t
        \<and> es_terapia ?t \<longrightarrow> map_actividad texto = (''090'', ''N''))
   \<and> (\<not> es_transporte ?t \<and> \<not> alguno_en terminos_profesionales ?t
        \<and> \<not> es_estimulacion ?t \<and> \<not> alguno_en terminos_integracion ?t
        \<and> \<not> es_terapia ?t \<longrightarrow>
        map_actividad texto = (''090'', if alguno_en terminos_dependencia ?t then ''S'' else ''N''))
   \<and> (py_in ''transporte'' texto \<and> py_in ''discapacidad'' texto \<longrightarrow> map_actividad texto = (''096'', ''S''))
   \<and> (py_in ''sesiones'' texto \<and> \<not> es_transporte ?t
        \<and> \<not> alguno_en terminos_profesionales ?t \<and> \<not> es_estimulacion ?t
        \<and> \<not> alguno_en terminos_integracion ?t \<longrightarrow> map_actividad texto = (''090'', ''N''))
   \<and> map_actividad ''sesiones'' = (''090'', ''N'')"
    using ci s e transporte_discapacidad[of texto]
    by (simp add: map_actividad_reglas dep_por_terminos_def)
  have tr: "\<forall>w \<in> set [''transporte'', ''traslado'']. py_in w ?t \<longrightarrow> fst (map_actividad texto) = ''096''"
    by (auto simp: map_actividad_reglas es_transporte_def)
  have km: "re_search [] (Cat [WordB, Str ''km'', WordB]) ?t \<noteq> None \<longrightarrow> fst (map_actividad texto) = ''096''"
    using patron_km_def by (auto simp: map_actividad_reglas es_transporte_def simp del: Cat.simps)
  have dp: "\<forall>w \<in> set [''dependencia'', ''discapacidad'', ''discapac'']. py_in w ?t \<longrightarrow>
        (es_transporte ?t \<longrightarrow> map_actividad texto = (''096'', ''S''))
        \<and> alguno_en terminos_dependencia ?t"
  proof (intro ballI impI)
    fix w assume "w \<in> set [''dependencia'', ''discapacidad'', ''discapac'']" "py_in w ?t"
    then have "alguno_en terminos_dependencia ?t"
      unfolding terminos_dependencia_def by (rule alguno_en_I)
    then show "(es_transporte ?t \<longrightarrow> map_actividad texto = (''096'', ''S''))
        \<and> alguno_en terminos_dependencia ?t"
      by (simp add: map_actividad_reglas dep_por_terminos_def)
  qed
  have pr: "\<forall>w \<in> set [''psicolog'' @ [i_acute] @ ''a'', ''psicologia'', ''psic'' @ [o_acute] @ ''logo'',
          ''psicologo'', ''musicoterapia'', ''musicoterapeuta'', ''kinesiolog'' @ [i_acute] @ ''a'',
          ''kinesiologia'', ''kinesi'' @ [o_acute] @ ''logo'', ''kinesiologo'',
          ''fonoaudiolog'' @ [i_acute] @ ''a'', ''fonoaudiologia'', ''fonoaudi'' @ [o_acute] @ ''logo'',
          ''fonoaudiologo'', ''psicopedagog'' @ [i_acute] @ ''a'', ''psicopedagogia'', ''psicopedagogo''].
        py_in w ?t \<and> \<not> es_transporte ?t \<longrightarrow> map_actividad texto = (''091'', ''N'')"
  proof (intro ballI impI)
    fix w assume w: "w \<in> set [''psicolog'' @ [i_acute] @ ''a'', ''psicologia'', ''psic'' @ [o_acute] @ ''logo'',
          ''psicologo'', ''musicoterapia'', ''musicoterapeuta'', ''kinesiolog'' @ [i_acute] @ ''a'',
          ''kinesiologia'', ''kinesi'' @ [o_acute] @ ''logo'', ''kinesiologo'',
          ''fonoaudiolog'' @ [i_acute] @ ''a'', ''fonoaudiologia'', ''fonoaudi'' @ [o_acute] @ ''logo'',
          ''fonoaudiologo'', ''psicopedagog'' @ [i_acute] @ ''a'', ''psicopedagogia'', ''psicopedagogo'']"
      and h: "py_in w ?t \<and> \<not> es_transporte ?t"
    from w h have "alguno_en terminos_profesionales ?t"
      unfolding terminos_profesionales_def by (intro alguno_en_I[of w]) blast+
    then show "map_actividad texto = (''091'', ''N'')" using h by (simp add: map_actividad_reglas)
  qed
  have es: "\<forall>w \<in> set [''estimulaci'' @ [o_acute] @ ''n temprana'', ''estimulacion temprana''].
        py_in w ?t \<and> \<not> es_transporte ?t \<and> \<not> alguno_en terminos_profesionales ?t \<longrightarrow>
        map_actividad texto = (''085'', ''N'')"
    by (auto simp: map_actividad_reglas es_estimulacion_def)
  have it: "\<forall>w \<in> set [''m'' @ [o_acute] @ ''dulo de apoyo'', ''modulo de apoyo'',
          ''apoyo a la integraci'' @ [o_acute] @ ''n'', ''apoyo a la integracion'',
          ''maestra integradora'', ''maestro integrador''].
        py_in w ?t \<and> \<not> es_transporte ?t
        \<and> \<not> alguno_en terminos_profesionales ?t \<and> \<not> es_estimulacion ?t \<longrightarrow>
        map_actividad texto = (''089'', ''N'')"
  proof (intro ballI impI)
    fix w assume w: "w \<in> set [''m'' @ [o_acute] @ ''dulo de apoyo'', ''modulo de apoyo'',
          ''apoyo a la integraci'' @ [o_acute] @ ''n'', ''apoyo a la integracion'',
          ''maestra integradora'', ''maestro integrador'']"
      and h: "py_in w ?t \<and> \<not> es_transporte ?t
        \<and> \<not> alguno_en terminos_profesionales ?t \<and> \<not> es_estimulacion ?t"
    from w h have "alguno_en terminos_integracion ?t"
      unfolding terminos_integracion_def by (intro alguno_en_I[of w]) blast+
    then show "map_actividad texto = (''089'', ''N'')" using h by (simp add: map_actividad_reglas)
  qed
  have te: "\<forall>w \<in> set [''honorarios profesionales'', ''sesiones'', ''terapia''].
        py_in w ?t \<and> \<not> es_transporte ?t
        \<and> \<not> alguno_en terminos_profesionales ?t \<and> \<not> es_estimulacion ?t
        \<and> \<not> alguno_en terminos_integracion ?t \<longrightarrow>
        map_actividad texto = (''090'', ''N'')"
    by (auto simp: map_actividad_reglas es_terapia_def)
  note ej = actividad_ejemplos
  show ?thesis
    apply (intro conjI)
    using base apply blast
    using base apply blast
    using base apply blast
    using base apply blast
    using base apply blast
    using base apply blast
    using base apply blast
    using base apply blast
    using base apply blast
    using base apply blast
    apply (rule tr)
    apply (rule km)
    apply (rule dp)
    apply (rule pr)
    apply (rule es)
    apply (rule it)
    apply (rule te)
    apply (rule ej(1))
    apply (rule ej(2))
    apply (rule ej(3))
    apply (rule ej(4))
    apply (rule ej(5))
    apply (rule ej(6))
    apply (rule ej(7))
    apply (rule ej(8))
    apply (rule ej(9))
    apply (rule ej(10))
    apply (rule ej(11))
    apply (rule ej(12))
    apply (rule ej(13))
    apply (rule ej(14))
    apply (rule ej(15))
    apply (rule ej(16))
    done
qed

theorem C6_activity_rules_witness:
  "py_lower ''TRANSPORTE km'' = py_lower ''transporte KM''
   \<and> map_actividad ''TRANSPORTE km'' = map_actividad ''transporte KM''
   \<and> py_in ''transporte'' ''transporte por discapacidad'' \<and> py_in ''discapacidad'' ''transporte por discapacidad''
   \<and> map_actividad ''transporte por discapacidad'' = (''096'', ''S'')
   \<and> py_in ''sesiones'' ''4 sesiones por dependencia''
   \<and> map_actividad ''4 sesiones por dependencia'' = (''090'', ''N'')
   \<and> map_actividad ''Psicologia y transporte'' = (''096'', ''N'')
   \<and> map_actividad ''Sesiones de Kinesiologia'' = (''091'', ''N'')
   \<and> map_actividad ''Maestro integrador'' = (''089'', ''N'')
   \<and> map_actividad ''Estimulacion Temprana'' = (''085'', ''N'')"
proof -
  have l: "py_lower ''TRANSPORTE km'' = py_lower ''transporte KM''" by code_simp
  have p: "py_in ''transporte'' ''transporte por discapacidad''"
    "py_in ''discapacidad'' ''transporte por discapacidad''"
    "py_in ''sesiones'' ''4 sesiones por dependencia''" by code_simp+
  have n: "\<not> es_transporte (py_lower ''4 sesiones por dependencia'')"
    "\<not> alguno_en terminos_profesionales (py_lower ''4 sesiones por dependencia'')"
    "\<not> es_estimulacion (py_lower ''4 sesiones por dependencia'')"
    "\<not> alguno_en terminos_integracion (py_lower ''4 sesiones por dependencia'')" by code_simp+
  have t: "es_transporte (py_lower ''Psicologia y transporte'')"
    "\<not> alguno_en terminos_dependencia (py_lower ''Psicologia y transporte'')" by code_simp+
  have k: "py_in ''kinesiologia'' (py_lower ''Sesiones de Kinesiologia'')"
    "\<not> es_transporte (py_lower ''Sesiones de Kinesiologia'')" by code_simp+
  have m: "py_in ''maestro integrador'' (py_lower ''Maestro integrador'')"
    "\<not> es_transporte (py_lower ''Maestro integrador'')"
    "\<not> alguno_en terminos_profesionales (py_lower ''Maestro integrador'')"
    "\<not> es_estimulacion (py_lower ''Maestro integrador'')" by code_simp+
  have s: "py_in ''estimulacion temprana'' (py_lower ''Estimulacion Temprana'')"
    "\<not> es_transporte (py_lower ''Estimulacion Temprana'')"
    "\<not> alguno_en terminos_profesionales (py_lower ''Estimulacion Temprana'')" by code_simp+
  have "py_lower ''TRANSPORTE km'' = py_lower ''transporte KM'' \<longrightarrow>
      map_actividad ''TRANSPORTE km'' = map_actividad ''transporte KM''"
    apply (insert C6_activity_rules [where a = "''TRANSPORTE km''" and b = "''transporte KM''" and texto = "[]"])
    apply (elim conjE)
    apply assumption
    done
  then have 1: "map_actividad ''TRANSPORTE km'' = map_actividad ''transporte KM''" using l by blast
  have "py_in ''transporte'' ''transporte por discapacidad'' \<and> py_in ''discapacidad'' ''transporte por discapacidad''
      \<longrightarrow> map_actividad ''transporte por discapacidad'' = (''096'', ''S'')"
    apply (insert C6_activity_rules [where texto = "''transporte por discapacidad''" and a = "[]" and b = "[]"])
    apply (elim conjE)
    apply assumption
    done
  then have 2: "map_actividad ''transporte por discapacidad'' = (''096'', ''S'')" using p by blast
  have "py_in ''sesiones'' ''4 sesiones por dependencia''
        \<and> \<not> es_transporte (py_lower ''4 sesiones por dependencia'')
        \<and> \<not> alguno_en terminos_profesionales (py_lower ''4 sesiones por dependencia'')
        \<and> \<not> es_estimulacion (py_lower ''4 sesiones por dependencia'')
        \<and> \<not> alguno_en terminos_integracion (py_lower ''4 sesiones por dependencia'')
      \<longrightarrow> map_actividad ''4 sesiones por dependencia'' = (''090'', ''N'')"
    apply (insert C6_activity_rules [where texto = "''4 sesiones por dependencia''" and a = "[]" and b = "[]"])
    apply (elim conjE)
    apply assumption
    done
  then have 3: "map_actividad ''4 sesiones por dependencia'' = (''090'', ''N'')" using p n by blast
  have "es_transporte (py_lower ''Psicologia y transporte'') \<longrightarrow>
      map_actividad ''Psicologia y transporte'' =
        (''096'', if alguno_en terminos_dependencia (py_lower ''Psicologia y transporte'') then ''S'' else ''N'')"
    apply (insert C6_activity_rules [where texto = "''Psicologia y transporte''" and a = "[]" and b = "[]"])
    apply (elim conjE)
    apply assumption
    done
  then have 4: "map_actividad ''Psicologia y transporte'' = (''096'', ''N'')" using t by simp
  have "\<forall>w \<in> set [''psicolog'' @ [i_acute] @ ''a'', ''psicologia'', ''psic'' @ [o_acute] @ ''logo'',
          ''psicologo'', ''musicoterapia'', ''musicoterapeuta'', ''kinesiolog'' @ [i_acute] @ ''a'',
          ''kinesiologia'', ''kinesi'' @ [o_acute] @ ''logo'', ''kinesiologo'',
          ''fonoaudiolog'' @ [i_acute] @ ''a'', ''fonoaudiologia'', ''fonoaudi'' @ [o_acute] @ ''logo'',
          ''fonoaudiologo'', ''psicopedagog'' @ [i_acute] @ ''a'', ''psicopedagogia'', ''psicopedagogo''].
        py_in w (py_lower ''Sesiones de Kinesiologia'') \<and> \<not> es_transporte (py_lower ''Sesiones de Kinesiologia'') \<longrightarrow>
        map_actividad ''Sesiones de Kinesiologia'' = (''091'', ''N'')"
    apply (insert C6_activity_rules [where texto = "''Sesiones de Kinesiologia''" and a = "[]" and b = "[]"])
    apply (elim conjE)
    apply assumption
    done
  then have 6: "map_actividad ''Sesiones de Kinesiologia'' = (''091'', ''N'')" using k by simp
  have "\<forall>w \<in> set [''m'' @ [o_acute] @ ''dulo de apoyo'', ''modulo de apoyo'',
          ''apoyo a la integraci'' @ [o_acute] @ ''n'', ''apoyo a la integracion'',
          ''maestra integradora'', ''maestro integrador''].
        py_in w (py_lower ''Maestro integrador'') \<and> \<not> es_transporte (py_lower ''Maestro integrador'')
        \<and> \<not> alguno_en terminos_profesionales (py_lower ''Maestro integrador'')
        \<and> \<not> es_estimulacion (py_lower ''Maestro integrador'') \<longrightarrow>
        map_actividad ''Maestro integrador'' = (''089'', ''N'')"
    apply (insert C6_activity_rules [where texto = "''Maestro integrador''" and a = "[]" and b = "[]"])
    apply (elim conjE)
    apply assumption
    done
  then have 7: "map_actividad ''Maestro integrador'' = (''089'', ''N'')" using m by simp
  have "\<forall>w \<in> set [''estimulaci'' @ [o_acute] @ ''n temprana'', ''estimulacion temprana''].
        py_in w (py_lower ''Estimulacion Temprana'') \<and> \<not> es_transporte (py_lower ''Estimulacion Temprana'')
        \<and> \<not> alguno_en terminos_profesionales (py_lower ''Estimulacion Temprana'') \<longrightarrow>
        map_actividad ''Estimulacion Temprana'' = (''085'', ''N'')"
    apply (insert C6_activity_rules [where texto = "''Estimulacion Temprana''" and a = "[]" and b = "[]"])
    apply (elim conjE)
    apply assumption
    done
  then have 8: "map_actividad ''Estimulacion Temprana'' = (''085'', ''N'')" using s by simp
  show ?thesis using l p 1 2 3 4 6 7 8 by (intro conjI)
qed

section \<open>The line of the TXT file\<close>

lemma length_zfill: "length (zfill w s) = max w (length s)"
  by (cases s) (auto simp: zfill_def)

lemma split_char_sin: "c \<notin> set f \<Longrightarrow> split_char c f = [f]"
  by (induction f) auto

lemma split_char_append: "c \<notin> set f \<Longrightarrow> split_char c (f @ c # s) = f # split_char c s"
  by (induction f) auto

lemma split_join:
  "xs \<noteq> [] \<Longrightarrow> \<forall>f \<in> set xs. c \<notin> set f \<Longrightarrow> split_char c (join [c] xs) = xs"
  by (induction "[c]" xs rule: join.induct) (auto simp: split_char_sin split_char_append)

lemma length_campos_linea: "length (campos_linea rnos fila info_pdf) = 19"
  by (simp add: campos_linea_def Let_def)

lemma codigo_cert_38:
  "(if length c > 38 then take 38 c else ljust 38 CHR ''0'' c) = take 38 (c @ replicate 38 CHR ''0'')"
  by (auto simp: ljust_def)

lemma campos_linea_orden:
  "campos_linea rnos fila info_pdf =
     [''DS'', rnos, cuil fila, take 38 (codigo_certificado fila @ replicate 38 CHR ''0''),
      vencimiento_certificado fila, the (info_pdf ''periodo''), the (info_pdf ''cuit_pre''),
      the (info_pdf ''codigo_cbte''), the (info_pdf ''tipo_emision''), the (info_pdf ''fecha_cbte''),
      the (info_pdf ''nro_cae''), zfill 5 (the (info_pdf ''pv'')), zfill 8 (the (info_pdf ''nro'')),
      zfill 14 (the (info_pdf ''importe'')), zfill 14 (the (info_pdf ''importe'')),
      the (info_pdf ''actividad''), the (info_pdf ''cantidad''), provincia fila,
      the (info_pdf ''dep'')]"
  unfolding campos_linea_def Let_def codigo_cert_38 by (rule refl)

lemma zfill_digitos_14:
  assumes "list_all is_digit s" "length s \<le> 14"
  shows "zfill 14 s = replicate (14 - length s) CHR ''0'' @ s"
proof (cases "s = []")
  case True
  then show ?thesis by (simp add: zfill_def)
next
  case False
  show ?thesis
  proof (cases "length s = 14")
    case True
    then show ?thesis by (simp add: zfill_def)
  next
    case False
    then have "length s < 14" using assms(2) by simp
    then show ?thesis using assms(1) \<open>s \<noteq> []\<close> by (intro zfill_digits) auto
  qed
qed

text \<open>
  Claim C4. When \<open>info_pdf\<close> has the twelve keys, \<open>construir_linea\<close> returns the nineteen
  fields of the layout, in its order, joined by \<open>|\<close>: the certificate code is the
  spreadsheet's code followed by zeros and cut to exactly 38 characters, and the amount is
  the same string in fields 14 and 15, namely \<open>zfill 14\<close> of the extracted amount. That
  string has 14 characters only when the amount has at most 14: \<open>zfill\<close> pads and never
  cuts, so its length is the larger of 14 and the amount's length; an amount of at most 14
  digits appears behind the missing zeros, and 150075 appears as 00000000150075 twice.
  Splitting the line at \<open>|\<close> gives the nineteen fields back when no field contains \<open>|\<close>.
\<close>

theorem C4_submission_line:
  assumes "\<forall>k \<in> set claves_linea. k \<in> dom info_pdf"
  shows "construir_linea rnos fila info_pdf = Some (join ''|'' (campos_linea rnos fila info_pdf))
    \<and> length (campos_linea rnos fila info_pdf) = 19
    \<and> campos_linea rnos fila info_pdf =
        [''DS'', rnos, cuil fila, take 38 (codigo_certificado fila @ replicate 38 CHR ''0''),
         vencimiento_certificado fila, the (info_pdf ''periodo''), the (info_pdf ''cuit_pre''),
         the (info_pdf ''codigo_cbte''), the (info_pdf ''tipo_emision''), the (info_pdf ''fecha_cbte''),
         the (info_pdf ''nro_cae''), zfill 5 (the (info_pdf ''pv'')), zfill 8 (the (info_pdf ''nro'')),
         zfill 14 (the (info_pdf ''importe'')), zfill 14 (the (info_pdf ''importe'')),
         the (info_pdf ''actividad''), the (info_pdf ''cantidad''), provincia fila,
         the (info_pdf ''dep'')]
    \<and> length (campos_linea rnos fila info_pdf ! 3) = 38
    \<and> campos_linea rnos fila info_pdf ! 13 = campos_linea rnos fila info_pdf ! 14
    \<and> length (campos_linea rnos fila info_pdf ! 13) = max 14 (length (the (info_pdf ''importe'')))
    \<and> (list_all is_digit (the (info_pdf ''importe'')) \<and> length (the (info_pdf ''importe'')) \<le> 14 \<longrightarrow>
          campos_linea rnos fila info_pdf ! 13 =
            replicate (14 - length (the (info_pdf ''importe''))) CHR ''0'' @ the (info_pdf ''importe'')
          \<and> length (campos_linea rnos fila info_pdf ! 13) = 14)
    \<and> (info_pdf ''importe'' = Some ''150075'' \<longrightarrow>
          campos_linea rnos fila info_pdf ! 13 = ''00000000150075''
          \<and> campos_linea rnos fila info_pdf ! 14 = ''00000000150075'')
    \<and> ((\<forall>f \<in> set (campos_linea rnos fila info_pdf). CHR ''|'' \<notin> set f) \<longrightarrow>
          split_char CHR ''|'' (join ''|'' (campos_linea rnos fila info_pdf))
            = campos_linea rnos fila info_pdf)"
proof -
  let ?c = "campos_linea rnos fila info_pdf"
  let ?imp = "the (info_pdf ''importe'')"
  have 1: "construir_linea rnos fila info_pdf = Some (join ''|'' ?c)"
    using assms unfolding construir_linea_def by simp
  have n13: "?c ! 13 = zfill 14 ?imp" and n14: "?c ! 14 = zfill 14 ?imp"
    by (simp_all add: campos_linea_orden)
  have n3: "?c ! 3 = take 38 (codigo_certificado fila @ replicate 38 CHR ''0'')"
    by (simp add: campos_linea_orden)
  have 4: "length (?c ! 3) = 38" unfolding n3 by simp
  have 6: "length (?c ! 13) = max 14 (length ?imp)" unfolding n13 by (rule length_zfill)
  have 7: "list_all is_digit ?imp \<and> length ?imp \<le> 14 \<longrightarrow>
      ?c ! 13 = replicate (14 - length ?imp) CHR ''0'' @ ?imp \<and> length (?c ! 13) = 14"
    unfolding n13 by (auto simp: zfill_digitos_14)
  have z: "zfill 14 ''150075'' = ''00000000150075''" by code_simp
  have 8: "info_pdf ''importe'' = Some ''150075'' \<longrightarrow>
      ?c ! 13 = ''00000000150075'' \<and> ?c ! 14 = ''00000000150075''"
    unfolding n13 n14 using z by simp
  have ne: "?c \<noteq> []" using length_campos_linea[of rnos fila info_pdf] by auto
  have 9: "(\<forall>f \<in> set ?c. CHR ''|'' \<notin> set f) \<longrightarrow> split_char CHR ''|'' (join ''|'' ?c) = ?c"
    using split_join[OF ne, of "CHR ''|''"] by blast
  show ?thesis
    using 1 length_campos_linea[of rnos fila info_pdf] campos_linea_orden[of rnos fila info_pdf]
      4 n13 n14 6 7 8 9 by (intro conjI) simp_all
qed

theorem C4_submission_line_witness:
  "extraer_info_pdf ahora_ejemplo texto_importe [] [] [] ''importe'' = Some ''150075''
   \<and> construir_linea ''123456'' fila_ejemplo (extraer_info_pdf ahora_ejemplo texto_importe [] [] [])
       = Some ''DS|123456|20111111112|ARG01000123456780000000000000000000000|30/03/2026|032025|30123456789|05|E|07/03/2025||00001|00000012|00000000150075|00000000150075|090|000004|02|N''
   \<and> campos_linea ''123456'' fila_ejemplo (extraer_info_pdf ahora_ejemplo texto_importe [] [] []) ! 13
       = ''00000000150075''
   \<and> campos_linea ''123456'' fila_ejemplo (extraer_info_pdf ahora_ejemplo texto_importe [] [] []) ! 14
       = ''00000000150075''
   \<and> split_char CHR ''|'' ''DS|123456|20111111112|ARG01000123456780000000000000000000000|30/03/2026|032025|30123456789|05|E|07/03/2025||00001|00000012|00000000150075|00000000150075|090|000004|02|N''
       = campos_linea ''123456'' fila_ejemplo (extraer_info_pdf ahora_ejemplo texto_importe [] [] [])"
proof -
  let ?i = "extraer_info_pdf ahora_ejemplo texto_importe [] [] []"
  let ?c = "campos_linea ''123456'' fila_ejemplo ?i"
  have v: "map ?i claves_linea =
      [Some ''30123456789'', Some ''05'', Some ''1'', Some ''12'', Some ''07/03/2025'', Some ''E'',
       Some [], Some ''150075'', Some ''032025'', Some ''090'', Some ''000004'', Some ''N'']"
    by code_simp
  have k: "\<forall>k \<in> set claves_linea. k \<in> dom ?i"
    using v by (simp add: claves_linea_def dom_def)
  have i: "?i ''importe'' = Some ''150075''"
    using v by (simp add: claves_linea_def)
  have c: "?c = [''DS'', ''123456'', ''20111111112'', ''ARG01000123456780000000000000000000000'',
      ''30/03/2026'', ''032025'', ''30123456789'', ''05'', ''E'', ''07/03/2025'', [], ''00001'',
      ''00000012'', ''00000000150075'', ''00000000150075'', ''090'', ''000004'', ''02'', ''N'']"
    by code_simp
  have p: "\<forall>f \<in> set ?c. CHR ''|'' \<notin> set f" unfolding c by simp
  have j: "join ''|'' ?c = ''DS|123456|20111111112|ARG01000123456780000000000000000000000|30/03/2026|032025|30123456789|05|E|07/03/2025||00001|00000012|00000000150075|00000000150075|090|000004|02|N''"
    unfolding c by simp
  note t = C4_submission_line [where info_pdf = "?i" and rnos = "''123456''" and fila = fila_ejemplo, OF k]
  have 1: "construir_linea ''123456'' fila_ejemplo ?i = Some (join ''|'' ?c)" using t by blast
  have 2: "?c ! 13 = ''00000000150075''" "?c ! 14 = ''00000000150075''" using t i by blast+
  have 3: "split_char CHR ''|'' (join ''|'' ?c) = ?c" using t p by blast
  show ?thesis using i 1 2 3 unfolding j by blast
qed

theorem C4_submission_line_counterexample:
  "construir_linea ''123456'' fila_ejemplo (extraer_info_pdf ahora_ejemplo texto_importe_largo [] [] [])
     = Some ''DS|123456|20111111112|ARG01000123456780000000000000000000000|30/03/2026|032025|30123456789|05|E|07/03/2025||00001|00000012|123456789012345|123456789012345|090|000004|02|N''
   \<and> campos_linea ''123456'' fila_ejemplo (extraer_info_pdf ahora_ejemplo texto_importe_largo [] [] []) ! 13
       = ''123456789012345''
   \<and> length (campos_linea ''123456'' fila_ejemplo
        (extraer_info_pdf ahora_ejemplo texto_importe_largo [] [] []) ! 13) = 15"
proof -
  let ?i = "extraer_info_pdf ahora_ejemplo texto_importe_largo [] [] []"
  let ?c = "campos_linea ''123456'' fila_ejemplo ?i"
  have v: "map ?i claves_linea =
      [Some ''30123456789'', Some ''05'', Some ''1'', Some ''12'', Some ''07/03/2025'', Some ''E'',
       Some [], Some ''123456789012345'', Some ''032025'', Some ''090'', Some ''000004'', Some ''N'']"
    by code_simp
  have k: "\<forall>k \<in> set claves_linea. k \<in> dom ?i"
    using v by (simp add: claves_linea_def dom_def)
  have c: "?c = [''DS'', ''123456'', ''20111111112'', ''ARG01000123456780000000000000000000000'',
      ''30/03/2026'', ''032025'', ''30123456789'', ''05'', ''E'', ''07/03/2025'', [], ''00001'',
      ''00000012'', ''123456789012345'', ''123456789012345'', ''090'', ''000004'', ''02'', ''N'']"
    by code_simp
  have 1: "construir_linea ''123456'' fila_ejemplo ?i = Some (join ''|'' ?c)"
    using k unfolding construir_linea_def by simp
  show ?thesis unfolding 1 unfolding c by simp
qed


section \<open>The issue date\<close>

lemma ms_fecha_cons:
  assumes "\<And>x. lit_match fl sep x \<longleftrightarrow> x = sep"
  shows "ms fl (Cat [Times 2 (Cls D), Lit sep, Times 2 (Cls D), Lit sep, Times 4 (Cls D)])
           (MState p (a # b # c # d # e # f # g # h # i # j # r) gs) =
         (if is_digit a \<and> is_digit b \<and> c = sep \<and> is_digit d \<and> is_digit e \<and> f = sep
             \<and> is_digit g \<and> is_digit h \<and> is_digit i \<and> is_digit j
          then [MState (Some j) r gs] else [])"
  by (simp add: eval_nat_numeral assms)

lemma lista_de_diez:
  "length xs = 10 \<Longrightarrow> \<exists>a b c d e f g h i j. xs = [a, b, c, d, e, f, g, h, i, j]"
  by (auto simp: length_Suc_conv eval_nat_numeral)

lemma length_diez:
  assumes "10 \<le> length s"
  shows "\<exists>a b c d e f g h i j r. s = a # b # c # d # e # f # g # h # i # j # r"
proof -
  define t where "t = take 10 s"
  have "length t = 10" using assms by (simp add: t_def)
  from lista_de_diez[OF this] obtain a b c d e f g h i j where "t = [a, b, c, d, e, f, g, h, i, j]"
    by blast
  moreover have "s = t @ drop 10 s" by (simp add: t_def)
  ultimately have "s = a # b # c # d # e # f # g # h # i # j # drop 10 s" by simp
  then show ?thesis by blast
qed

lemma ms_fecha:
  assumes sep: "\<And>x. lit_match fl sep x \<longleftrightarrow> x = sep"
  shows "ms fl (Cat [Times 2 (Cls D), Lit sep, Times 2 (Cls D), Lit sep, Times 4 (Cls D)]) (MState p s gs) =
         (if fecha_al_inicio sep s then [MState (Some (s ! 9)) (drop 10 s) gs] else [])"
    (is "ms fl ?R _ = _")
proof (cases "10 \<le> length s")
  case True
  from length_diez[OF this] obtain a b c d e f g h i j r
    where s: "s = a # b # c # d # e # f # g # h # i # j # r" by blast
  show ?thesis unfolding s ms_fecha_cons[OF sep] by (auto simp: fecha_al_inicio_def)
next
  case False
  have "ms fl ?R (MState p s gs) = []"
  proof (rule ccontr)
    assume "ms fl ?R (MState p s gs) \<noteq> []"
    then obtain s' ss where "ms fl ?R (MState p s gs) = s' # ss" unfolding neq_Nil_conv by blast
    then have "s' \<in> set (ms fl ?R (MState p s gs))" by (metis list.set_intros(1))
    from ms_sound[OF this] obtain u where u: "s = u @ rest s'" "u \<in> lang fl ?R" by auto
    from lang_minlen[OF u(2)] have "10 \<le> length u" by simp
    then show False using u(1) False by simp
  qed
  then show ?thesis using False by (simp add: fecha_al_inicio_def)
qed

lemma lang_fecha:
  assumes sep: "\<And>x. lit_match fl sep x \<longleftrightarrow> x = sep"
    and u: "u \<in> lang fl (Cat [Times 2 (Cls D), Lit sep, Times 2 (Cls D), Lit sep, Times 4 (Cls D)])"
  shows "fecha_al_inicio sep u \<and> length u = 10"
proof -
  from u obtain a x b y c where "u = a @ [x] @ b @ [y] @ c" "list_all is_digit a" "length a = 2"
    "x = sep" "list_all is_digit b" "length b = 2" "y = sep" "list_all is_digit c" "length c = 4"
    unfolding Cat.simps in_lang_Seq lang_digits in_lang_Lit in_lang_Eps sep by auto
  moreover from this obtain a1 a2 b1 b2 c1 c2 c3 c4 where "a = [a1, a2]" "b = [b1, b2]" "c = [c1, c2, c3, c4]"
    by (auto simp: length_Suc_conv eval_nat_numeral)
  ultimately show ?thesis by (auto simp: fecha_al_inicio_def)
qed

lemma search_from_fecha_Nil:
  assumes sep: "\<And>x. lit_match fl sep x \<longleftrightarrow> x = sep"
  shows "search_from fl (Cat [Times 2 (Cls D), Lit sep, Times 2 (Cls D), Lit sep, Times 4 (Cls D)]) p [] = None"
  by (simp add: ms_fecha[OF sep] fecha_al_inicio_def del: Cat.simps)

lemma search_from_fecha_Cons:
  assumes sep: "\<And>x. lit_match fl sep x \<longleftrightarrow> x = sep"
  shows "search_from fl (Cat [Times 2 (Cls D), Lit sep, Times 2 (Cls D), Lit sep, Times 4 (Cls D)]) p (c # cs) =
     (if fecha_al_inicio sep (c # cs)
      then Some (MState (Some ((c # cs) ! 9)) (drop 10 (c # cs)) [0 \<mapsto> take 10 (c # cs)])
      else search_from fl (Cat [Times 2 (Cls D), Lit sep, Times 2 (Cls D), Lit sep, Times 4 (Cls D)]) (Some c) cs)"
proof (cases "fecha_al_inicio sep (c # cs)")
  case True
  then have l: "10 \<le> length (c # cs)" by (simp add: fecha_al_inicio_def)
  then have "length (c # cs) - length (drop 10 (c # cs)) = 10" by simp
  then show ?thesis using True
    by (simp add: ms_fecha[OF sep] set_group_def del: Cat.simps drop_Suc_Cons take_Suc_Cons length_drop)
next
  case False
  then show ?thesis by (simp add: ms_fecha[OF sep] del: Cat.simps)
qed

lemma search_from_fecha_shorter:
  assumes "search_from fl (Cat [Times 2 (Cls D), Lit sep, Times 2 (Cls D), Lit sep, Times 4 (Cls D)]) p cs = Some s'"
  shows "length (rest s') < length cs"
proof -
  from search_from_sound[OF assms] obtain a u where
    m: "is_match fl (Cat [Times 2 (Cls D), Lit sep, Times 2 (Cls D), Lit sep, Times 4 (Cls D)]) (groups s')"
    and cs: "cs = a @ u @ rest s'" and g: "groups s' 0 = Some u" by blast
  from is_match_group0[OF m] g have "u \<in> lang fl (Cat [Times 2 (Cls D), Lit sep, Times 2 (Cls D), Lit sep, Times 4 (Cls D)])"
    by (simp add: group_def)
  from lang_minlen[OF this] have "10 \<le> length u" by simp
  moreover have "length cs = length a + length u + length (rest s')" unfolding cs by simp
  ultimately show ?thesis by linarith
qed

lemma finditer_fecha:
  "\<forall>x. lit_match fl sep x \<longleftrightarrow> x = sep \<Longrightarrow>
     map (\<lambda>m. group m 0)
       (finditer_from fl (Cat [Times 2 (Cls D), Lit sep, Times 2 (Cls D), Lit sep, Times 4 (Cls D)]) p s)
     = fechas_en sep s"
proof (induction sep s arbitrary: p rule: fechas_en.induct)
  case (1 sp s)
  have sep: "\<And>x. lit_match fl sp x \<longleftrightarrow> x = sp" using "1.prems" by blast
  show ?case
  proof (cases s)
    case Nil
    then show ?thesis
      using search_from_fecha_Nil[OF sep, where p = p]
      by (subst finditer_from.simps, subst fechas_en.simps) (simp del: Cat.simps)
  next
    case (Cons c cs)
    show ?thesis
    proof (cases "fecha_al_inicio sp s")
      case True
      then have l: "10 \<le> length s" by (simp add: fecha_al_inicio_def)
      have sf: "search_from fl (Cat [Times 2 (Cls D), Lit sp, Times 2 (Cls D), Lit sp, Times 4 (Cls D)]) p s
          = Some (MState (Some (s ! 9)) (drop 10 s) [0 \<mapsto> take 10 s])"
        using search_from_fecha_Cons[OF sep, where p = p and c = c and cs = cs] True unfolding Cons by simp
      have ih: "map (\<lambda>m. group m 0)
          (finditer_from fl (Cat [Times 2 (Cls D), Lit sp, Times 2 (Cls D), Lit sp, Times 4 (Cls D)])
             (Some (s ! 9)) (drop 10 s)) = fechas_en sp (drop 10 s)"
        using "1.IH"(1)[OF _ True "1.prems"] Cons by simp
      have sh: "length (drop 10 s) < length s" using l by simp
      have g0: "group [0 \<mapsto> take 10 s] 0 = take 10 s" by (simp add: group_def)
      have "finditer_from fl (Cat [Times 2 (Cls D), Lit sp, Times 2 (Cls D), Lit sp, Times 4 (Cls D)]) p s
          = [0 \<mapsto> take 10 s] #
            finditer_from fl (Cat [Times 2 (Cls D), Lit sp, Times 2 (Cls D), Lit sp, Times 4 (Cls D)])
              (Some (s ! 9)) (drop 10 s)"
        by (subst finditer_from.simps) (simp only: sf option.case mstate.sel sh if_True)
      then have "map (\<lambda>m. group m 0)
          (finditer_from fl (Cat [Times 2 (Cls D), Lit sp, Times 2 (Cls D), Lit sp, Times 4 (Cls D)]) p s)
          = take 10 s # fechas_en sp (drop 10 s)"
        by (simp only: list.map g0 ih)
      also have "\<dots> = fechas_en sp s"
        using True Cons by (subst (2) fechas_en.simps) simp
      finally show ?thesis .
    next
      case False
      have sf: "search_from fl (Cat [Times 2 (Cls D), Lit sp, Times 2 (Cls D), Lit sp, Times 4 (Cls D)]) p s
          = search_from fl (Cat [Times 2 (Cls D), Lit sp, Times 2 (Cls D), Lit sp, Times 4 (Cls D)]) (Some c) cs"
        using search_from_fecha_Cons[OF sep, where p = p and c = c and cs = cs] False unfolding Cons by simp
      have ih: "map (\<lambda>m. group m 0)
          (finditer_from fl (Cat [Times 2 (Cls D), Lit sp, Times 2 (Cls D), Lit sp, Times 4 (Cls D)])
             (Some c) cs) = fechas_en sp cs"
        using "1.IH"(2)[OF _ False "1.prems"] Cons by simp
      have eq: "finditer_from fl (Cat [Times 2 (Cls D), Lit sp, Times 2 (Cls D), Lit sp, Times 4 (Cls D)]) p s
          = finditer_from fl (Cat [Times 2 (Cls D), Lit sp, Times 2 (Cls D), Lit sp, Times 4 (Cls D)]) (Some c) cs"
      proof (cases "search_from fl (Cat [Times 2 (Cls D), Lit sp, Times 2 (Cls D), Lit sp, Times 4 (Cls D)]) (Some c) cs")
        case None
        then show ?thesis
          by (subst finditer_from.simps, subst (2) finditer_from.simps) (simp only: sf option.case)
      next
        case (Some s')
        from search_from_fecha_shorter[OF Some] have "length (rest s') < length cs" .
        moreover then have "length (rest s') < length s" using Cons by simp
        ultimately show ?thesis
          by (subst finditer_from.simps, subst (2) finditer_from.simps) (simp only: sf Some option.case if_True)
      qed
      have "fechas_en sp s = fechas_en sp cs"
        using False Cons by (subst fechas_en.simps) simp
      then show ?thesis using eq ih by simp
    qed
  qed
qed

lemma findall_fecha_barras: "re_findall [] fecha_barras texto = fechas_en CHR ''/'' texto"
  unfolding re_findall_def re_finditer_def fecha_barras_def
  by (rule finditer_fecha) (simp add: lit_match_slash)

lemma findall_fecha_guiones: "re_findall [] fecha_guiones texto = fechas_en CHR ''-'' texto"
  unfolding re_findall_def re_finditer_def fecha_guiones_def
  by (rule finditer_fecha) (simp add: lit_match_hyphen)

lemma fecha_etiquetada:
  assumes "re_search [I] fecha_emision texto = Some m"
  shows "fecha_al_inicio CHR ''/'' (group m 1) \<and> length (group m 1) = 10"
proof -
  have "group m 1 \<in> lang [I] fecha_barras"
    using re_search_group[OF assms fecha_emision_groups(1) zero_less_one]
    unfolding fecha_emision_groups(2) by blast
  then show ?thesis unfolding fecha_barras_def by (intro lang_fecha) (rule lit_match_slash)
qed

lemma fechas_en_forma:
  "f \<in> set (fechas_en sep s) \<Longrightarrow> fecha_al_inicio sep f \<and> length f = 10 \<and> py_in f s"
proof (induction sep s rule: fechas_en.induct)
  case (1 sep s)
  show ?case
  proof (cases "s = []")
    case True
    then show ?thesis using "1.prems" by (subst (asm) fechas_en.simps) simp
  next
    case ne: False
    show ?thesis
    proof (cases "fecha_al_inicio sep s")
      case True
      then have l: "10 \<le> length s" by (simp add: fecha_al_inicio_def)
      from "1.prems" have "f = take 10 s \<or> f \<in> set (fechas_en sep (drop 10 s))"
        using ne True by (subst (asm) fechas_en.simps) simp
      then show ?thesis
      proof
        assume f: "f = take 10 s"
        have "s = [] @ f @ drop 10 s" unfolding f by simp
        then have "py_in f s" unfolding py_in_iff by blast
        moreover have "fecha_al_inicio sep f"
          using True l unfolding f by (simp add: fecha_al_inicio_def)
        ultimately show ?thesis using l f by simp
      next
        assume "f \<in> set (fechas_en sep (drop 10 s))"
        from "1.IH"(1)[OF ne True this] obtain a b where
          "fecha_al_inicio sep f" "length f = 10" "drop 10 s = a @ f @ b"
          unfolding py_in_iff by blast
        moreover then have "s = (take 10 s @ a) @ f @ b"
          using append_take_drop_id[of 10 s] by simp
        ultimately show ?thesis unfolding py_in_iff by blast
      qed
    next
      case False
      from "1.prems" have "f \<in> set (fechas_en sep (tl s))"
        using ne False by (subst (asm) fechas_en.simps) simp
      from "1.IH"(2)[OF ne False this] obtain a b where
        "fecha_al_inicio sep f" "length f = 10" "tl s = a @ f @ b"
        unfolding py_in_iff by blast
      moreover then have "s = (hd s # a) @ f @ b" using ne by (cases s) auto
      ultimately show ?thesis unfolding py_in_iff by blast
    qed
  qed
qed

text \<open>
  Claim C5. \<open>extraer_fecha\<close> is a cascade. If the labelled pattern matches, its date is
  returned, whatever other dates the text has. Otherwise the dates with slashes are those
  met reading the text from left to right, each search starting after the previous date:
  with four or more of them the fourth is returned, with fewer the first; with none, the
  first date with hyphens is returned with its hyphens turned into slashes; and with none
  of those, the date of the clock. Every date found is a piece of the text, ten characters
  long, of the form two digits, separator, two digits, separator, four digits.
\<close>

theorem C5_issue_date_cascade:
  "(re_search [I] fecha_emision texto \<noteq> None \<longrightarrow>
      extraer_fecha ahora texto = group (the (re_search [I] fecha_emision texto)) 1
      \<and> fecha_al_inicio CHR ''/'' (extraer_fecha ahora texto) \<and> length (extraer_fecha ahora texto) = 10)
   \<and> re_findall [] fecha_barras texto = fechas_en CHR ''/'' texto
   \<and> re_findall [] fecha_guiones texto = fechas_en CHR ''-'' texto
   \<and> (re_search [I] fecha_emision texto = None \<longrightarrow>
        extraer_fecha ahora texto =
          (if 4 \<le> length (fechas_en CHR ''/'' texto) then fechas_en CHR ''/'' texto ! 3
           else if fechas_en CHR ''/'' texto \<noteq> [] then hd (fechas_en CHR ''/'' texto)
           else if fechas_en CHR ''-'' texto \<noteq> []
             then py_replace_char CHR ''-'' CHR ''/'' (hd (fechas_en CHR ''-'' texto))
           else strftime_dmY ahora))
   \<and> (\<forall>f \<in> set (fechas_en CHR ''/'' texto) \<union> set (fechas_en CHR ''-'' texto).
        length f = 10 \<and> py_in f texto
        \<and> (fecha_al_inicio CHR ''/'' f \<or> fecha_al_inicio CHR ''-'' f))"
proof -
  have 1: "re_search [I] fecha_emision texto \<noteq> None \<longrightarrow>
      extraer_fecha ahora texto = group (the (re_search [I] fecha_emision texto)) 1
      \<and> fecha_al_inicio CHR ''/'' (extraer_fecha ahora texto) \<and> length (extraer_fecha ahora texto) = 10"
  proof
    assume "re_search [I] fecha_emision texto \<noteq> None"
    then obtain m where m: "re_search [I] fecha_emision texto = Some m" by blast
    have e: "extraer_fecha ahora texto = group m 1" by (simp add: extraer_fecha_def m)
    show "extraer_fecha ahora texto = group (the (re_search [I] fecha_emision texto)) 1
      \<and> fecha_al_inicio CHR ''/'' (extraer_fecha ahora texto) \<and> length (extraer_fecha ahora texto) = 10"
      using fecha_etiquetada[OF m] unfolding e m by simp
  qed
  have 4: "re_search [I] fecha_emision texto = None \<longrightarrow>
        extraer_fecha ahora texto =
          (if 4 \<le> length (fechas_en CHR ''/'' texto) then fechas_en CHR ''/'' texto ! 3
           else if fechas_en CHR ''/'' texto \<noteq> [] then hd (fechas_en CHR ''/'' texto)
           else if fechas_en CHR ''-'' texto \<noteq> []
             then py_replace_char CHR ''-'' CHR ''/'' (hd (fechas_en CHR ''-'' texto))
           else strftime_dmY ahora)"
    by (simp add: extraer_fecha_def Let_def findall_fecha_barras findall_fecha_guiones hd_conv_nth)
  have 5: "\<forall>f \<in> set (fechas_en CHR ''/'' texto) \<union> set (fechas_en CHR ''-'' texto).
        length f = 10 \<and> py_in f texto
        \<and> (fecha_al_inicio CHR ''/'' f \<or> fecha_al_inicio CHR ''-'' f)"
    using fechas_en_forma by blast
  show ?thesis using 1 findall_fecha_barras findall_fecha_guiones 4 5 by blast
qed

theorem C5_issue_date_cascade_witness:
  "re_search [I] fecha_emision texto_cuatro_fechas = None
   \<and> fechas_en CHR ''/'' texto_cuatro_fechas = [''01/02/2025'', ''28/02/2025'', ''10/03/2025'', ''05/03/2025'']
   \<and> extraer_fecha ahora_ejemplo texto_cuatro_fechas = ''05/03/2025''
   \<and> py_in ''05/03/2025'' texto_cuatro_fechas
   \<and> re_search [I] fecha_emision texto_fecha_etiquetada \<noteq> None
   \<and> extraer_fecha ahora_ejemplo texto_fecha_etiquetada = ''01/01/2025''
   \<and> extraer_fecha ahora_ejemplo ''Vence 10/03/2025, emitida 05/03/2025'' = ''10/03/2025''
   \<and> extraer_fecha ahora_ejemplo ''Emitida el 05-03-2025'' = ''05/03/2025''
   \<and> extraer_fecha ahora_ejemplo ''sin fecha'' = ''07/03/2025''"
proof -
  have n: "re_search [I] fecha_emision texto_cuatro_fechas = None" by code_simp
  have f: "fechas_en CHR ''/'' texto_cuatro_fechas = [''01/02/2025'', ''28/02/2025'', ''10/03/2025'', ''05/03/2025'']"
    by code_simp
  have 1: "extraer_fecha ahora_ejemplo texto_cuatro_fechas = ''05/03/2025''"
    using C5_issue_date_cascade [where texto = texto_cuatro_fechas and ahora = ahora_ejemplo] n
    unfolding f by simp
  have "\<forall>f \<in> set (fechas_en CHR ''/'' texto_cuatro_fechas) \<union> set (fechas_en CHR ''-'' texto_cuatro_fechas).
      length f = 10 \<and> py_in f texto_cuatro_fechas \<and> (fecha_al_inicio CHR ''/'' f \<or> fecha_al_inicio CHR ''-'' f)"
    using C5_issue_date_cascade [where texto = texto_cuatro_fechas and ahora = ahora_ejemplo] by blast
  then have 2: "py_in ''05/03/2025'' texto_cuatro_fechas" unfolding f by simp
  have s: "re_search [I] fecha_emision texto_fecha_etiquetada \<noteq> None" by code_simp
  have g: "group (the (re_search [I] fecha_emision texto_fecha_etiquetada)) 1 = ''01/01/2025''" by code_simp
  have 3: "extraer_fecha ahora_ejemplo texto_fecha_etiquetada = ''01/01/2025''"
    using C5_issue_date_cascade [where texto = texto_fecha_etiquetada and ahora = ahora_ejemplo] s
    unfolding g by blast
  have n2: "re_search [I] fecha_emision ''Vence 10/03/2025, emitida 05/03/2025'' = None"
    "re_search [I] fecha_emision ''Emitida el 05-03-2025'' = None"
    "re_search [I] fecha_emision ''sin fecha'' = None" by code_simp+
  have f2: "fechas_en CHR ''/'' ''Vence 10/03/2025, emitida 05/03/2025'' = [''10/03/2025'', ''05/03/2025'']"
    "fechas_en CHR ''/'' ''Emitida el 05-03-2025'' = []"
    "fechas_en CHR ''-'' ''Emitida el 05-03-2025'' = [''05-03-2025'']"
    "fechas_en CHR ''/'' ''sin fecha'' = []" "fechas_en CHR ''-'' ''sin fecha'' = []" by code_simp+
  have r: "py_replace_char CHR ''-'' CHR ''/'' ''05-03-2025'' = ''05/03/2025''"
    "strftime_dmY ahora_ejemplo = ''07/03/2025''" by code_simp+
  have 4: "extraer_fecha ahora_ejemplo ''Vence 10/03/2025, emitida 05/03/2025'' = ''10/03/2025''"
    using C5_issue_date_cascade [where texto = "''Vence 10/03/2025, emitida 05/03/2025''" and ahora = ahora_ejemplo]
      n2(1) unfolding f2 by simp
  have 5: "extraer_fecha ahora_ejemplo ''Emitida el 05-03-2025'' = ''05/03/2025''"
    using C5_issue_date_cascade [where texto = "''Emitida el 05-03-2025''" and ahora = ahora_ejemplo]
      n2(2) r(1) unfolding f2 by simp
  have 6: "extraer_fecha ahora_ejemplo ''sin fecha'' = ''07/03/2025''"
    using C5_issue_date_cascade [where texto = "''sin fecha''" and ahora = ahora_ejemplo]
      n2(3) r(2) unfolding f2 by simp
  show ?thesis using n f 1 2 s 3 4 5 6 by blast
qed

theorem C5_issue_date_cascade_counterexample:
  "re_findall [] fecha_barras texto_fecha_etiquetada = [''01/01/2025'', ''02/01/2025'', ''03/01/2025'', ''04/01/2025'']
   \<and> re_findall [] fecha_barras texto_fecha_etiquetada ! 3 = ''04/01/2025''
   \<and> extraer_fecha ahora_ejemplo texto_fecha_etiquetada = ''01/01/2025''
   \<and> extraer_fecha ahora_ejemplo texto_fecha_etiquetada \<noteq> re_findall [] fecha_barras texto_fecha_etiquetada ! 3"
proof -
  have a: "re_findall [] fecha_barras texto_fecha_etiquetada
      = [''01/01/2025'', ''02/01/2025'', ''03/01/2025'', ''04/01/2025'']" by code_simp
  have b: "extraer_fecha ahora_ejemplo texto_fecha_etiquetada = ''01/01/2025''" by code_simp
  show ?thesis unfolding a b by simp
qed


section \<open>The check of the two pages\<close>

lemma extraer_datos_flexible_truthy:
  "extraer_datos_flexible texto = Some nombre \<Longrightarrow> nombre \<noteq> []"
  by (auto simp: extraer_datos_flexible_def Let_def split: if_splits prod.splits)

lemma truthy_datos: "truthy (extraer_datos_flexible texto) \<longleftrightarrow> extraer_datos_flexible texto \<noteq> None"
  using extraer_datos_flexible_truthy[of texto] by (cases "extraer_datos_flexible texto") (auto simp: truthy_def)

text \<open>
  Claim C3. \<open>extraer_desde_dos_paginas\<close> reads the two pages (what OCR gives for them when
  the two texts together have fewer than 20 characters after stripping) and applies
  \<open>extraer_datos_flexible\<close> to each. When both give a name and the names are equal, that
  name is returned with no error; when both give a name and the names differ, no name is
  returned and the error is the inconsistency message; when exactly one page gives a name,
  that name is returned with no error; when neither does, no name is returned and the
  error says that nothing could be extracted.
\<close>

theorem C3_two_page_check:
  assumes "t1 = (if length (py_strip (texto_1 @ texto_2)) < 20 then texto_1_ocr else texto_1)"
    and "t2 = (if length (py_strip (texto_1 @ texto_2)) < 20 then texto_2_ocr else texto_2)"
  shows "(\<forall>a. extraer_datos_flexible t1 = Some a \<and> extraer_datos_flexible t2 = Some a \<longrightarrow>
            extraer_desde_dos_paginas texto_1 texto_2 texto_1_ocr texto_2_ocr = (Some a, None))
    \<and> (\<forall>a b. extraer_datos_flexible t1 = Some a \<and> extraer_datos_flexible t2 = Some b \<and> a \<noteq> b \<longrightarrow>
            extraer_desde_dos_paginas texto_1 texto_2 texto_1_ocr texto_2_ocr = (None, Some error_inconsistencia))
    \<and> (\<forall>a. extraer_datos_flexible t1 = Some a \<and> extraer_datos_flexible t2 = None \<longrightarrow>
            extraer_desde_dos_paginas texto_1 texto_2 texto_1_ocr texto_2_ocr = (Some a, None))
    \<and> (\<forall>b. extraer_datos_flexible t1 = None \<and> extraer_datos_flexible t2 = Some b \<longrightarrow>
            extraer_desde_dos_paginas texto_1 texto_2 texto_1_ocr texto_2_ocr = (Some b, None))
    \<and> (extraer_datos_flexible t1 = None \<and> extraer_datos_flexible t2 = None \<longrightarrow>
            extraer_desde_dos_paginas texto_1 texto_2 texto_1_ocr texto_2_ocr = (None, Some error_sin_datos))"
proof -
  have r: "extraer_desde_dos_paginas texto_1 texto_2 texto_1_ocr texto_2_ocr =
      (if extraer_datos_flexible t1 \<noteq> None \<and> extraer_datos_flexible t2 \<noteq> None
       then (if extraer_datos_flexible t1 = extraer_datos_flexible t2 then (extraer_datos_flexible t1, None)
             else (None, Some error_inconsistencia))
       else if extraer_datos_flexible t1 \<noteq> None then (extraer_datos_flexible t1, None)
       else if extraer_datos_flexible t2 \<noteq> None then (extraer_datos_flexible t2, None)
       else (None, Some error_sin_datos))"
    unfolding extraer_desde_dos_paginas_def Let_def truthy_datos assms by simp
  show ?thesis unfolding r by simp
qed

theorem C3_two_page_check_witness:
  "extraer_datos_flexible pagina_1234 = Some ''30123456789_5_4_1234.pdf''
   \<and> extraer_datos_flexible pagina_1235 = Some ''30123456789_5_4_1235.pdf''
   \<and> extraer_datos_flexible [] = None
   \<and> extraer_desde_dos_paginas pagina_1234 pagina_1234 [] [] = (Some ''30123456789_5_4_1234.pdf'', None)
   \<and> extraer_desde_dos_paginas pagina_1234 pagina_1235 [] [] = (None, Some error_inconsistencia)
   \<and> extraer_desde_dos_paginas pagina_1234 [] [] [] = (Some ''30123456789_5_4_1234.pdf'', None)
   \<and> extraer_desde_dos_paginas [] pagina_1235 [] [] = (Some ''30123456789_5_4_1235.pdf'', None)
   \<and> extraer_desde_dos_paginas [] [] [] [] = (None, Some error_sin_datos)
   \<and> extraer_desde_dos_paginas [] [] pagina_1234 pagina_1234 = (Some ''30123456789_5_4_1234.pdf'', None)"
proof -
  have d1: "extraer_datos_flexible pagina_1234 = Some ''30123456789_5_4_1234.pdf''" by code_simp
  have d2: "extraer_datos_flexible pagina_1235 = Some ''30123456789_5_4_1235.pdf''" by code_simp
  have d3: "extraer_datos_flexible [] = None" by code_simp
  have l1: "\<not> length (py_strip (pagina_1234 @ pagina_1234)) < 20" by code_simp
  have l2: "\<not> length (py_strip (pagina_1234 @ pagina_1235)) < 20" by code_simp
  have l3: "\<not> length (py_strip (pagina_1234 @ [])) < 20" by code_simp
  have l4: "\<not> length (py_strip ([] @ pagina_1235)) < 20" by code_simp
  have l5: "length (py_strip ([] @ [])) < 20" by code_simp
  have n: "''30123456789_5_4_1234.pdf'' \<noteq> ''30123456789_5_4_1235.pdf''" by simp
  have a1: "pagina_1234 = (if length (py_strip (pagina_1234 @ pagina_1234)) < 20 then [] else pagina_1234)"
    by (simp only: l1 if_False)
  have a2: "pagina_1234 = (if length (py_strip (pagina_1234 @ pagina_1235)) < 20 then [] else pagina_1234)"
    "pagina_1235 = (if length (py_strip (pagina_1234 @ pagina_1235)) < 20 then [] else pagina_1235)"
    by (simp_all only: l2 if_False)
  have a3: "pagina_1234 = (if length (py_strip (pagina_1234 @ [])) < 20 then [] else pagina_1234)"
    "[] = (if length (py_strip (pagina_1234 @ [])) < 20 then [] else [])"
    by (simp_all only: l3 if_False)
  have a4: "[] = (if length (py_strip ([] @ pagina_1235)) < 20 then [] else [])"
    "pagina_1235 = (if length (py_strip ([] @ pagina_1235)) < 20 then [] else pagina_1235)"
    by (simp_all only: l4 if_False)
  have a5: "[] = (if length (py_strip ([] @ [])) < 20 then [] else [])"
    by (simp only: if_cancel)
  have a6: "pagina_1234 = (if length (py_strip ([] @ [])) < 20 then pagina_1234 else [])"
    by (simp only: l5 if_True)
  have 1: "extraer_desde_dos_paginas pagina_1234 pagina_1234 [] [] = (Some ''30123456789_5_4_1234.pdf'', None)"
    using C3_two_page_check [OF a1 a1] d1 by blast
  have 2: "extraer_desde_dos_paginas pagina_1234 pagina_1235 [] [] = (None, Some error_inconsistencia)"
    using C3_two_page_check [OF a2] d1 d2 n by blast
  have 3: "extraer_desde_dos_paginas pagina_1234 [] [] [] = (Some ''30123456789_5_4_1234.pdf'', None)"
    using C3_two_page_check [OF a3] d1 d3 by blast
  have 4: "extraer_desde_dos_paginas [] pagina_1235 [] [] = (Some ''30123456789_5_4_1235.pdf'', None)"
    using C3_two_page_check [OF a4] d2 d3 by blast
  have 5: "extraer_desde_dos_paginas [] [] [] [] = (None, Some error_sin_datos)"
    using C3_two_page_check [OF a5 a5] d3 by blast
  have 6: "extraer_desde_dos_paginas [] [] pagina_1234 pagina_1234 = (Some ''30123456789_5_4_1234.pdf'', None)"
    using C3_two_page_check [OF a6 a6] d1 by blast
  show ?thesis using d1 d2 d3 1 2 3 4 5 6 by blast
qed

end
